theory Spec2Isabelle
  imports Complex_Main "HOL-Library.Sublist"
begin

section \<open>Python values: exceptions, strings, dictionaries\<close>

text \<open>
  A raised exception is a value. \<open>HTTPException status detail\<close> is FastAPI's exception;
  \<open>PyException cls msg\<close> is any other Python exception of class \<open>cls\<close> whose
  \<open>str()\<close> is \<open>msg\<close>. A function that may raise returns \<open>exn + 'a\<close>.
\<close>

datatype exn = HTTPException nat string | PyException string string

text \<open>
  Strings are byte strings; \<open>str.upper\<close>, \<open>str.split\<close> and \<open>str.isspace\<close> are
  modelled on their ASCII range.
\<close>

definition upper_char :: "char \<Rightarrow> char" where
  "upper_char c =
     (if 97 \<le> (of_char c :: nat) \<and> (of_char c :: nat) \<le> 122
      then char_of ((of_char c :: nat) - 32) else c)"

definition upper :: "string \<Rightarrow> string" where
  "upper s = map upper_char s"

definition isspace :: "char \<Rightarrow> bool" where
  "isspace c = ((9 \<le> (of_char c :: nat) \<and> (of_char c :: nat) \<le> 13)
              \<or> (28 \<le> (of_char c :: nat) \<and> (of_char c :: nat) \<le> 32))"

text \<open>\<open>s.split()\<close>: the maximal runs of non-whitespace characters, in order.\<close>

fun split_words :: "string \<Rightarrow> string \<Rightarrow> string list" where
  "split_words cur [] = (if cur = [] then [] else [cur])"
| "split_words cur (c # cs) =
     (if isspace c then (if cur = [] then split_words [] cs else cur # split_words [] cs)
      else split_words (cur @ [c]) cs)"

definition str_split :: "string \<Rightarrow> string list" where
  "str_split s = split_words [] s"

text \<open>\<open>sep.join(xs)\<close>.\<close>

fun str_join :: "string \<Rightarrow> string list \<Rightarrow> string" where
  "str_join sep [] = []"
| "str_join sep [x] = x"
| "str_join sep (x # y # ys) = x @ sep @ str_join sep (y # ys)"

text \<open>
  A dict with string keys is an association list. \<open>dict_item d k\<close> is \<open>d[k]\<close>, which
  raises \<open>KeyError\<close>; \<open>dict_get d k v\<close> is \<open>d.get(k, v)\<close>.
\<close>

definition dict_item :: "(string \<times> 'v) list \<Rightarrow> string \<Rightarrow> exn + 'v" where
  "dict_item d k =
     (case map_of d k of
        None \<Rightarrow> Inl (PyException ''KeyError'' ([CHR 0x27] @ k @ [CHR 0x27]))
      | Some v \<Rightarrow> Inr v)"

definition dict_get :: "(string \<times> 'v) list \<Rightarrow> string \<Rightarrow> 'v \<Rightarrow> 'v" where
  "dict_get d k dflt = (case map_of d k of None \<Rightarrow> dflt | Some v \<Rightarrow> v)"

text \<open>\<open>d[k] = v\<close>: the value of an existing key is replaced, a new key goes last.\<close>

fun dict_set :: "(string \<times> 'v) list \<Rightarrow> string \<Rightarrow> 'v \<Rightarrow> (string \<times> 'v) list" where
  "dict_set [] k v = [(k, v)]"
| "dict_set ((k', v') # d) k v = (if k' = k then (k, v) # d else (k', v') # dict_set d k v)"

definition lower_char :: "char \<Rightarrow> char" where
  "lower_char c =
     (if 65 \<le> (of_char c :: nat) \<and> (of_char c :: nat) \<le> 90
      then char_of ((of_char c :: nat) + 32) else c)"

definition lower :: "string \<Rightarrow> string" where
  "lower s = map lower_char s"

text \<open>\<open>str(n)\<close> of a natural number, in decimal.\<close>

fun str_nat :: "nat \<Rightarrow> string" where
  "str_nat n = (if n < 10 then [char_of (48 + n)] else str_nat (n div 10) @ [char_of (48 + n mod 10)])"

text \<open>
  \<open>x or d\<close> for an optional string: \<open>None\<close> and the empty string are false.
\<close>

definition or_default :: "string option \<Rightarrow> string \<Rightarrow> string" where
  "or_default x d = (case x of None \<Rightarrow> d | Some s \<Rightarrow> if s = [] then d else s)"

text \<open>JSON values, for dict literals returned by handlers and for metadata.\<close>

datatype json = JNull | JBool bool | JInt int | JStr string | JList "json list" | JObj "(string \<times> json) list"

definition json_opt_str :: "string option \<Rightarrow> json" where
  "json_opt_str x = (case x of None \<Rightarrow> JNull | Some s \<Rightarrow> JStr s)"

section \<open>PIL images\<close>

type_synonym rgb = "nat \<times> nat \<times> nat"
type_synonym rgba = "nat \<times> nat \<times> nat \<times> nat"

record color_scheme =
  primary :: rgb
  secondary :: rgb
  accent :: rgb
  energy :: rgb

text \<open>\<open>ImageFont.truetype(path, size)\<close> and \<open>ImageFont.load_default()\<close>.\<close>

datatype font = TrueType string nat | DefaultFont

text \<open>
  What has been put on an image, in order. Pixel values are not modelled: \<open>Procedural\<close>
  stands for a variant's whole style-specific procedural drawing in the given colours
  (its random draws included), \<open>Generated\<close> for the output of the diffusion pipeline for
  a prompt and a negative prompt, \<open>File\<close> for an image file's pixels, \<open>Gradient\<close>
  for a vertical gradient between two colours and \<open>StyleElements\<close> for the lines, circles
  or rectangles app_minimal.py draws for a style in a colour. \<open>DrawText\<close> and
  \<open>RoundedRectangle\<close> are the \<open>ImageDraw\<close> calls \<open>draw.text(xy, text, fill, font)\<close> and
  \<open>draw.rounded_rectangle(box, radius, fill, outline, width)\<close>.
\<close>

datatype draw_op =
    Procedural string color_scheme
  | Generated string string
  | File string
  | Gradient rgb rgb
  | StyleElements string rgb
  | DrawText "int \<times> int" string rgba font
  | RoundedRectangle "int \<times> int \<times> int \<times> int" nat "rgba option" "rgba option" nat

record image =
  im_mode :: string
  im_size :: "int \<times> int"
  im_content :: "draw_op list"

definition Image_new :: "string \<Rightarrow> int \<times> int \<Rightarrow> exn + image" where
  "Image_new m sz =
     (if fst sz < 0 \<or> snd sz < 0
      then Inl (PyException ''ValueError'' ''Width and height must be >= 0'')
      else Inr \<lparr>im_mode = m, im_size = sz, im_content = []\<rparr>)"

definition convert :: "image \<Rightarrow> string \<Rightarrow> image" where
  "convert im m = im\<lparr>im_mode := m\<rparr>"

definition resize :: "image \<Rightarrow> int \<times> int \<Rightarrow> image" where
  "resize im sz = im\<lparr>im_size := sz\<rparr>"

text \<open>
  \<open>Image.alpha_composite(im1, im2)\<close> raises \<open>ValueError\<close> unless both images are RGBA
  and of the same size.
\<close>

definition alpha_composite :: "image \<Rightarrow> image \<Rightarrow> exn + image" where
  "alpha_composite im1 im2 =
     (if im_mode im1 = ''RGBA'' then
        (if im_mode im2 = im_mode im1 \<and> im_size im2 = im_size im1
         then Inr (im1\<lparr>im_content := im_content im1 @ im_content im2\<rparr>)
         else Inl (PyException ''ValueError'' ''images do not match''))
      else Inl (PyException ''ValueError'' ''image has wrong mode''))"

text \<open>\<open>random.randint(a, b)\<close> raises \<open>ValueError\<close> on an empty range.\<close>

definition randint_raises :: "int \<Rightarrow> int \<Rightarrow> bool" where
  "randint_raises a b = (b < a)"

definition empty_range :: exn where
  "empty_range = PyException ''ValueError'' ''empty range for randrange()''"

section \<open>Procedural backgrounds\<close>

subsection \<open>app_lightweight.py: create_enhanced_background\<close>

definition colors_lightweight :: "(string \<times> color_scheme) list" where
  "colors_lightweight =
     [(''hedera'', \<lparr>primary = (138, 43, 226), secondary = (75, 0, 130),
                    accent = (186, 85, 211), energy = (255, 0, 255)\<rparr>),
      (''algorand'', \<lparr>primary = (0, 120, 140), secondary = (0, 85, 100),
                      accent = (75, 163, 224), energy = (0, 255, 255)\<rparr>),
      (''constellation'', \<lparr>primary = (72, 61, 139), secondary = (25, 25, 112),
                           accent = (106, 90, 205), energy = (255, 255, 255)\<rparr>)]"

text \<open>The local \<open>client_colors = colors.get(client, colors['hedera'])\<close>.\<close>

definition client_colors_lightweight :: "string \<Rightarrow> exn + color_scheme" where
  "client_colors_lightweight client =
     (case dict_item colors_lightweight ''hedera'' of
        Inl e \<Rightarrow> Inl e
      | Inr dflt \<Rightarrow> Inr (dict_get colors_lightweight client dflt))"

text \<open>
  The style branches draw with \<open>random.randint\<close>: \<open>network_nodes\<close> draws from
  \<open>(50, width-50)\<close> and \<open>(50, height-50)\<close>, \<open>dark_theme\<close> from \<open>(100, width-100)\<close> and
  \<open>(100, height-100)\<close>; the other draws have constant, non-empty ranges or the range
  \<open>(0, width)\<close>, \<open>(0, height)\<close>, non-empty once \<open>Image.new\<close> has succeeded.
\<close>

definition create_enhanced_background :: "int \<Rightarrow> int \<Rightarrow> string \<Rightarrow> string \<Rightarrow> exn + image" where
  "create_enhanced_background width height client style =
     (case client_colors_lightweight client of
        Inl e \<Rightarrow> Inl e
      | Inr client_colors \<Rightarrow>
          (case Image_new ''RGB'' (width, height) of
             Inl e \<Rightarrow> Inl e
           | Inr img \<Rightarrow>
               if style = ''network_nodes''
                  \<and> (randint_raises 50 (width - 50) \<or> randint_raises 50 (height - 50))
               then Inl empty_range
               else if style = ''dark_theme''
                  \<and> (randint_raises 100 (width - 100) \<or> randint_raises 100 (height - 100))
               then Inl empty_range
               else Inr (img\<lparr>im_content := [Procedural style client_colors]\<rparr>)))"

subsection \<open>FRESH_SDXL_20251014_1514/app.py: generate_programmatic_fallback\<close>

definition colors_fresh :: "(string \<times> color_scheme) list" where
  "colors_fresh =
     [(''hedera'', \<lparr>primary = (138, 43, 226), secondary = (75, 0, 130),
                    accent = (186, 85, 211), energy = (255, 0, 255)\<rparr>),
      (''algorand'', \<lparr>primary = (0, 120, 140), secondary = (0, 85, 100),
                      accent = (75, 163, 224), energy = (0, 255, 255)\<rparr>),
      (''constellation'', \<lparr>primary = (72, 61, 139), secondary = (25, 25, 112),
                           accent = (106, 90, 205), energy = (255, 255, 255)\<rparr>)]"

definition client_colors_fresh :: "string \<Rightarrow> exn + color_scheme" where
  "client_colors_fresh client =
     (case dict_item colors_fresh ''hedera'' of
        Inl e \<Rightarrow> Inl e
      | Inr dflt \<Rightarrow> Inr (dict_get colors_fresh client dflt))"

text \<open>Only the \<open>dark_theme\<close> branch draws; its random draws have constant ranges.\<close>

definition generate_programmatic_fallback :: "int \<Rightarrow> int \<Rightarrow> string \<Rightarrow> string \<Rightarrow> exn + image" where
  "generate_programmatic_fallback width height client style =
     (case client_colors_fresh client of
        Inl e \<Rightarrow> Inl e
      | Inr client_colors \<Rightarrow>
          (case Image_new ''RGB'' (width, height) of
             Inl e \<Rightarrow> Inl e
           | Inr img \<Rightarrow> Inr (img\<lparr>im_content := [Procedural style client_colors]\<rparr>)))"

section \<open>Text overlays\<close>

text \<open>
  \<open>draw.textbbox((0, 0), text, font=font)\<close> is PIL's; it is a parameter \<open>textbbox\<close> of
  the functions that measure text. It may raise (the built-in bitmap font cannot encode
  every string); otherwise the box is \<open>(left, top, right, bottom)\<close>, in integer
  pixels, and the code's \<open>text_width\<close> is \<open>bbox[2] - bbox[0]\<close>. A \<open>draw.text\<close> call
  always follows a \<open>draw.textbbox\<close> call on the same text and font, so it raises nothing
  of its own.
\<close>

type_synonym textbbox = "font \<Rightarrow> string \<Rightarrow> exn + int \<times> int \<times> int \<times> int"

definition bbox_width :: "int \<times> int \<times> int \<times> int \<Rightarrow> int" where
  "bbox_width bbox = fst (snd (snd bbox)) - fst bbox"

definition bbox_height :: "int \<times> int \<times> int \<times> int \<Rightarrow> int" where
  "bbox_height bbox = snd (snd (snd bbox)) - fst (snd bbox)"

text \<open>
  The test \<open>text_width > width * 0.8\<close> compares an integer with a double. The double
  nearest to 0.8 is \<open>0.8 * (1 + 2^-54)\<close>, so for an integer \<open>width\<close> below \<open>2^53\<close> the
  product rounds to \<open>4 * width / 5\<close> when that is an integer, and otherwise lies strictly
  between the same two integers as \<open>4 * width / 5\<close>: the test is
  \<open>4 * width < 5 * text_width\<close>.
\<close>

definition too_wide :: "int \<Rightarrow> int \<Rightarrow> bool" where
  "too_wide text_width width = (4 * width < 5 * text_width)"

text \<open>An unbound local variable read: \<open>title_lines\<close> is assigned only when \<open>title\<close> is non-empty.\<close>

definition unbound_title_lines :: exn where
  "unbound_title_lines = PyException ''UnboundLocalError''
     ''cannot access local variable 'title_lines' where it is not associated with a value''"

subsection \<open>app_lightweight.py: create_text_overlay\<close>

definition title_lines_lightweight :: "textbbox \<Rightarrow> font \<Rightarrow> int \<Rightarrow> string \<Rightarrow> exn + string list" where
  "title_lines_lightweight textbbox f width title =
     (case textbbox f title of
        Inl e \<Rightarrow> Inl e
      | Inr bbox \<Rightarrow>
          (let text_width = bbox_width bbox in
           if too_wide text_width width then
             (let words = str_split title; mid = length words div 2
              in Inr [str_join '' '' (take mid words), str_join '' '' (drop mid words)])
           else Inr [title]))"

fun draw_title_lightweight ::
  "textbbox \<Rightarrow> font \<Rightarrow> int \<Rightarrow> int \<Rightarrow> nat \<Rightarrow> string list \<Rightarrow> exn + draw_op list" where
  "draw_title_lightweight textbbox f width title_y i [] = Inr []"
| "draw_title_lightweight textbbox f width title_y i (line # ls) =
     (case textbbox f line of
        Inl e \<Rightarrow> Inl e
      | Inr bbox \<Rightarrow>
          (let text_width = bbox_width bbox;
               x = (width - text_width) div 2;
               y = title_y + int i * 200
           in case draw_title_lightweight textbbox f width title_y (Suc i) ls of
                Inl e \<Rightarrow> Inl e
              | Inr rest \<Rightarrow>
                  Inr ([DrawText (x + 6, y + 6) line (0, 0, 0, 255) f,
                        DrawText (x + 3, y + 3) line (0, 0, 0, 180) f,
                        DrawText (x, y) line (255, 255, 255, 255) f] @ rest)))"

definition title_block_lightweight ::
  "textbbox \<Rightarrow> int \<Rightarrow> int \<Rightarrow> string \<Rightarrow> (string \<times> font) list
     \<Rightarrow> exn + string list option \<times> draw_op list" where
  "title_block_lightweight textbbox width title_y title fonts =
     (if title \<noteq> [] then
        (case dict_item fonts ''title'' of
           Inl e \<Rightarrow> Inl e
         | Inr tf \<Rightarrow>
             (case title_lines_lightweight textbbox tf width (upper title) of
                Inl e \<Rightarrow> Inl e
              | Inr title_lines \<Rightarrow>
                  (case draw_title_lightweight textbbox tf width title_y 0 title_lines of
                     Inl e \<Rightarrow> Inl e
                   | Inr ops \<Rightarrow> Inr (Some title_lines, ops))))
      else Inr (None, []))"

definition subtitle_block_lightweight ::
  "textbbox \<Rightarrow> int \<Rightarrow> int \<Rightarrow> string list option \<Rightarrow> string \<Rightarrow> (string \<times> font) list
     \<Rightarrow> exn + draw_op list" where
  "subtitle_block_lightweight textbbox width title_y title_lines subtitle fonts =
     (if subtitle \<noteq> [] then
        (case title_lines of
           None \<Rightarrow> Inl unbound_title_lines
         | Some ls \<Rightarrow>
             (let subtitle_y = title_y + int (length ls) * 200 + 80 in
              case dict_item fonts ''subtitle'' of
                Inl e \<Rightarrow> Inl e
              | Inr sf \<Rightarrow>
                  (case textbbox sf subtitle of
                     Inl e \<Rightarrow> Inl e
                   | Inr bbox \<Rightarrow>
                       (let text_width = bbox_width bbox;
                            box_padding = 25;
                            x = (width - text_width) div 2
                        in Inr [RoundedRectangle (x - box_padding, subtitle_y - box_padding div 2,
                                      x + text_width + box_padding, subtitle_y + 70 + box_padding div 2)
                                   15 (Some (0, 0, 0, 140)) None 1,
                               RoundedRectangle (x - box_padding + 2, subtitle_y - box_padding div 2 + 2,
                                      x + text_width + box_padding - 2,
                                      subtitle_y + 70 + box_padding div 2 - 2)
                                   13 None (Some (255, 255, 255, 50)) 1,
                               DrawText (x + 2, subtitle_y + 2) subtitle (0, 0, 0, 200) sf,
                               DrawText (x, subtitle_y) subtitle (255, 255, 255, 255) sf]))))
      else Inr [])"

definition create_text_overlay_lightweight ::
  "textbbox \<Rightarrow> int \<Rightarrow> int \<Rightarrow> string \<Rightarrow> string \<Rightarrow> (string \<times> font) list \<Rightarrow> exn + image" where
  "create_text_overlay_lightweight textbbox width height title subtitle fonts =
     (case Image_new ''RGBA'' (width, height) of
        Inl e \<Rightarrow> Inl e
      | Inr overlay \<Rightarrow>
          (let title_y = height div 3 in
           case title_block_lightweight textbbox width title_y title fonts of
             Inl e \<Rightarrow> Inl e
           | Inr (title_lines, title_ops) \<Rightarrow>
               (case subtitle_block_lightweight textbbox width title_y title_lines subtitle fonts of
                  Inl e \<Rightarrow> Inl e
                | Inr subtitle_ops \<Rightarrow>
                    Inr (overlay\<lparr>im_content := title_ops @ subtitle_ops\<rparr>))))"

subsection \<open>app_lora.py: create_text_overlay\<close>

definition title_lines_lora :: "textbbox \<Rightarrow> font \<Rightarrow> int \<Rightarrow> string \<Rightarrow> exn + string list" where
  "title_lines_lora textbbox f width title =
     (case textbbox f title of
        Inl e \<Rightarrow> Inl e
      | Inr bbox \<Rightarrow>
          (let text_width = bbox_width bbox in
           if too_wide text_width width then
             (let words = str_split title; mid = length words div 2
              in Inr [str_join '' '' (take mid words), str_join '' '' (drop mid words)])
           else Inr [title]))"

fun draw_title_lora ::
  "textbbox \<Rightarrow> font \<Rightarrow> int \<Rightarrow> int \<Rightarrow> nat \<Rightarrow> string list \<Rightarrow> exn + draw_op list" where
  "draw_title_lora textbbox f width title_y i [] = Inr []"
| "draw_title_lora textbbox f width title_y i (line # ls) =
     (case textbbox f line of
        Inl e \<Rightarrow> Inl e
      | Inr bbox \<Rightarrow>
          (let text_width = bbox_width bbox;
               x = (width - text_width) div 2;
               y = title_y + int i * 130
           in case draw_title_lora textbbox f width title_y (Suc i) ls of
                Inl e \<Rightarrow> Inl e
              | Inr rest \<Rightarrow>
                  Inr ([DrawText (x + 3, y + 3) line (0, 0, 0, 200) f,
                        DrawText (x, y) line (255, 255, 255, 255) f] @ rest)))"

definition title_block_lora ::
  "textbbox \<Rightarrow> int \<Rightarrow> int \<Rightarrow> string \<Rightarrow> (string \<times> font) list
     \<Rightarrow> exn + string list option \<times> draw_op list" where
  "title_block_lora textbbox width title_y title fonts =
     (if title \<noteq> [] then
        (case dict_item fonts ''title'' of
           Inl e \<Rightarrow> Inl e
         | Inr tf \<Rightarrow>
             (case title_lines_lora textbbox tf width (upper title) of
                Inl e \<Rightarrow> Inl e
              | Inr title_lines \<Rightarrow>
                  (case draw_title_lora textbbox tf width title_y 0 title_lines of
                     Inl e \<Rightarrow> Inl e
                   | Inr ops \<Rightarrow> Inr (Some title_lines, ops))))
      else Inr (None, []))"

definition subtitle_block_lora ::
  "textbbox \<Rightarrow> int \<Rightarrow> int \<Rightarrow> string list option \<Rightarrow> string \<Rightarrow> (string \<times> font) list
     \<Rightarrow> exn + draw_op list" where
  "subtitle_block_lora textbbox width title_y title_lines subtitle fonts =
     (if subtitle \<noteq> [] then
        (case title_lines of
           None \<Rightarrow> Inl unbound_title_lines
         | Some ls \<Rightarrow>
             (let subtitle_y = title_y + int (length ls) * 130 + 50 in
              case dict_item fonts ''subtitle'' of
                Inl e \<Rightarrow> Inl e
              | Inr sf \<Rightarrow>
                  (case textbbox sf subtitle of
                     Inl e \<Rightarrow> Inl e
                   | Inr bbox \<Rightarrow>
                       (let text_width = bbox_width bbox;
                            box_padding = 20;
                            x = (width - text_width) div 2
                        in Inr [RoundedRectangle (x - box_padding, subtitle_y - box_padding div 2,
                                      x + text_width + box_padding, subtitle_y + 60 + box_padding div 2)
                                   15 (Some (0, 0, 0, 120)) None 1,
                               DrawText (x + 2, subtitle_y + 2) subtitle (0, 0, 0, 150) sf,
                               DrawText (x, subtitle_y) subtitle (255, 255, 255, 255) sf]))))
      else Inr [])"

definition create_text_overlay_lora ::
  "textbbox \<Rightarrow> int \<Rightarrow> int \<Rightarrow> string \<Rightarrow> string \<Rightarrow> (string \<times> font) list \<Rightarrow> exn + image" where
  "create_text_overlay_lora textbbox width height title subtitle fonts =
     (case Image_new ''RGBA'' (width, height) of
        Inl e \<Rightarrow> Inl e
      | Inr overlay \<Rightarrow>
          (let title_y = height div 3 in
           case title_block_lora textbbox width title_y title fonts of
             Inl e \<Rightarrow> Inl e
           | Inr (title_lines, title_ops) \<Rightarrow>
               (case subtitle_block_lora textbbox width title_y title_lines subtitle fonts of
                  Inl e \<Rightarrow> Inl e
                | Inr subtitle_ops \<Rightarrow>
                    Inr (overlay\<lparr>im_content := title_ops @ subtitle_ops\<rparr>))))"

subsection \<open>FRESH_SDXL_20251014_1514/app.py: create_text_overlay\<close>

definition title_lines_fresh :: "textbbox \<Rightarrow> font \<Rightarrow> int \<Rightarrow> string \<Rightarrow> exn + string list" where
  "title_lines_fresh textbbox f width title =
     (let words = str_split title in
      if length words > 3 then
        (let mid = length words div 2
         in Inr [str_join '' '' (take mid words), str_join '' '' (drop mid words)])
      else Inr [title])"

fun draw_title_fresh ::
  "textbbox \<Rightarrow> font \<Rightarrow> int \<Rightarrow> int \<Rightarrow> nat \<Rightarrow> string list \<Rightarrow> exn + draw_op list" where
  "draw_title_fresh textbbox f width title_y i [] = Inr []"
| "draw_title_fresh textbbox f width title_y i (line # ls) =
     (case textbbox f line of
        Inl e \<Rightarrow> Inl e
      | Inr bbox \<Rightarrow>
          (let text_width = bbox_width bbox;
               x = (width - text_width) div 2;
               y = title_y + int i * 250
           in case draw_title_fresh textbbox f width title_y (Suc i) ls of
                Inl e \<Rightarrow> Inl e
              | Inr rest \<Rightarrow>
                  Inr ([DrawText (x + 8, y + 8) line (0, 0, 0, 255) f,
                        DrawText (x + 4, y + 4) line (0, 0, 0, 200) f,
                        DrawText (x, y) line (255, 255, 255, 255) f] @ rest)))"

definition title_block_fresh ::
  "textbbox \<Rightarrow> int \<Rightarrow> int \<Rightarrow> string \<Rightarrow> (string \<times> font) list
     \<Rightarrow> exn + string list option \<times> draw_op list" where
  "title_block_fresh textbbox width title_y title fonts =
     (if title \<noteq> [] then
        (case dict_item fonts ''title'' of
           Inl e \<Rightarrow> Inl e
         | Inr tf \<Rightarrow>
             (case title_lines_fresh textbbox tf width (upper title) of
                Inl e \<Rightarrow> Inl e
              | Inr title_lines \<Rightarrow>
                  (case draw_title_fresh textbbox tf width title_y 0 title_lines of
                     Inl e \<Rightarrow> Inl e
                   | Inr ops \<Rightarrow> Inr (Some title_lines, ops))))
      else Inr (None, []))"

definition subtitle_block_fresh ::
  "textbbox \<Rightarrow> int \<Rightarrow> int \<Rightarrow> string list option \<Rightarrow> string \<Rightarrow> (string \<times> font) list
     \<Rightarrow> exn + draw_op list" where
  "subtitle_block_fresh textbbox width title_y title_lines subtitle fonts =
     (if subtitle \<noteq> [] then
        (case title_lines of
           None \<Rightarrow> Inl unbound_title_lines
         | Some ls \<Rightarrow>
             (let subtitle_y = title_y + int (length ls) * 250 + 80 in
              case dict_item fonts ''subtitle'' of
                Inl e \<Rightarrow> Inl e
              | Inr sf \<Rightarrow>
                  (case textbbox sf subtitle of
                     Inl e \<Rightarrow> Inl e
                   | Inr bbox \<Rightarrow>
                       (let text_width = bbox_width bbox;
                            padding = 40;
                            x = (width - text_width) div 2
                        in Inr [RoundedRectangle (x - padding, subtitle_y - 20, x + text_width + padding, subtitle_y + 120)
                                   20 (Some (0, 0, 0, 180)) None 1,
                               DrawText (x + 3, subtitle_y + 3) subtitle (0, 0, 0, 200) sf,
                               DrawText (x, subtitle_y) subtitle (255, 255, 255, 255) sf]))))
      else Inr [])"

definition create_text_overlay_fresh ::
  "textbbox \<Rightarrow> int \<Rightarrow> int \<Rightarrow> string \<Rightarrow> string \<Rightarrow> (string \<times> font) list \<Rightarrow> exn + image" where
  "create_text_overlay_fresh textbbox width height title subtitle fonts =
     (case Image_new ''RGBA'' (width, height) of
        Inl e \<Rightarrow> Inl e
      | Inr overlay \<Rightarrow>
          (let title_y = height div 4 in
           case title_block_fresh textbbox width title_y title fonts of
             Inl e \<Rightarrow> Inl e
           | Inr (title_lines, title_ops) \<Rightarrow>
               (case subtitle_block_fresh textbbox width title_y title_lines subtitle fonts of
                  Inl e \<Rightarrow> Inl e
                | Inr subtitle_ops \<Rightarrow>
                    Inr (overlay\<lparr>im_content := title_ops @ subtitle_ops\<rparr>))))"

subsection \<open>app_enhanced_fallback.py: create_text_overlay\<close>

definition title_lines_enhanced_fallback :: "textbbox \<Rightarrow> font \<Rightarrow> int \<Rightarrow> string \<Rightarrow> exn + string list" where
  "title_lines_enhanced_fallback textbbox f width title =
     (let words = str_split title in
      if length words > 4 then
        (let mid = length words div 2
         in Inr [str_join '' '' (take mid words), str_join '' '' (drop mid words)])
      else Inr [title])"

fun draw_title_enhanced_fallback ::
  "textbbox \<Rightarrow> font \<Rightarrow> int \<Rightarrow> int \<Rightarrow> nat \<Rightarrow> string list \<Rightarrow> exn + draw_op list" where
  "draw_title_enhanced_fallback textbbox f width title_y i [] = Inr []"
| "draw_title_enhanced_fallback textbbox f width title_y i (line # ls) =
     (case textbbox f line of
        Inl e \<Rightarrow> Inl e
      | Inr bbox \<Rightarrow>
          (let text_width = bbox_width bbox;
               x = (width - text_width) div 2;
               y = title_y + int i * 250
           in case draw_title_enhanced_fallback textbbox f width title_y (Suc i) ls of
                Inl e \<Rightarrow> Inl e
              | Inr rest \<Rightarrow>
                  Inr ([DrawText (x + 8, y + 8) line (0, 0, 0, 255) f,
                        DrawText (x + 4, y + 4) line (0, 0, 0, 200) f,
                        DrawText (x, y) line (255, 255, 255, 255) f] @ rest)))"

definition title_block_enhanced_fallback ::
  "textbbox \<Rightarrow> int \<Rightarrow> int \<Rightarrow> string \<Rightarrow> (string \<times> font) list
     \<Rightarrow> exn + string list option \<times> draw_op list" where
  "title_block_enhanced_fallback textbbox width title_y title fonts =
     (if title \<noteq> [] then
        (case dict_item fonts ''title'' of
           Inl e \<Rightarrow> Inl e
         | Inr tf \<Rightarrow>
             (case title_lines_enhanced_fallback textbbox tf width (upper title) of
                Inl e \<Rightarrow> Inl e
              | Inr title_lines \<Rightarrow>
                  (case draw_title_enhanced_fallback textbbox tf width title_y 0 title_lines of
                     Inl e \<Rightarrow> Inl e
                   | Inr ops \<Rightarrow> Inr (Some title_lines, ops))))
      else Inr (None, []))"

definition subtitle_block_enhanced_fallback ::
  "textbbox \<Rightarrow> int \<Rightarrow> int \<Rightarrow> string list option \<Rightarrow> string \<Rightarrow> (string \<times> font) list
     \<Rightarrow> exn + draw_op list" where
  "subtitle_block_enhanced_fallback textbbox width title_y title_lines subtitle fonts =
     (if subtitle \<noteq> [] then
        (case title_lines of
           None \<Rightarrow> Inl unbound_title_lines
         | Some ls \<Rightarrow>
             (let subtitle_y = title_y + int (length ls) * 250 + 100 in
              case dict_item fonts ''subtitle'' of
                Inl e \<Rightarrow> Inl e
              | Inr sf \<Rightarrow>
                  (case textbbox sf subtitle of
                     Inl e \<Rightarrow> Inl e
                   | Inr bbox \<Rightarrow>
                       (let text_width = bbox_width bbox;
                            padding = 50;
                            x = (width - text_width) div 2
                        in Inr [RoundedRectangle (x - padding, subtitle_y - 25, x + text_width + padding, subtitle_y + 125)
                                   25 (Some (0, 0, 0, 180)) None 1,
                               RoundedRectangle (x - padding + 3, subtitle_y - 25 + 3,
                                      x + text_width + padding - 3, subtitle_y + 125 - 3)
                                   22 None (Some (255, 255, 255, 80)) 2,
                               DrawText (x + 3, subtitle_y + 3) subtitle (0, 0, 0, 255) sf,
                               DrawText (x, subtitle_y) subtitle (255, 255, 255, 255) sf]))))
      else Inr [])"

definition create_text_overlay_enhanced_fallback ::
  "textbbox \<Rightarrow> int \<Rightarrow> int \<Rightarrow> string \<Rightarrow> string \<Rightarrow> (string \<times> font) list \<Rightarrow> exn + image" where
  "create_text_overlay_enhanced_fallback textbbox width height title subtitle fonts =
     (case Image_new ''RGBA'' (width, height) of
        Inl e \<Rightarrow> Inl e
      | Inr overlay \<Rightarrow>
          (let title_y = height div 4 in
           case title_block_enhanced_fallback textbbox width title_y title fonts of
             Inl e \<Rightarrow> Inl e
           | Inr (title_lines, title_ops) \<Rightarrow>
               (case subtitle_block_enhanced_fallback textbbox width title_y title_lines subtitle fonts of
                  Inl e \<Rightarrow> Inl e
                | Inr subtitle_ops \<Rightarrow>
                    Inr (overlay\<lparr>im_content := title_ops @ subtitle_ops\<rparr>))))"

subsection \<open>app_force_visible.py: create_massive_text_overlay\<close>

definition title_lines_force_visible :: "textbbox \<Rightarrow> font \<Rightarrow> int \<Rightarrow> string \<Rightarrow> exn + string list" where
  "title_lines_force_visible textbbox f width title =
     (let words = str_split title in
      if length words > 3 then
        (let mid = length words div 2
         in Inr [str_join '' '' (take mid words), str_join '' '' (drop mid words)])
      else if length words > 1 then Inr [hd words, str_join '' '' (tl words)]
      else Inr [title])"

fun draw_title_force_visible ::
  "textbbox \<Rightarrow> font \<Rightarrow> int \<Rightarrow> int \<Rightarrow> nat \<Rightarrow> string list \<Rightarrow> exn + draw_op list" where
  "draw_title_force_visible textbbox f width title_y i [] = Inr []"
| "draw_title_force_visible textbbox f width title_y i (line # ls) =
     (case textbbox f line of
        Inl e \<Rightarrow> Inl e
      | Inr bbox \<Rightarrow>
          (let text_width = bbox_width bbox;
               x = (width - text_width) div 2;
               y = title_y + int i * 350
           in case draw_title_force_visible textbbox f width title_y (Suc i) ls of
                Inl e \<Rightarrow> Inl e
              | Inr rest \<Rightarrow>
                  Inr ([DrawText (x + 12, y + 12) line (0, 0, 0, 255) f,
                        DrawText (x + 8, y + 8) line (0, 0, 0, 200) f,
                        DrawText (x + 4, y + 4) line (0, 0, 0, 150) f,
                        DrawText (x, y) line (255, 255, 255, 255) f] @ rest)))"

definition title_block_force_visible ::
  "textbbox \<Rightarrow> int \<Rightarrow> int \<Rightarrow> string \<Rightarrow> (string \<times> font) list
     \<Rightarrow> exn + string list option \<times> draw_op list" where
  "title_block_force_visible textbbox width title_y title fonts =
     (if title \<noteq> [] then
        (case dict_item fonts ''title'' of
           Inl e \<Rightarrow> Inl e
         | Inr tf \<Rightarrow>
             (case title_lines_force_visible textbbox tf width (upper title) of
                Inl e \<Rightarrow> Inl e
              | Inr title_lines \<Rightarrow>
                  (case draw_title_force_visible textbbox tf width title_y 0 title_lines of
                     Inl e \<Rightarrow> Inl e
                   | Inr ops \<Rightarrow> Inr (Some title_lines, ops))))
      else Inr (None, []))"

definition subtitle_block_force_visible ::
  "textbbox \<Rightarrow> int \<Rightarrow> int \<Rightarrow> string list option \<Rightarrow> string \<Rightarrow> (string \<times> font) list
     \<Rightarrow> exn + draw_op list" where
  "subtitle_block_force_visible textbbox width title_y title_lines subtitle fonts =
     (if subtitle \<noteq> [] then
        (case title_lines of
           None \<Rightarrow> Inl unbound_title_lines
         | Some ls \<Rightarrow>
             (let subtitle_y = title_y + int (length ls) * 350 + 100 in
              case dict_item fonts ''subtitle'' of
                Inl e \<Rightarrow> Inl e
              | Inr sf \<Rightarrow>
                  (case textbbox sf subtitle of
                     Inl e \<Rightarrow> Inl e
                   | Inr bbox \<Rightarrow>
                       (let text_width = bbox_width bbox;
                            box_padding = 50;
                            x = (width - text_width) div 2
                        in Inr [RoundedRectangle (x - box_padding, subtitle_y - box_padding div 2,
                                      x + text_width + box_padding, subtitle_y + 150 + box_padding div 2)
                                   25 (Some (0, 0, 0, 200)) None 1,
                               RoundedRectangle (x - box_padding + 4, subtitle_y - box_padding div 2 + 4,
                                      x + text_width + box_padding - 4,
                                      subtitle_y + 150 + box_padding div 2 - 4)
                                   21 None (Some (255, 255, 255, 120)) 3,
                               DrawText (x + 6, subtitle_y + 6) subtitle (0, 0, 0, 255) sf,
                               DrawText (x, subtitle_y) subtitle (255, 255, 255, 255) sf]))))
      else Inr [])"

definition create_massive_text_overlay_force_visible ::
  "textbbox \<Rightarrow> int \<Rightarrow> int \<Rightarrow> string \<Rightarrow> string \<Rightarrow> (string \<times> font) list \<Rightarrow> exn + image" where
  "create_massive_text_overlay_force_visible textbbox width height title subtitle fonts =
     (case Image_new ''RGBA'' (width, height) of
        Inl e \<Rightarrow> Inl e
      | Inr overlay \<Rightarrow>
          (let title_y = height div 6 in
           case title_block_force_visible textbbox width title_y title fonts of
             Inl e \<Rightarrow> Inl e
           | Inr (title_lines, title_ops) \<Rightarrow>
               (case subtitle_block_force_visible textbbox width title_y title_lines subtitle fonts of
                  Inl e \<Rightarrow> Inl e
                | Inr subtitle_ops \<Rightarrow>
                    Inr (overlay\<lparr>im_content := title_ops @ subtitle_ops\<rparr>))))"

subsection \<open>universal_lora_deploy_2025-10-14/app_lightweight.py: create_text_overlay\<close>

definition title_lines_deploy_lightweight :: "textbbox \<Rightarrow> font \<Rightarrow> int \<Rightarrow> string \<Rightarrow> exn + string list" where
  "title_lines_deploy_lightweight textbbox f width title =
     (let words = str_split title in
      if length words > 4 then
        (let mid = length words div 2
         in Inr [str_join '' '' (take mid words), str_join '' '' (drop mid words)])
      else Inr [title])"

fun draw_title_deploy_lightweight ::
  "textbbox \<Rightarrow> font \<Rightarrow> int \<Rightarrow> int \<Rightarrow> nat \<Rightarrow> string list \<Rightarrow> exn + draw_op list" where
  "draw_title_deploy_lightweight textbbox f width title_y i [] = Inr []"
| "draw_title_deploy_lightweight textbbox f width title_y i (line # ls) =
     (case textbbox f line of
        Inl e \<Rightarrow> Inl e
      | Inr bbox \<Rightarrow>
          (let text_width = bbox_width bbox;
               x = (width - text_width) div 2;
               y = title_y + int i * 180
           in case draw_title_deploy_lightweight textbbox f width title_y (Suc i) ls of
                Inl e \<Rightarrow> Inl e
              | Inr rest \<Rightarrow>
                  Inr ([DrawText (x + 12, y + 12) line (0, 0, 0, 15) f,
                        DrawText (x + 8, y + 8) line (0, 0, 0, 135) f,
                        DrawText (x + 4, y + 4) line (0, 0, 0, 255) f,
                        DrawText (x, y) line (255, 255, 255, 255) f] @ rest)))"

definition title_block_deploy_lightweight ::
  "textbbox \<Rightarrow> int \<Rightarrow> int \<Rightarrow> string \<Rightarrow> (string \<times> font) list
     \<Rightarrow> exn + string list option \<times> draw_op list" where
  "title_block_deploy_lightweight textbbox width title_y title fonts =
     (if title \<noteq> [] then
        (case dict_item fonts ''title'' of
           Inl e \<Rightarrow> Inl e
         | Inr tf \<Rightarrow>
             (case title_lines_deploy_lightweight textbbox tf width (upper title) of
                Inl e \<Rightarrow> Inl e
              | Inr title_lines \<Rightarrow>
                  (case draw_title_deploy_lightweight textbbox tf width title_y 0 title_lines of
                     Inl e \<Rightarrow> Inl e
                   | Inr ops \<Rightarrow> Inr (Some title_lines, ops))))
      else Inr (None, []))"

definition subtitle_block_deploy_lightweight ::
  "textbbox \<Rightarrow> int \<Rightarrow> int \<Rightarrow> string list option \<Rightarrow> string \<Rightarrow> (string \<times> font) list
     \<Rightarrow> exn + draw_op list" where
  "subtitle_block_deploy_lightweight textbbox width title_y title_lines subtitle fonts =
     (if subtitle \<noteq> [] then
        (case title_lines of
           None \<Rightarrow> Inl unbound_title_lines
         | Some ls \<Rightarrow>
             (let subtitle_y = title_y + int (length ls) * 180 + 60 in
              case dict_item fonts ''subtitle'' of
                Inl e \<Rightarrow> Inl e
              | Inr sf \<Rightarrow>
                  (case textbbox sf subtitle of
                     Inl e \<Rightarrow> Inl e
                   | Inr bbox \<Rightarrow>
                       (let text_width = bbox_width bbox;
                            padding = 30;
                            y = title_y + (int (length ls) - 1) * 180;
                            x = (width - text_width) div 2
                        in Inr [RoundedRectangle (x - padding, subtitle_y - 15, x + text_width + padding, subtitle_y + 95)
                                   15 (Some (0, 0, 0, 200)) None 1,
                               RoundedRectangle (x - padding + 3, subtitle_y - 12,
                                      x + text_width + padding - 3, subtitle_y + 92)
                                   12 None (Some (255, 255, 255, 100)) 2,
                               DrawText (x + 2, y + 2) subtitle (0, 0, 0, 150) sf,
                               DrawText (x, subtitle_y) subtitle (255, 255, 255, 255) sf]))))
      else Inr [])"

definition create_text_overlay_deploy_lightweight ::
  "textbbox \<Rightarrow> int \<Rightarrow> int \<Rightarrow> string \<Rightarrow> string \<Rightarrow> (string \<times> font) list \<Rightarrow> exn + image" where
  "create_text_overlay_deploy_lightweight textbbox width height title subtitle fonts =
     (case Image_new ''RGBA'' (width, height) of
        Inl e \<Rightarrow> Inl e
      | Inr overlay \<Rightarrow>
          (let title_y = height div 3 in
           case title_block_deploy_lightweight textbbox width title_y title fonts of
             Inl e \<Rightarrow> Inl e
           | Inr (title_lines, title_ops) \<Rightarrow>
               (case subtitle_block_deploy_lightweight textbbox width title_y title_lines subtitle fonts of
                  Inl e \<Rightarrow> Inl e
                | Inr subtitle_ops \<Rightarrow>
                    Inr (overlay\<lparr>im_content := title_ops @ subtitle_ops\<rparr>))))"

subsection \<open>universal_lora_deploy_2025-10-14/app_CPU_LORA.py: create_text_overlay\<close>

definition title_lines_CPU_LORA :: "textbbox \<Rightarrow> font \<Rightarrow> int \<Rightarrow> string \<Rightarrow> exn + string list" where
  "title_lines_CPU_LORA textbbox f width title =
     (let words = str_split title in
      if length words > 3 then
        (let mid = length words div 2
         in Inr [str_join '' '' (take mid words), str_join '' '' (drop mid words)])
      else Inr [title])"

fun draw_title_CPU_LORA ::
  "textbbox \<Rightarrow> font \<Rightarrow> int \<Rightarrow> int \<Rightarrow> nat \<Rightarrow> string list \<Rightarrow> exn + draw_op list" where
  "draw_title_CPU_LORA textbbox f width title_y i [] = Inr []"
| "draw_title_CPU_LORA textbbox f width title_y i (line # ls) =
     (case textbbox f line of
        Inl e \<Rightarrow> Inl e
      | Inr bbox \<Rightarrow>
          (let text_width = bbox_width bbox;
               x = (width - text_width) div 2;
               y = title_y + int i * 250
           in case draw_title_CPU_LORA textbbox f width title_y (Suc i) ls of
                Inl e \<Rightarrow> Inl e
              | Inr rest \<Rightarrow>
                  Inr ([DrawText (x + 8, y + 8) line (0, 0, 0, 200) f,
                        DrawText (x + 4, y + 4) line (0, 0, 0, 200) f,
                        DrawText (x, y) line (255, 255, 255, 255) f] @ rest)))"

definition title_block_CPU_LORA ::
  "textbbox \<Rightarrow> int \<Rightarrow> int \<Rightarrow> string \<Rightarrow> (string \<times> font) list
     \<Rightarrow> exn + string list option \<times> draw_op list" where
  "title_block_CPU_LORA textbbox width title_y title fonts =
     (if title \<noteq> [] then
        (case dict_item fonts ''title'' of
           Inl e \<Rightarrow> Inl e
         | Inr tf \<Rightarrow>
             (case title_lines_CPU_LORA textbbox tf width (upper title) of
                Inl e \<Rightarrow> Inl e
              | Inr title_lines \<Rightarrow>
                  (case draw_title_CPU_LORA textbbox tf width title_y 0 title_lines of
                     Inl e \<Rightarrow> Inl e
                   | Inr ops \<Rightarrow> Inr (Some title_lines, ops))))
      else Inr (None, []))"

definition subtitle_block_CPU_LORA ::
  "textbbox \<Rightarrow> int \<Rightarrow> int \<Rightarrow> string list option \<Rightarrow> string \<Rightarrow> (string \<times> font) list
     \<Rightarrow> exn + draw_op list" where
  "subtitle_block_CPU_LORA textbbox width title_y title_lines subtitle fonts =
     (if subtitle \<noteq> [] then
        (case title_lines of
           None \<Rightarrow> Inl unbound_title_lines
         | Some ls \<Rightarrow>
             (let subtitle_y = title_y + int (length ls) * 250 + 80 in
              case dict_item fonts ''subtitle'' of
                Inl e \<Rightarrow> Inl e
              | Inr sf \<Rightarrow>
                  (case textbbox sf subtitle of
                     Inl e \<Rightarrow> Inl e
                   | Inr bbox \<Rightarrow>
                       (let text_width = bbox_width bbox;
                            padding = 40;
                            x = (width - text_width) div 2
                        in Inr [RoundedRectangle (x - padding, subtitle_y - 20, x + text_width + padding, subtitle_y + 120)
                                   20 (Some (0, 0, 0, 200)) None 1,
                               DrawText (x + 3, subtitle_y + 3) subtitle (0, 0, 0, 255) sf,
                               DrawText (x, subtitle_y) subtitle (255, 255, 255, 255) sf]))))
      else Inr [])"

definition create_text_overlay_CPU_LORA ::
  "textbbox \<Rightarrow> int \<Rightarrow> int \<Rightarrow> string \<Rightarrow> string \<Rightarrow> (string \<times> font) list \<Rightarrow> exn + image" where
  "create_text_overlay_CPU_LORA textbbox width height title subtitle fonts =
     (case Image_new ''RGBA'' (width, height) of
        Inl e \<Rightarrow> Inl e
      | Inr overlay \<Rightarrow>
          (let title_y = height div 4 in
           case title_block_CPU_LORA textbbox width title_y title fonts of
             Inl e \<Rightarrow> Inl e
           | Inr (title_lines, title_ops) \<Rightarrow>
               (case subtitle_block_CPU_LORA textbbox width title_y title_lines subtitle fonts of
                  Inl e \<Rightarrow> Inl e
                | Inr subtitle_ops \<Rightarrow>
                    Inr (overlay\<lparr>im_content := title_ops @ subtitle_ops\<rparr>))))"

subsection \<open>universal_lora_deploy_2025-10-14/app_LORA_ONLY.py: create_enhanced_text_overlay\<close>

definition title_lines_LORA_ONLY :: "textbbox \<Rightarrow> font \<Rightarrow> int \<Rightarrow> string \<Rightarrow> exn + string list" where
  "title_lines_LORA_ONLY textbbox f width title =
     (let words = str_split title in
      if length words > 3 then
        (let mid = length words div 2
         in Inr [str_join '' '' (take mid words), str_join '' '' (drop mid words)])
      else Inr [title])"

fun draw_title_LORA_ONLY ::
  "textbbox \<Rightarrow> font \<Rightarrow> int \<Rightarrow> int \<Rightarrow> nat \<Rightarrow> string list \<Rightarrow> exn + draw_op list" where
  "draw_title_LORA_ONLY textbbox f width title_y i [] = Inr []"
| "draw_title_LORA_ONLY textbbox f width title_y i (line # ls) =
     (case textbbox f line of
        Inl e \<Rightarrow> Inl e
      | Inr bbox \<Rightarrow>
          (let text_width = bbox_width bbox;
               x = (width - text_width) div 2;
               y = title_y + int i * 250
           in case draw_title_LORA_ONLY textbbox f width title_y (Suc i) ls of
                Inl e \<Rightarrow> Inl e
              | Inr rest \<Rightarrow>
                  Inr ([DrawText (x + 12, y + 12) line (0, 0, 0, 200) f,
                        DrawText (x + 8, y + 8) line (0, 0, 0, 200) f,
                        DrawText (x + 4, y + 4) line (0, 0, 0, 200) f,
                        DrawText (x, y) line (255, 255, 255, 255) f] @ rest)))"

definition title_block_LORA_ONLY ::
  "textbbox \<Rightarrow> int \<Rightarrow> int \<Rightarrow> string \<Rightarrow> (string \<times> font) list
     \<Rightarrow> exn + string list option \<times> draw_op list" where
  "title_block_LORA_ONLY textbbox width title_y title fonts =
     (if title \<noteq> [] then
        (case dict_item fonts ''title'' of
           Inl e \<Rightarrow> Inl e
         | Inr tf \<Rightarrow>
             (case title_lines_LORA_ONLY textbbox tf width (upper title) of
                Inl e \<Rightarrow> Inl e
              | Inr title_lines \<Rightarrow>
                  (case draw_title_LORA_ONLY textbbox tf width title_y 0 title_lines of
                     Inl e \<Rightarrow> Inl e
                   | Inr ops \<Rightarrow> Inr (Some title_lines, ops))))
      else Inr (None, []))"

definition subtitle_block_LORA_ONLY ::
  "textbbox \<Rightarrow> int \<Rightarrow> int \<Rightarrow> string list option \<Rightarrow> string \<Rightarrow> (string \<times> font) list
     \<Rightarrow> exn + draw_op list" where
  "subtitle_block_LORA_ONLY textbbox width title_y title_lines subtitle fonts =
     (if subtitle \<noteq> [] then
        (case title_lines of
           None \<Rightarrow> Inl unbound_title_lines
         | Some ls \<Rightarrow>
             (let subtitle_y = title_y + int (length ls) * 250 + 80 in
              case dict_item fonts ''subtitle'' of
                Inl e \<Rightarrow> Inl e
              | Inr sf \<Rightarrow>
                  (case textbbox sf subtitle of
                     Inl e \<Rightarrow> Inl e
                   | Inr bbox \<Rightarrow>
                       (let text_width = bbox_width bbox;
                            padding = 40;
                            x = (width - text_width) div 2
                        in Inr [RoundedRectangle (x - padding, subtitle_y - 20, x + text_width + padding, subtitle_y + 120)
                                   20 (Some (0, 0, 0, 220)) None 1,
                               DrawText (x + 3, subtitle_y + 3) subtitle (0, 0, 0, 255) sf,
                               DrawText (x, subtitle_y) subtitle (255, 255, 255, 255) sf]))))
      else Inr [])"

definition create_enhanced_text_overlay_LORA_ONLY ::
  "textbbox \<Rightarrow> int \<Rightarrow> int \<Rightarrow> string \<Rightarrow> string \<Rightarrow> (string \<times> font) list \<Rightarrow> exn + image" where
  "create_enhanced_text_overlay_LORA_ONLY textbbox width height title subtitle fonts =
     (case Image_new ''RGBA'' (width, height) of
        Inl e \<Rightarrow> Inl e
      | Inr overlay \<Rightarrow>
          (let title_y = height div 4 in
           case title_block_LORA_ONLY textbbox width title_y title fonts of
             Inl e \<Rightarrow> Inl e
           | Inr (title_lines, title_ops) \<Rightarrow>
               (case subtitle_block_LORA_ONLY textbbox width title_y title_lines subtitle fonts of
                  Inl e \<Rightarrow> Inl e
                | Inr subtitle_ops \<Rightarrow>
                    Inr (overlay\<lparr>im_content := title_ops @ subtitle_ops\<rparr>))))"






text \<open>A \<open>textbbox\<close> that never raises and measures \<open>text_width f s\<close> for the width of \<open>s\<close>.\<close>

definition measuring :: "(font \<Rightarrow> string \<Rightarrow> int) \<Rightarrow> textbbox" where
  "measuring text_width = (\<lambda>f s. Inr (0, 0, text_width f s, 0))"

section \<open>create_universal_lora_model.py\<close>

text \<open>
  Floating-point numbers are idealised as rationals. The \<open>random\<close> module is a parameter:
  \<open>rnd step\<close> holds what the three draws of loop iteration \<open>step\<close> return, the value of
  \<open>random.uniform(-0.1, 0.1)\<close> and the positions \<open>random.choice\<close> picks. \<open>torch.randn\<close> is a
  parameter too: \<open>randn n shape\<close> is the tensor its \<open>n\<close>-th call returns.
\<close>

record dataset_stats =
  total_samples :: nat
  styles :: "string list"
  clients :: "string list"

record draws =
  noise :: rat
  style_pick :: nat
  client_pick :: nat

record log_entry =
  log_step :: nat
  log_loss :: rat
  log_style :: string
  log_client :: string

text \<open>\<open>random.choice(seq)\<close> raises \<open>IndexError\<close> on an empty sequence.\<close>

definition random_choice :: "nat \<Rightarrow> 'a list \<Rightarrow> exn + 'a" where
  "random_choice pick seq =
     (if seq = [] then Inl (PyException ''IndexError'' ''Cannot choose from an empty sequence'')
      else Inr (seq ! (pick mod length seq)))"

text \<open>
  One iteration of the loop of \<open>create_lora_model_structure\<close>. The state is the
  \<open>training_log\<close> and the durations passed to \<open>time.sleep\<close> so far.
\<close>

definition training_step ::
  "(nat \<Rightarrow> draws) \<Rightarrow> dataset_stats \<Rightarrow> nat \<Rightarrow> nat \<Rightarrow> log_entry list \<times> rat list
     \<Rightarrow> exn + log_entry list \<times> rat list" where
  "training_step rnd stats training_steps step st =
     (let loss = 3 / 2 * (1 - of_nat step / of_nat training_steps) + noise (rnd step);
          loss = max (1 / 50) loss
      in case random_choice (style_pick (rnd step)) (styles stats) of
           Inl e \<Rightarrow> Inl e
         | Inr current_style \<Rightarrow>
             (case random_choice (client_pick (rnd step)) (clients stats) of
                Inl e \<Rightarrow> Inl e
              | Inr current_client \<Rightarrow>
                  Inr (fst st @ [\<lparr>log_step = step, log_loss = loss,
                                  log_style = current_style, log_client = current_client\<rparr>],
                       snd st @ [1 / 100])))"

text \<open>\<open>for step in progress_bar\<close>, over the remaining steps.\<close>

fun training_loop ::
  "(nat \<Rightarrow> draws) \<Rightarrow> dataset_stats \<Rightarrow> nat \<Rightarrow> nat list \<Rightarrow> log_entry list \<times> rat list
     \<Rightarrow> exn + log_entry list \<times> rat list" where
  "training_loop rnd stats training_steps [] st = Inr st"
| "training_loop rnd stats training_steps (step # steps) st =
     (case training_step rnd stats training_steps step st of
        Inl e \<Rightarrow> Inl e
      | Inr st' \<Rightarrow> training_loop rnd stats training_steps steps st')"

text \<open>Returns the \<open>training_log\<close>, and with it the sleeps made.\<close>

definition create_lora_model_structure ::
  "(nat \<Rightarrow> draws) \<Rightarrow> dataset_stats \<Rightarrow> exn + log_entry list \<times> rat list" where
  "create_lora_model_structure rnd stats =
     (let training_steps = 500
      in training_loop rnd stats training_steps [0..<training_steps] ([], []))"

text \<open>
  The two dict comprehensions of \<open>save_universal_lora_model\<close>: the keys, in iteration
  order, of the \<open>lora_A\<close> or \<open>lora_B\<close> weights. All keys are distinct, so the dict is the list.
\<close>

definition lora_keys :: "string \<Rightarrow> string list" where
  "lora_keys ab =
     concat (map (\<lambda>i. concat (map (\<lambda>j. concat (map (\<lambda>k. concat (map (\<lambda>l.
       map (\<lambda>proj.
         ''lora_unet.down_blocks.'' @ str_nat i @ ''.attentions.'' @ str_nat j
           @ ''.transformer_blocks.'' @ str_nat k @ ''.attn'' @ str_nat l
           @ ''.to_'' @ proj @ ''.'' @ ab @ ''.weight'')
         [''q'', ''k'', ''v'', ''out''])
       [1, 2])) [0..<2])) [0..<2])) [0..<3])"

definition lora_weights :: "(nat \<Rightarrow> nat \<times> nat \<Rightarrow> 't) \<Rightarrow> (string \<times> 't) list" where
  "lora_weights randn =
     map (\<lambda>(n, key). (key, randn n (32, 320))) (enumerate 0 (lora_keys ''lora_A''))
     @ map (\<lambda>(n, key). (key, randn n (320, 32)))
         (enumerate (length (lora_keys ''lora_A'')) (lora_keys ''lora_B''))"

text \<open>
  The entries of \<open>model_info\<close> that are computed; its other entries are constants.
\<close>

record model_info =
  dataset_size :: nat
  info_training_steps :: nat
  final_loss :: rat
  styles_learned :: "string list"
  clients_learned :: "string list"
  total_style_client_combinations :: nat

text \<open>
  What a file written by the script holds. The texts of the deployment guide and of the
  integration example are not modelled.
\<close>

datatype 't file_content =
    TorchSave "(string \<times> 't) list"
  | ModelInfoJson model_info
  | DeploymentGuide
  | IntegrationExample
  | EmptyFile

text \<open>
  \<open>save_universal_lora_model\<close>: the files written, in order, and the outcome. The last
  statement before the final logging, \<open>json.dump(training_log, log_path)\<close>, passes the
  path where the open file is expected: \<open>open(log_path, 'w')\<close> has created an empty file,
  and \<open>json.dump\<close> raises \<open>AttributeError\<close>.
\<close>

definition save_universal_lora_model ::
  "(nat \<Rightarrow> nat \<times> nat \<Rightarrow> 't) \<Rightarrow> string \<Rightarrow> dataset_stats \<Rightarrow> log_entry list
     \<Rightarrow> (string \<times> 't file_content) list \<times> (exn + string)" where
  "save_universal_lora_model randn output_dir stats training_log =
     (let model_path = output_dir @ ''/crypto_cover_universal_lora.pt'';
          info = \<lparr>dataset_size = total_samples stats,
                  info_training_steps = length training_log,
                  final_loss = (if training_log \<noteq> [] then log_loss (last training_log) else 0),
                  styles_learned = styles stats,
                  clients_learned = clients stats,
                  total_style_client_combinations = length (styles stats) * length (clients stats)\<rparr>
      in ([(model_path, TorchSave (lora_weights randn)),
           (output_dir @ ''/model_info.json'', ModelInfoJson info),
           (output_dir @ ''/DEPLOYMENT_GUIDE.md'', DeploymentGuide),
           (output_dir @ ''/integration_example.py'', IntegrationExample),
           (output_dir @ ''/training_log.json'', EmptyFile)],
          Inl (PyException ''AttributeError''
                 ([CHR 0x27] @ ''PosixPath'' @ [CHR 0x27] @ '' object has no attribute ''
                  @ [CHR 0x27] @ ''write'' @ [CHR 0x27]))))"

text \<open>
  The log entry of a step as the specification words it: the loss is the linearly
  decreasing schedule plus the step's noise, clamped below at 0.02; style and client are
  the step's random picks.
\<close>

definition simulated_entry :: "(nat \<Rightarrow> draws) \<Rightarrow> dataset_stats \<Rightarrow> nat \<Rightarrow> log_entry" where
  "simulated_entry rnd stats step =
     \<lparr>log_step = step,
      log_loss = max (1 / 50) (3 / 2 - 3 * of_nat step / 1000 + noise (rnd step)),
      log_style = styles stats ! (style_pick (rnd step) mod length (styles stats)),
      log_client = clients stats ! (client_pick (rnd step) mod length (clients stats))\<rparr>"

section \<open>The services: shared data\<close>

text \<open>
  The request model of the services. Each variant declares its own pydantic class
  \<open>GenerationRequest\<close>, with a subset of these fields; a handler reads only the fields
  its variant declares. The declared fields of a variant, with their defaults, are the
  variant's \<open>GenerationRequest_fields\<close> table below.
\<close>

record GenerationRequest =
  req_title :: string
  req_subtitle :: string
  req_client :: string
  req_style :: "string option"
  req_use_trained_lora :: bool

datatype field_default = Required | Default json

record GenerationResponse =
  success :: bool
  image_url :: "string option"
  error :: "string option"
  metadata :: "(string \<times> json) list option"

text \<open>What a handler returns: a \<open>GenerationResponse\<close> or a dict literal.\<close>

datatype reply = Model GenerationResponse | Dict "(string \<times> json) list"

text \<open>
  A loaded diffusers pipeline, by what its methods do: \<open>pipe_call prompt negative_prompt
  height width\<close> is \<open>pipeline(...).images[0]\<close> or the exception raised;
  \<open>load_lora_weights(path)\<close>, \<open>unload_lora_weights()\<close> and \<open>fuse_lora()\<close> return nothing
  or raise.
\<close>

record sd_pipeline =
  pipe_call :: "string \<Rightarrow> string \<Rightarrow> int \<Rightarrow> int \<Rightarrow> exn + image"
  pipe_load_lora_weights :: "string \<Rightarrow> exn option"
  pipe_unload_lora_weights :: "exn option"
  pipe_fuse_lora :: "exn option"

text \<open>
  The attributes of the variants' generator objects (each class has a subset), and
  \<open>pipeline_calls\<close>, which is not an attribute: the prompt and negative prompt of every
  call made to a pipeline so far, in order.
\<close>

record generator =
  watermark :: "image option"
  pipeline :: "sd_pipeline option"
  current_lora :: "string option"
  lora_available :: "(string \<times> string) list"
  universal_lora_available :: bool
  lora_pipeline :: "sd_pipeline option"
  pipeline_calls :: "(string \<times> string) list"

text \<open>
  What the services take from their surroundings: the file system (\<open>os.path.exists\<close>,
  \<open>Image.open\<close>, whether \<open>ImageFont.truetype(path, size)\<close> loads), PIL's text measuring,
  the PNG encoding of an image in base64, \<open>str()\<close> of an \<open>HTTPException\<close> (Starlette's),
  \<open>StableDiffusionXLPipeline.from_pretrained\<close>, and \<open>subprocess.run\<close> (return code and
  stderr, or the exception raised).
\<close>

record env =
  path_exists :: "string \<Rightarrow> bool"
  Image_open :: "string \<Rightarrow> exn + image"
  truetype_loads :: "string \<Rightarrow> nat \<Rightarrow> bool"
  draw_textbbox :: textbbox
  png_base64 :: "image \<Rightarrow> string"
  str_HTTPException :: "nat \<Rightarrow> string \<Rightarrow> string"
  from_pretrained :: "string \<Rightarrow> exn + sd_pipeline"
  subprocess_run :: "string list \<Rightarrow> exn + int \<times> string"

definition str_exn :: "env \<Rightarrow> exn \<Rightarrow> string" where
  "str_exn env e = (case e of HTTPException status detail \<Rightarrow> str_HTTPException env status detail
                     | PyException cls msg \<Rightarrow> msg)"

text \<open>
  \<open>except Exception as e: raise HTTPException(status_code=500, detail=f"<prefix>{str(e)}")\<close>
  around a handler body.
\<close>

definition except_500 :: "env \<Rightarrow> string \<Rightarrow> exn + 'a \<Rightarrow> exn + 'a" where
  "except_500 env detail_prefix body =
     (case body of
        Inl e \<Rightarrow> Inl (HTTPException 500 (detail_prefix @ str_exn env e))
      | Inr r \<Rightarrow> Inr r)"

text \<open>The truth value of an optional string: \<open>None\<close> and \<open>""\<close> are false.\<close>

definition truthy :: "string option \<Rightarrow> bool" where
  "truthy x = (case x of None \<Rightarrow> False | Some s \<Rightarrow> s \<noteq> [])"

text \<open>
  The loop over \<open>font_paths\<close> in \<open>get_fonts\<close>: the first path that exists and loads, else
  \<open>ImageFont.load_default()\<close>.
\<close>

fun first_font :: "env \<Rightarrow> string list \<Rightarrow> nat \<Rightarrow> font" where
  "first_font env [] font_size = DefaultFont"
| "first_font env (font_path # font_paths) font_size =
     (if path_exists env font_path \<and> truetype_loads env font_path font_size
      then TrueType font_path font_size
      else first_font env font_paths font_size)"

text \<open>
  The tail of the variants' \<open>generate_cover\<close>: the background converted to RGBA, the text
  overlay composited on it, then the watermark, resized to the cover's size, when there
  is one; the result converted to RGB.
\<close>

definition composite_cover :: "image \<Rightarrow> exn + image \<Rightarrow> image option \<Rightarrow> int \<times> int \<Rightarrow> exn + image" where
  "composite_cover background text_overlay wm cover_size =
     (let base_rgba = convert background ''RGBA'' in
      case text_overlay of
        Inl e \<Rightarrow> Inl e
      | Inr ov \<Rightarrow>
          (case alpha_composite base_rgba ov of
             Inl e \<Rightarrow> Inl e
           | Inr base_rgba \<Rightarrow>
               (case wm of
                  None \<Rightarrow> Inr (convert base_rgba ''RGB'')
                | Some w \<Rightarrow>
                    (case alpha_composite base_rgba (resize w cover_size) of
                       Inl e \<Rightarrow> Inl e
                     | Inr final_image \<Rightarrow> Inr (convert final_image ''RGB'')))))"

text \<open>
  \<open>load_watermark\<close> as app_lightweight.py, app_lora.py and app_enhanced_fallback.py have
  it: a missing or unreadable file leaves no watermark.
\<close>

definition load_watermark :: "env \<Rightarrow> generator \<Rightarrow> generator" where
  "load_watermark env g =
     (let watermark_path = ''genfinity-watermark.png'' in
      if path_exists env watermark_path then
        (case Image_open env watermark_path of
           Inl e \<Rightarrow> g\<lparr>watermark := None\<rparr>
         | Inr im \<Rightarrow> g\<lparr>watermark := Some (convert im ''RGBA'')\<rparr>)
      else g\<lparr>watermark := None\<rparr>)"

text \<open>The response body of a successful generation.\<close>

definition data_uri :: "env \<Rightarrow> image \<Rightarrow> string" where
  "data_uri env img = ''data:image/png;base64,'' @ png_base64 env img"

section \<open>FRESH_SDXL_20251014_1514/app.py\<close>

definition GenerationRequest_fields_fresh :: "(string \<times> field_default) list" where
  "GenerationRequest_fields_fresh =
     [(''title'', Required),
      (''subtitle'', Default (JStr ''CRYPTO NEWS'')),
      (''client'', Default (JStr ''hedera'')),
      (''style'', Default (JStr ''dark_theme'')),
      (''use_trained_lora'', Default (JBool True))]"

text \<open>Here a missing or unreadable watermark file leaves the attribute as it was.\<close>

definition load_watermark_fresh :: "env \<Rightarrow> generator \<Rightarrow> generator" where
  "load_watermark_fresh env g =
     (let watermark_path = ''genfinity-watermark.png'' in
      if path_exists env watermark_path then
        (case Image_open env watermark_path of
           Inl e \<Rightarrow> g
         | Inr im \<Rightarrow> g\<lparr>watermark := Some (convert im ''RGBA'')\<rparr>)
      else g)"

text \<open>The path tried for a client and a style, \<open>f"{lora_dir}/{client}_{style}_lora.safetensors"\<close>.\<close>

definition lora_path_fresh :: "string \<Rightarrow> string \<Rightarrow> string \<Rightarrow> string" where
  "lora_path_fresh lora_dir client style = lora_dir @ ''/'' @ client @ ''_'' @ style @ ''_lora.safetensors''"

definition check_available_loras_fresh :: "env \<Rightarrow> generator \<Rightarrow> generator" where
  "check_available_loras_fresh env g =
     (let lora_dir = ''models/lora'' in
      if \<not> path_exists env lora_dir then g
      else
        (let styles = [''energy_fields'', ''dark_theme'', ''network_nodes'', ''particle_waves''];
             clients = [''hedera'', ''algorand'', ''constellation''];
             found = fold (\<lambda>(client, style) available.
                             (let lora_path = lora_path_fresh lora_dir client style in
                              if path_exists env lora_path
                              then dict_set available (client @ ''_'' @ style) lora_path
                              else available))
                       (List.product clients styles) (lora_available g);
             universal_lora = lora_dir @ ''/crypto_cover_styles_lora.safetensors''
         in g\<lparr>lora_available :=
                (if path_exists env universal_lora
                 then dict_set found ''universal'' universal_lora else found)\<rparr>))"

text \<open>Returns whether a LoRA was loaded, and the generator with \<open>current_lora\<close> updated.\<close>

definition load_lora_weights_fresh :: "generator \<Rightarrow> string \<Rightarrow> string \<Rightarrow> bool \<times> generator" where
  "load_lora_weights_fresh g client style =
     (case pipeline g of
        None \<Rightarrow> (False, g)
      | Some p \<Rightarrow>
          (let lora_key = client @ ''_'' @ style in
           case (case map_of (lora_available g) lora_key of
                   Some lora_path \<Rightarrow> Some (lora_path, lora_key)
                 | None \<Rightarrow>
                     (case map_of (lora_available g) ''universal'' of
                        Some lora_path \<Rightarrow> Some (lora_path, ''universal'')
                      | None \<Rightarrow> None)) of
             None \<Rightarrow> (False, g)
           | Some (lora_path, lora_key) \<Rightarrow>
               (case (if truthy (current_lora g) then pipe_unload_lora_weights p else None) of
                  Some e \<Rightarrow> (False, g)
                | None \<Rightarrow>
                    (case pipe_load_lora_weights p lora_path of
                       Some e \<Rightarrow> (False, g)
                     | None \<Rightarrow> (True, g\<lparr>current_lora := Some lora_key\<rparr>)))))"

definition style_prompts_fresh :: "string \<Rightarrow> (string \<times> string) list" where
  "style_prompts_fresh client =
     [(''energy_fields'',
          ''crypto news cover background, glowing energy fields, particle effects, cosmic'' @
          '' energy, vibrant auras, '' @
          client @
          '' branding colors, professional design''),
       (''dark_theme'',
          ''crypto news cover background, dark professional background, subtle geometric'' @
          '' patterns, minimal lighting, '' @
          client @
          '' color scheme, corporate style''),
       (''network_nodes'',
          ''crypto news cover background, connected network nodes, digital connections, tech'' @
          '' visualization, '' @
          client @
          '' branding, futuristic design''),
       (''particle_waves'',
          ''crypto news cover background, flowing particle waves, dynamic motion, wave'' @
          '' patterns, '' @
          client @
          '' colors, energy flow'')]"

text \<open>Returns the background, or \<open>None\<close>, and the generator after the call.\<close>

definition generate_with_trained_lora_fresh ::
  "generator \<Rightarrow> string \<Rightarrow> string \<Rightarrow> string \<Rightarrow> image option \<times> generator" where
  "generate_with_trained_lora_fresh g client style title =
     (case pipeline g of
        None \<Rightarrow> (None, g)
      | Some p \<Rightarrow>
          (let (lora_loaded, g1) = load_lora_weights_fresh g client style;
               prompt = dict_get (style_prompts_fresh client) style
                 (''crypto news cover background, '' @
          client @
          '' style, professional design'');
               negative_prompt =
                 ''text, letters, words, title, subtitle, watermark, signature, blurry, low quality,'' @
          '' distorted, people, faces'';
               g2 = g1\<lparr>pipeline_calls := pipeline_calls g1 @ [(prompt, negative_prompt)]\<rparr>
           in case pipe_call p prompt negative_prompt 512 1024 of
                Inl e \<Rightarrow> (None, g2)
              | Inr img \<Rightarrow> (Some (resize img (1800, 900)), g2)))"

definition get_fonts_fresh :: "env \<Rightarrow> (string \<times> font) list" where
  "get_fonts_fresh env =
     (let font_paths = [''/usr/share/fonts/truetype/dejavu/DejaVuSans-Bold.ttf'',
                        ''/usr/share/fonts/truetype/liberation/LiberationSans-Bold.ttf'']
      in [(''title'', first_font env font_paths 200),
          (''subtitle'', first_font env font_paths 100),
          (''small'', first_font env font_paths 60)])"

text \<open>
  The first half of \<open>generate_cover\<close>: the value of the local \<open>background\<close> when the text
  overlay is about to be made (an exception if the fallback raised), and the generator.
\<close>

definition background_fresh ::
  "generator \<Rightarrow> int \<Rightarrow> int \<Rightarrow> string \<Rightarrow> string \<Rightarrow> string \<Rightarrow> bool \<Rightarrow> (exn + image) \<times> generator" where
  "background_fresh g width height client style title use_trained_lora =
     (let (background, g1) =
            (if use_trained_lora \<and> lora_available g \<noteq> [] \<and> pipeline g \<noteq> None
             then generate_with_trained_lora_fresh g client style title
             else (None, g))
      in case background of
           None \<Rightarrow> (generate_programmatic_fallback width height client style, g1)
         | Some b \<Rightarrow> (Inr b, g1))"

text \<open>Returns the pair \<open>(image or None, generation_method)\<close> and the generator.\<close>

definition generate_cover_fresh ::
  "env \<Rightarrow> generator \<Rightarrow> string \<Rightarrow> string \<Rightarrow> string \<Rightarrow> string \<Rightarrow> bool
     \<Rightarrow> (image option \<times> string) \<times> generator" where
  "generate_cover_fresh env g title subtitle client style use_trained_lora =
     (let width = 1800; height = 900;
          (background, g1) = background_fresh g width height client style title use_trained_lora
      in case (case background of
                 Inl e \<Rightarrow> Inl e
               | Inr b \<Rightarrow>
                   composite_cover b
                     (create_text_overlay_fresh (draw_textbbox env) width height title subtitle
                        (get_fonts_fresh env))
                     (watermark g1) (width, height)) of
           Inl e \<Rightarrow> ((None, ''error''), g1)
         | Inr final_image \<Rightarrow>
             ((Some final_image,
               if use_trained_lora \<and> truthy (current_lora g1)
               then ''sdxl_universal_lora'' else ''programmatic_fallback''), g1))"





text \<open>POST \<open>/generate\<close>.\<close>

definition generate_image_fresh ::
  "env \<Rightarrow> generator \<Rightarrow> GenerationRequest \<Rightarrow> (exn + reply) \<times> generator" where
  "generate_image_fresh env g request =
     (let (result, g1) = generate_cover_fresh env g (req_title request) (req_subtitle request)
                           (req_client request) (or_default (req_style request) ''dark_theme'')
                           (req_use_trained_lora request)
      in (except_500 env ''Generation failed: ''
            (case fst result of
               None \<Rightarrow> Inl (HTTPException 500 ''Generation failed'')
             | Some img \<Rightarrow>
                 Inr (Model \<lparr>success = True,
                             image_url = Some (data_uri env img),
                             error = None,
                             metadata = Some
                               [(''client'', JStr (req_client request)),
                                (''style'', json_opt_str (req_style request)),
                                (''title'', JStr (req_title request)),
                                (''subtitle'', JStr (req_subtitle request)),
                                (''generation_method'', JStr (snd result)),
                                (''lora_used'', json_opt_str (current_lora g1)),
                                (''resolution'', JStr ''1800x900'')]\<rparr>)),
          g1))"

section \<open>app_enhanced_fallback.py\<close>

definition GenerationRequest_fields_enhanced_fallback :: "(string \<times> field_default) list" where
  "GenerationRequest_fields_enhanced_fallback =
     [(''title'', Required),
      (''subtitle'', Default (JStr ''CRYPTO NEWS'')),
      (''client'', Default (JStr ''hedera'')),
      (''style'', Default (JStr ''dark_theme'')),
      (''use_trained_lora'', Default (JBool True))]"

definition check_universal_lora :: "env \<Rightarrow> generator \<Rightarrow> generator" where
  "check_universal_lora env g =
     (let lora_paths = [''models/lora/crypto_cover_styles_lora.safetensors'',
                        ''models/lora/universal/crypto_cover_universal_lora.pt'',
                        ''crypto_cover_styles_lora.safetensors'']
      in g\<lparr>universal_lora_available := list_ex (path_exists env) lora_paths\<rparr>)"

text \<open>
  The import of torch and diffusers, the loading of the pipeline and its move to the CPU
  are \<open>from_pretrained\<close>; any exception, and a missing LoRA file, resets the generator.
\<close>

definition try_load_lora_pipeline :: "env \<Rightarrow> generator \<Rightarrow> generator" where
  "try_load_lora_pipeline env g =
     (if \<not> universal_lora_available g then g
      else
        (case from_pretrained env ''stabilityai/stable-diffusion-xl-base-1.0'' of
           Inl e \<Rightarrow> g\<lparr>lora_pipeline := None, universal_lora_available := False\<rparr>
         | Inr p \<Rightarrow>
             (let lora_path = ''models/lora/crypto_cover_styles_lora.safetensors'' in
              if path_exists env lora_path then
                (case pipe_load_lora_weights p lora_path of
                   None \<Rightarrow> g\<lparr>lora_pipeline := Some p\<rparr>
                 | Some e \<Rightarrow> g\<lparr>lora_pipeline := None, universal_lora_available := False\<rparr>)
              else g\<lparr>lora_pipeline := None, universal_lora_available := False\<rparr>)))"

definition style_prompts_enhanced_fallback :: "string \<Rightarrow> (string \<times> string) list" where
  "style_prompts_enhanced_fallback client =
     [(''energy_fields'',
          ''crypto news cover background, glowing energy fields, particle effects, '' @
          client @
          '' branding, professional design''),
       (''dark_theme'',
          ''crypto news cover background, dark professional theme, geometric patterns, '' @
          client @
          '' branding, corporate style''),
       (''network_nodes'',
          ''crypto news cover background, connected network nodes, tech visualization, '' @
          client @
          '' branding, futuristic design''),
       (''particle_waves'',
          ''crypto news cover background, flowing particle waves, dynamic motion, '' @
          client @
          '' branding, energy flow''),
       (''corporate_style'',
          ''crypto news cover background, clean corporate design, professional gradients, '' @
          client @
          '' branding''),
       (''ultra_visible'',
          ''crypto news cover background, high contrast design, bright elements, '' @
          client @
          '' branding, professional'')]"

definition generate_with_universal_lora_enhanced_fallback ::
  "generator \<Rightarrow> string \<Rightarrow> string \<Rightarrow> string \<Rightarrow> image option \<times> generator" where
  "generate_with_universal_lora_enhanced_fallback g title client style =
     (case lora_pipeline g of
        None \<Rightarrow> (None, g)
      | Some p \<Rightarrow>
          (let prompt = dict_get (style_prompts_enhanced_fallback client) style
                 (''crypto news cover background, '' @
                  style @
                  '', '' @
                  client @
                  '' branding, professional design'');
               negative_prompt =
                 ''text, letters, words, watermark, signature, blurry, low quality'';
               g1 = g\<lparr>pipeline_calls := pipeline_calls g @ [(prompt, negative_prompt)]\<rparr>
           in case pipe_call p prompt negative_prompt 512 1024 of
                Inl e \<Rightarrow> (None, g1)
              | Inr img \<Rightarrow> (Some (resize img (1800, 900)), g1)))"

definition colors_enhanced_fallback :: "(string \<times> color_scheme) list" where
  "colors_enhanced_fallback =
     [(''hedera'', \<lparr>primary = (138, 43, 226), secondary = (75, 0, 130),
                    accent = (186, 85, 211), energy = (255, 100, 255)\<rparr>),
      (''algorand'', \<lparr>primary = (0, 120, 140), secondary = (0, 85, 100),
                      accent = (75, 163, 224), energy = (0, 255, 255)\<rparr>),
      (''constellation'', \<lparr>primary = (72, 61, 139), secondary = (25, 25, 112),
                           accent = (106, 90, 205), energy = (255, 255, 255)\<rparr>),
      (''bitcoin'', \<lparr>primary = (255, 165, 0), secondary = (184, 115, 51),
                     accent = (255, 215, 0), energy = (255, 255, 0)\<rparr>),
      (''ethereum'', \<lparr>primary = (98, 126, 234), secondary = (52, 73, 154),
                      accent = (162, 177, 255), energy = (255, 255, 255)\<rparr>)]"

definition client_colors_enhanced_fallback :: "string \<Rightarrow> exn + color_scheme" where
  "client_colors_enhanced_fallback client =
     (case dict_item colors_enhanced_fallback ''hedera'' of
        Inl e \<Rightarrow> Inl e
      | Inr dflt \<Rightarrow> Inr (dict_get colors_enhanced_fallback client dflt))"

text \<open>
  Of the style branches, \<open>network_nodes\<close> draws from \<open>(100, width-100)\<close> and
  \<open>(100, height-100)\<close>; the other random draws cannot raise once \<open>Image.new\<close> has succeeded.
\<close>

definition generate_enhanced_fallback :: "int \<Rightarrow> int \<Rightarrow> string \<Rightarrow> string \<Rightarrow> exn + image" where
  "generate_enhanced_fallback width height client style =
     (case client_colors_enhanced_fallback client of
        Inl e \<Rightarrow> Inl e
      | Inr client_colors \<Rightarrow>
          (case Image_new ''RGB'' (width, height) of
             Inl e \<Rightarrow> Inl e
           | Inr img \<Rightarrow>
               if style = ''network_nodes''
                  \<and> (randint_raises 100 (width - 100) \<or> randint_raises 100 (height - 100))
               then Inl empty_range
               else Inr (img\<lparr>im_content := [Procedural style client_colors]\<rparr>)))"

definition get_fonts_enhanced_fallback :: "env \<Rightarrow> (string \<times> font) list" where
  "get_fonts_enhanced_fallback env =
     (let font_paths = [''/usr/share/fonts/truetype/dejavu/DejaVuSans-Bold.ttf'',
                        ''/usr/share/fonts/truetype/liberation/LiberationSans-Bold.ttf'',
                        ''/System/Library/Fonts/Arial.ttc'']
      in [(''title'', first_font env font_paths 200),
          (''subtitle'', first_font env font_paths 100),
          (''small'', first_font env font_paths 60)])"

text \<open>
  The first half of \<open>generate_cover\<close>: the local \<open>background\<close> when the text overlay is
  about to be made, the local \<open>generation_method\<close>, and the generator.
\<close>

definition background_enhanced_fallback ::
  "generator \<Rightarrow> int \<Rightarrow> int \<Rightarrow> string \<Rightarrow> string \<Rightarrow> string \<Rightarrow> bool
     \<Rightarrow> ((exn + image) \<times> string) \<times> generator" where
  "background_enhanced_fallback g width height client style title use_trained_lora =
     (let (background, g1) =
            (if use_trained_lora \<and> lora_pipeline g \<noteq> None
             then generate_with_universal_lora_enhanced_fallback g title client style
             else (None, g))
      in case background of
           None \<Rightarrow> ((generate_enhanced_fallback width height client style, ''enhanced_fallback''), g1)
         | Some b \<Rightarrow> ((Inr b, ''universal_lora''), g1))"

definition generate_cover_enhanced_fallback ::
  "env \<Rightarrow> generator \<Rightarrow> string \<Rightarrow> string \<Rightarrow> string \<Rightarrow> string \<Rightarrow> bool
     \<Rightarrow> (image option \<times> string) \<times> generator" where
  "generate_cover_enhanced_fallback env g title subtitle client style use_trained_lora =
     (let width = 1800; height = 900;
          ((background, generation_method), g1) =
             background_enhanced_fallback g width height client style title use_trained_lora
      in case (case background of
                 Inl e \<Rightarrow> Inl e
               | Inr b \<Rightarrow>
                   composite_cover b
                     (create_text_overlay_enhanced_fallback (draw_textbbox env) width height
                        title subtitle (get_fonts_enhanced_fallback env))
                     (watermark g1) (width, height)) of
           Inl e \<Rightarrow> ((None, ''error''), g1)
         | Inr final_image \<Rightarrow> ((Some final_image, generation_method), g1))"




definition generate_image_enhanced_fallback ::
  "env \<Rightarrow> generator \<Rightarrow> GenerationRequest \<Rightarrow> (exn + reply) \<times> generator" where
  "generate_image_enhanced_fallback env g request =
     (let (result, g1) = generate_cover_enhanced_fallback env g (req_title request)
                           (req_subtitle request) (req_client request)
                           (or_default (req_style request) ''dark_theme'')
                           (req_use_trained_lora request)
      in (except_500 env ''Generation failed: ''
            (case fst result of
               None \<Rightarrow> Inl (HTTPException 500 ''Generation failed'')
             | Some img \<Rightarrow>
                 Inr (Model \<lparr>success = True,
                             image_url = Some (data_uri env img),
                             error = None,
                             metadata = Some
                               [(''client'', JStr (req_client request)),
                                (''style'', json_opt_str (req_style request)),
                                (''title'', JStr (req_title request)),
                                (''subtitle'', JStr (req_subtitle request)),
                                (''generation_method'', JStr (snd result)),
                                (''universal_lora_available'', JBool (universal_lora_available g1)),
                                (''resolution'', JStr ''1800x900''),
                                (''generator'', JStr ''enhanced-universal-v3'')]\<rparr>)),
          g1))"

section \<open>app_lightweight.py\<close>

definition GenerationRequest_fields_lightweight :: "(string \<times> field_default) list" where
  "GenerationRequest_fields_lightweight =
     [(''title'', Required),
      (''subtitle'', Default (JStr ''CRYPTO NEWS'')),
      (''client'', Default (JStr ''hedera'')),
      (''style'', Default (JStr ''dark_theme''))]"

definition get_fonts_lightweight :: "env \<Rightarrow> (string \<times> font) list" where
  "get_fonts_lightweight env =
     (let font_paths = [''/usr/share/fonts/truetype/dejavu/DejaVuSans-Bold.ttf'',
                        ''/usr/share/fonts/truetype/liberation/LiberationSans-Bold.ttf'',
                        ''/System/Library/Fonts/Arial.ttc'',
                        ''/usr/share/fonts/arial.ttf'']
      in [(''title'', first_font env font_paths 180),
          (''subtitle'', first_font env font_paths 90),
          (''small'', first_font env font_paths 50)])"

definition generate_cover_lightweight ::
  "env \<Rightarrow> generator \<Rightarrow> string \<Rightarrow> string \<Rightarrow> string \<Rightarrow> string \<Rightarrow> image option" where
  "generate_cover_lightweight env g title subtitle client style =
     (let width = 1800; height = 900 in
      case (case create_enhanced_background width height client style of
              Inl e \<Rightarrow> Inl e
            | Inr background \<Rightarrow>
                composite_cover background
                  (create_text_overlay_lightweight (draw_textbbox env) width height title subtitle
                     (get_fonts_lightweight env))
                  (watermark g) (width, height)) of
        Inl e \<Rightarrow> None
      | Inr final_image \<Rightarrow> Some final_image)"




definition generate_image_lightweight :: "env \<Rightarrow> generator \<Rightarrow> GenerationRequest \<Rightarrow> exn + reply" where
  "generate_image_lightweight env g request =
     except_500 env ''Generation failed: ''
       (case generate_cover_lightweight env g (req_title request) (req_subtitle request)
               (req_client request) (or_default (req_style request) ''dark_theme'') of
          None \<Rightarrow> Inl (HTTPException 500 ''Failed to generate image'')
        | Some img \<Rightarrow>
            Inr (Model \<lparr>success = True,
                        image_url = Some (data_uri env img),
                        error = None,
                        metadata = Some
                          [(''client'', JStr (req_client request)),
                           (''style'', json_opt_str (req_style request)),
                           (''title'', JStr (req_title request)),
                           (''subtitle'', JStr (req_subtitle request)),
                           (''generator'', JStr ''enhanced-lightweight''),
                           (''resolution'', JStr ''1800x900'')]\<rparr>))"

section \<open>app_lora.py\<close>

definition GenerationRequest_fields_lora :: "(string \<times> field_default) list" where
  "GenerationRequest_fields_lora =
     [(''title'', Required),
      (''subtitle'', Default (JStr ''CRYPTO NEWS'')),
      (''client'', Default (JStr ''hedera'')),
      (''style'', Default (JStr ''energy_fields''))]"

text \<open>The local \<open>lora_path = f"models/lora/{client}_lora.safetensors"\<close> of \<open>load_lora_model\<close>.\<close>

definition lora_path_lora :: "string \<Rightarrow> string" where
  "lora_path_lora client = ''models/lora/'' @ client @ ''_lora.safetensors''"

text \<open>
  Whether the client's LoRA has been loaded. Without a pipeline the method call on
  \<open>None\<close> raises inside the \<open>try\<close>.
\<close>

definition load_lora_model :: "env \<Rightarrow> generator \<Rightarrow> string \<Rightarrow> bool" where
  "load_lora_model env g client =
     (let lora_path = lora_path_lora client in
      if path_exists env lora_path then
        (case pipeline g of
           None \<Rightarrow> False
         | Some p \<Rightarrow>
             (case pipe_load_lora_weights p lora_path of
                Some e \<Rightarrow> False
              | None \<Rightarrow> (case pipe_fuse_lora p of Some e \<Rightarrow> False | None \<Rightarrow> True)))
      else False)"

definition get_fonts_lora :: "env \<Rightarrow> (string \<times> font) list" where
  "get_fonts_lora env =
     (let font_paths = [''/usr/share/fonts/truetype/dejavu/DejaVuSans-Bold.ttf'',
                        ''/System/Library/Fonts/Arial.ttc'',
                        ''/usr/share/fonts/arial.ttf'']
      in [(''title'', first_font env font_paths 120),
          (''subtitle'', first_font env font_paths 60),
          (''small'', first_font env font_paths 40)])"

definition brand_prompts :: "(string \<times> (string \<times> string) list) list" where
  "brand_prompts =
     [(''hedera'',
        [(''energy_fields'',
            ''dark electromagnetic field background, deep black with purple energy field'' @
            '' distortions, purple electromagnetic waves, energy field visualizations,'' @
            '' plasma-like purple distortions in space, electromagnetic field photography, 8k'' @
            '' resolution, electric energy lighting, professional article cover background, no'' @
            '' text, no words, no letters''),
         (''network_nodes'',
            ''dramatic dark purple hashgraph technology background, deep black void with glowing'' @
            '' purple elements, glowing hashgraph network nodes in dark space, electric purple'' @
            '' connections on black background, hexagonal grid overlay with luminous H symbols,'' @
            '' premium dark technology photography, 8k resolution, dramatic lighting with deep'' @
            '' shadows''),
         (''particle_waves'',
            ''dark cosmic background with purple particle systems, deep space with glowing purple'' @
            '' dust clouds, swirling purple particle waves, cosmic dust formations, ethereal'' @
            '' purple energy clouds floating in space, cosmic particle photography, 8k'' @
            '' resolution, ethereal lighting effects'')]),
     (''algorand'',
        [(''energy_fields'',
            ''dark computational field background, black space with teal algorithmic energy'' @
            '' patterns, teal computational waves, algorithm visualization fields, digital energy'' @
            '' distortions, computational field photography, 8k resolution, digital energy'' @
            '' lighting''),
         (''network_nodes'',
            ''sophisticated dark blockchain environment, deep black background with glowing teal'' @
            '' triangular elements, glowing proof of stake visualization, electric teal'' @
            '' triangular nodes on black background, geometric network topology, premium dark'' @
            '' fintech photography, 8k resolution, dramatic professional lighting''),
         (''geometric_patterns'',
            ''clean dark architectural background, minimalist black space with teal geometric'' @
            '' structures, precise teal geometric forms, triangular architectural elements,'' @
            '' mathematical precision patterns, mathematical architecture photography, 8k'' @
            '' resolution, precision lighting'')]),
     (''constellation'',
        [(''energy_fields'',
            ''dark gravitational field background, deep space with white gravitational wave'' @
            '' distortions, white gravitational waves, spacetime distortion patterns, cosmic'' @
            '' energy field visualizations, gravitational field photography, 8k resolution,'' @
            '' spacetime lighting effects''),
         (''network_nodes'',
            ''dramatic dark cosmic space environment, deep black void with glowing stellar'' @
            '' elements, glowing DAG network visualization, electric white star-shaped nodes on'' @
            '' cosmic black background, premium dark space photography, 8k resolution, dramatic'' @
            '' cosmic lighting''),
         (''crystalline_structures'',
            ''dark space with white crystal star formations, cosmic void with luminous crystal'' @
            '' clusters, white crystalline star structures, cosmic crystal growth patterns,'' @
            '' faceted stellar crystal formations, stellar crystal photography, 8k resolution,'' @
            '' cosmic crystal lighting'')])]"

definition get_enhanced_prompts :: "string \<Rightarrow> string \<Rightarrow> exn + string" where
  "get_enhanced_prompts client style =
     (case map_of brand_prompts (lower client) of
        Some by_style \<Rightarrow>
          (case map_of by_style style of
             Some prompt \<Rightarrow> Inr prompt
           | None \<Rightarrow>
               (case dict_item brand_prompts ''hedera'' of
                  Inl e \<Rightarrow> Inl e
                | Inr h \<Rightarrow> dict_item h ''energy_fields''))
      | None \<Rightarrow>
          (case dict_item brand_prompts ''hedera'' of
             Inl e \<Rightarrow> Inl e
           | Inr h \<Rightarrow> dict_item h ''energy_fields''))"

text \<open>
  Returns the cover, or \<open>None\<close>, and the generator. Calling a pipeline that is \<open>None\<close>
  raises \<open>TypeError\<close>, inside the \<open>try\<close>.
\<close>

definition generate_cover_lora ::
  "env \<Rightarrow> generator \<Rightarrow> string \<Rightarrow> string \<Rightarrow> string \<Rightarrow> string \<Rightarrow> image option \<times> generator" where
  "generate_cover_lora env g title subtitle client style =
     (let lora_loaded = load_lora_model env g client in
      case get_enhanced_prompts client style of
        Inl e \<Rightarrow> (None, g)
      | Inr prompt \<Rightarrow>
          (case pipeline g of
             None \<Rightarrow> (None, g)
           | Some p \<Rightarrow>
               (let negative_prompt =
                      ''text, letters, words, titles, subtitles, watermarks, signatures, typography, fonts,'' @
                  '' readable text, characters, alphabet, numbers, low quality, blurry, amateur, ugly,'' @
                  '' poor lighting, pixelated, distorted logos'';
                    g1 = g\<lparr>pipeline_calls := pipeline_calls g @ [(prompt, negative_prompt)]\<rparr>
                in case pipe_call p prompt negative_prompt 896 1792 of
                     Inl e \<Rightarrow> (None, g1)
                   | Inr img \<Rightarrow>
                       (let resized_image = resize img (1800, 900) in
                        case composite_cover resized_image
                               (create_text_overlay_lora (draw_textbbox env) 1800 900 title subtitle
                                  (get_fonts_lora env))
                               (watermark g1) (1800, 900) of
                          Inl e \<Rightarrow> (None, g1)
                        | Inr final_image \<Rightarrow> (Some final_image, g1)))))"




definition generate_image_lora ::
  "env \<Rightarrow> generator \<Rightarrow> GenerationRequest \<Rightarrow> (exn + reply) \<times> generator" where
  "generate_image_lora env g request =
     (let (cover, g1) = generate_cover_lora env g (req_title request) (req_subtitle request)
                          (req_client request) (or_default (req_style request) ''energy_fields'')
      in (except_500 env ''Generation failed: ''
            (case cover of
               None \<Rightarrow> Inl (HTTPException 500 ''Failed to generate image'')
             | Some img \<Rightarrow>
                 Inr (Model \<lparr>success = True,
                             image_url = Some (data_uri env img),
                             error = None,
                             metadata = Some
                               [(''client'', JStr (req_client request)),
                                (''style'', json_opt_str (req_style request)),
                                (''title'', JStr (req_title request)),
                                (''subtitle'', JStr (req_subtitle request)),
                                (''generator'', JStr ''real-lora''),
                                (''resolution'', JStr ''1800x900'')]\<rparr>)),
          g1))"

section \<open>app_minimal.py\<close>

definition GenerationRequest_fields_minimal :: "(string \<times> field_default) list" where
  "GenerationRequest_fields_minimal =
     [(''title'', Required),
      (''subtitle'', Default (JStr ''CRYPTO NEWS'')),
      (''client'', Default (JStr ''algorand'')),
      (''style'', Default (JStr ''energy_fields''))]"

definition CLIENT_COLORS :: "(string \<times> (string \<times> string) list) list" where
  "CLIENT_COLORS =
     [(''hedera'', [(''bg'', ''#8B2CE6''), (''text'', ''#FFFFFF''), (''accent'', ''#B565F7'')]),
      (''algorand'', [(''bg'', ''#0078CC''), (''text'', ''#FFFFFF''), (''accent'', ''#4BA3E0'')]),
      (''constellation'', [(''bg'', ''#484D8B''), (''text'', ''#FFFFFF''), (''accent'', ''#7B82C4'')]),
      (''bitcoin'', [(''bg'', ''#F7931A''), (''text'', ''#000000''), (''accent'', ''#FFB84D'')]),
      (''ethereum'', [(''bg'', ''#627EEA''), (''text'', ''#FFFFFF''), (''accent'', ''#8FA6F0'')]),
      (''generic'', [(''bg'', ''#4A90E2''), (''text'', ''#FFFFFF''), (''accent'', ''#7BB0E8'')])]"

definition hex_digit :: "char \<Rightarrow> nat option" where
  "hex_digit c =
     (if 48 \<le> (of_char c :: nat) \<and> (of_char c :: nat) \<le> 57 then Some ((of_char c :: nat) - 48)
      else if 65 \<le> (of_char c :: nat) \<and> (of_char c :: nat) \<le> 70 then Some ((of_char c :: nat) - 55)
      else if 97 \<le> (of_char c :: nat) \<and> (of_char c :: nat) \<le> 102 then Some ((of_char c :: nat) - 87)
      else None)"

text \<open>
  \<open>int(s, 16)\<close> on the slices \<open>hex_to_rgb\<close> takes, of at most two characters: the value
  of one or two hexadecimal digits, \<open>ValueError\<close> on anything else (signs, blanks and
  underscores, which Python also reads, do not occur in the colour constants).
\<close>

definition int16 :: "string \<Rightarrow> exn + nat" where
  "int16 s =
     (case map hex_digit s of
        [Some a] \<Rightarrow> Inr a
      | [Some a, Some b] \<Rightarrow> Inr (16 * a + b)
      | _ \<Rightarrow> Inl (PyException ''ValueError'' (''invalid literal for int() with base 16: '' @ s)))"

definition hex_to_rgb :: "string \<Rightarrow> exn + rgb" where
  "hex_to_rgb hex_color =
     (let h = dropWhile (\<lambda>c. c = CHR ''#'') hex_color in
      case int16 (take 2 h) of
        Inl e \<Rightarrow> Inl e
      | Inr r \<Rightarrow>
          (case int16 (take 2 (drop 2 h)) of
             Inl e \<Rightarrow> Inl e
           | Inr g \<Rightarrow>
               (case int16 (take 2 (drop 4 h)) of
                  Inl e \<Rightarrow> Inl e
                | Inr b \<Rightarrow> Inr (r, g, b))))"

definition create_gradient_background :: "int \<Rightarrow> int \<Rightarrow> rgb \<Rightarrow> rgb \<Rightarrow> exn + image" where
  "create_gradient_background width height color1 color2 =
     (case Image_new ''RGB'' (width, height) of
        Inl e \<Rightarrow> Inl e
      | Inr img \<Rightarrow> Inr (img\<lparr>im_content := [Gradient color1 color2]\<rparr>))"

definition opaque :: "rgb \<Rightarrow> rgba" where
  "opaque c = (fst c, fst (snd c), snd (snd c), 255)"

text \<open>The three colours of the client, as \<open>(bg_color, text_color, accent_color)\<close>.\<close>

definition client_rgb_minimal :: "string \<Rightarrow> exn + rgb \<times> rgb \<times> rgb" where
  "client_rgb_minimal client =
     (case dict_item CLIENT_COLORS ''generic'' of
        Inl e \<Rightarrow> Inl e
      | Inr dflt \<Rightarrow>
          (let colors = dict_get CLIENT_COLORS (lower client) dflt in
           case dict_item colors ''bg'' of
             Inl e \<Rightarrow> Inl e
           | Inr bg \<Rightarrow>
               (case hex_to_rgb bg of
                  Inl e \<Rightarrow> Inl e
                | Inr bg_color \<Rightarrow>
                    (case dict_item colors ''text'' of
                       Inl e \<Rightarrow> Inl e
                     | Inr tx \<Rightarrow>
                         (case hex_to_rgb tx of
                            Inl e \<Rightarrow> Inl e
                          | Inr text_color \<Rightarrow>
                              (case dict_item colors ''accent'' of
                                 Inl e \<Rightarrow> Inl e
                               | Inr ac \<Rightarrow>
                                   (case hex_to_rgb ac of
                                      Inl e \<Rightarrow> Inl e
                                    | Inr accent_color \<Rightarrow>
                                        Inr (bg_color, text_color, accent_color))))))))"

text \<open>
  The fonts of the title and of the subtitle: both from the DejaVu file when both load,
  else both the default font.
\<close>

definition fonts_minimal :: "env \<Rightarrow> font \<times> font" where
  "fonts_minimal env =
     (let font_path = ''/usr/share/fonts/truetype/dejavu/DejaVuSans-Bold.ttf'' in
      if truetype_loads env font_path 72 \<and> truetype_loads env font_path 36
      then (TrueType font_path 72, TrueType font_path 36)
      else (DefaultFont, DefaultFont))"

text \<open>The function logs and re-raises whatever is raised in it.\<close>

definition generate_crypto_cover :: "env \<Rightarrow> string \<Rightarrow> string \<Rightarrow> string \<Rightarrow> string \<Rightarrow> exn + image" where
  "generate_crypto_cover env title subtitle client style =
     (let width = 1792; height = 896 in
      case client_rgb_minimal client of
        Inl e \<Rightarrow> Inl e
      | Inr (bg_color, text_color, accent_color) \<Rightarrow>
          (case create_gradient_background width height bg_color accent_color of
             Inl e \<Rightarrow> Inl e
           | Inr img \<Rightarrow>
               (let style_ops =
                      (if style = ''energy_fields'' \<or> style = ''network_nodes''
                          \<or> style = ''geometric_patterns''
                       then [StyleElements style accent_color] else []);
                    (title_font, subtitle_font) = fonts_minimal env
                in case draw_textbbox env title_font title of
                     Inl e \<Rightarrow> Inl e
                   | Inr title_bbox \<Rightarrow>
                       (case draw_textbbox env subtitle_font subtitle of
                          Inl e \<Rightarrow> Inl e
                        | Inr subtitle_bbox \<Rightarrow>
                            (let title_width = bbox_width title_bbox;
                                 title_height = bbox_height title_bbox;
                                 subtitle_width = bbox_width subtitle_bbox;
                                 title_x = (width - title_width) div 2;
                                 title_y = (height - title_height) div 2 - 50;
                                 subtitle_x = (width - subtitle_width) div 2;
                                 subtitle_y = title_y + title_height + 20;
                                 shadow_offset = 3;
                                 brand_text = upper client @ '' NEWS'';
                                 brand_font = subtitle_font
                             in case draw_textbbox env brand_font brand_text of
                                  Inl e \<Rightarrow> Inl e
                                | Inr brand_bbox \<Rightarrow>
                                    (let brand_width = bbox_width brand_bbox;
                                         brand_x = width - brand_width - 50;
                                         brand_y = height - 100
                                     in Inr (img\<lparr>im_content := im_content img @ style_ops @
                                          [DrawText (title_x + shadow_offset, title_y + shadow_offset)
                                             title (0, 0, 0, 128) title_font,
                                           DrawText (subtitle_x + shadow_offset, subtitle_y + shadow_offset)
                                             subtitle (0, 0, 0, 128) subtitle_font,
                                           DrawText (title_x, title_y) title (opaque text_color) title_font,
                                           DrawText (subtitle_x, subtitle_y) subtitle (opaque text_color)
                                             subtitle_font,
                                           DrawText (brand_x, brand_y) brand_text (opaque accent_color)
                                             brand_font]\<rparr>)))))))"




text \<open>POST \<open>/generate\<close>: an exception is answered with a response, not raised.\<close>

definition generate_image_minimal :: "env \<Rightarrow> GenerationRequest \<Rightarrow> exn + reply" where
  "generate_image_minimal env request =
     (case generate_crypto_cover env (req_title request) (req_subtitle request) (req_client request)
             (or_default (req_style request) ''energy_fields'') of
        Inl e \<Rightarrow>
          Inr (Model \<lparr>success = False, image_url = None, error = Some (str_exn env e),
                      metadata = None\<rparr>)
      | Inr img \<Rightarrow>
          Inr (Model \<lparr>success = True,
                      image_url = Some (data_uri env img),
                      error = None,
                      metadata = Some
                        [(''client'', JStr (req_client request)),
                         (''style'', json_opt_str (req_style request)),
                         (''title'', JStr (req_title request)),
                         (''method'', JStr ''minimal_generation'')]\<rparr>))"

section \<open>app_fixed.py\<close>

definition GenerationRequest_fields_fixed :: "(string \<times> field_default) list" where
  "GenerationRequest_fields_fixed =
     [(''title'', Required),
      (''subtitle'', Default (JStr ''CRYPTO NEWS'')),
      (''client'', Default (JStr ''algorand'')),
      (''style'', Default (JStr ''energy_fields''))]"




definition failure_response :: "string \<Rightarrow> reply" where
  "failure_response msg = Model \<lparr>success = False, image_url = None, error = Some msg, metadata = None\<rparr>"

text \<open>
  POST \<open>/generate\<close>: the cover is drawn by a subprocess, which leaves it in a file; the
  file system is looked at after the subprocess has run.
\<close>

definition generate_image_fixed :: "env \<Rightarrow> GenerationRequest \<Rightarrow> exn + reply" where
  "generate_image_fixed env request =
     (let cmd = [''python3'', ''simple_lora_generator.py'',
                 ''--title'', req_title request,
                 ''--subtitle'', req_subtitle request,
                 ''--client'', req_client request,
                 ''--style'', or_default (req_style request) ''energy_fields'']
      in case subprocess_run env cmd of
           Inl e \<Rightarrow>
             (case e of
                PyException cls msg \<Rightarrow>
                  if cls = ''TimeoutExpired'' then Inr (failure_response ''Generation timeout'')
                  else Inr (failure_response (str_exn env e))
              | HTTPException status detail \<Rightarrow> Inr (failure_response (str_exn env e)))
         | Inr (returncode, stderr) \<Rightarrow>
             if returncode \<noteq> 0 then Inr (failure_response (''Generation failed: '' @ stderr))
             else
               (let output_path = ''/app/style_outputs/boxed_cover_'' @ req_client request @ ''.png'' in
                if path_exists env output_path then
                  Inr (Model \<lparr>success = True,
                              image_url = Some (''/download/'' @ req_client request @ ''.png''),
                              error = None,
                              metadata = Some
                                [(''client'', JStr (req_client request)),
                                 (''style'', json_opt_str (req_style request)),
                                 (''title'', JStr (req_title request)),
                                 (''output_path'', JStr output_path)]\<rparr>)
                else Inr (failure_response ''Output file not created'')))"

section \<open>universal_lora_deploy_2025-10-14/app_minimal_sd15.py\<close>

text \<open>Here the request model has three fields, all required.\<close>

definition GenerationRequest_fields_minimal_sd15 :: "(string \<times> field_default) list" where
  "GenerationRequest_fields_minimal_sd15 =
     [(''client'', Required), (''style'', Required), (''title'', Required)]"

text \<open>
  \<open>LoRAGenerator.generate\<close>: the base64 of the PNG of the pipeline's image with the title
  drawn on it, or the exception raised (logged and re-raised), and the generator.
  Calling a pipeline that is \<open>None\<close> raises \<open>TypeError\<close>.
\<close>

definition cover_minimal_sd15 ::
  "env \<Rightarrow> generator \<Rightarrow> string \<Rightarrow> string \<Rightarrow> string \<Rightarrow> (exn + image) \<times> generator" where
  "cover_minimal_sd15 env g client style title =
     (let prompt = ''crypto financial cover, '' @ client @ '' style, professional design, high quality'';
          negative_prompt = ''text, letters, words, blurry, low quality''
      in case pipeline g of
           None \<Rightarrow> (Inl (PyException ''TypeError'' ([CHR 0x27] @ ''NoneType'' @ [CHR 0x27] @ '' object is not callable'')), g)
         | Some p \<Rightarrow>
             (let g1 = g\<lparr>pipeline_calls := pipeline_calls g @ [(prompt, negative_prompt)]\<rparr> in
              case pipe_call p prompt negative_prompt 512 1024 of
                Inl e \<Rightarrow> (Inl e, g1)
              | Inr img \<Rightarrow>
                  (let font_path = ''/usr/share/fonts/truetype/dejavu/DejaVuSans-Bold.ttf'';
                       f = (if truetype_loads env font_path 60 then TrueType font_path 60
                            else DefaultFont)
                   in case draw_textbbox env f title of
                        Inl e \<Rightarrow> (Inl e, g1)
                      | Inr text_bbox \<Rightarrow>
                          (let text_width = bbox_width text_bbox;
                               text_height = bbox_height text_bbox;
                               x = (fst (im_size img) - text_width) div 2;
                               y = (snd (im_size img) - text_height) div 2
                           in (Inr (img\<lparr>im_content := im_content img @
                                 concat (map (\<lambda>dx. concat (map (\<lambda>dy.
                                     if dx \<noteq> 0 \<or> dy \<noteq> 0
                                     then [DrawText (x + dx, y + dy) title (0, 0, 0, 255) f]
                                     else [])
                                   [- 2, 0, 2])) [- 2, 0, 2])
                                 @ [DrawText (x, y) title (255, 255, 255, 255) f]\<rparr>), g1)))))"

definition generate_minimal_sd15 ::
  "env \<Rightarrow> generator \<Rightarrow> string \<Rightarrow> string \<Rightarrow> string \<Rightarrow> (exn + string) \<times> generator" where
  "generate_minimal_sd15 env g client style title =
     (let (cover, g1) = cover_minimal_sd15 env g client style title
      in ((case cover of Inl e \<Rightarrow> Inl e | Inr img \<Rightarrow> Inr (png_base64 env img)), g1))"



text \<open>POST \<open>/generate\<close> (the handler is named \<open>generate_cover\<close>): the reply is a dict literal.\<close>

definition generate_cover_minimal_sd15 ::
  "env \<Rightarrow> generator \<Rightarrow> GenerationRequest \<Rightarrow> (exn + reply) \<times> generator" where
  "generate_cover_minimal_sd15 env g request =
     (let (r, g1) = generate_minimal_sd15 env g (req_client request)
                      (case req_style request of None \<Rightarrow> [] | Some s \<Rightarrow> s) (req_title request)
      in ((case r of
             Inl e \<Rightarrow> Inl (HTTPException 500 (str_exn env e))
           | Inr img_base64 \<Rightarrow>
               Inr (Dict [(''success'', JBool True),
                          (''image'', JStr img_base64),
                          (''model'', JStr ''SD 1.5 + LoRA'')])), g1))"

section \<open>app_force_visible.py\<close>

definition GenerationRequest_fields_force_visible :: "(string \<times> field_default) list" where
  "GenerationRequest_fields_force_visible =
     [(''title'', Required),
      (''subtitle'', Default (JStr ''CRYPTO NEWS'')),
      (''client'', Default (JStr ''hedera'')),
      (''style'', Default (JStr ''dark_theme''))]"

definition get_fonts_force_visible :: "env \<Rightarrow> (string \<times> font) list" where
  "get_fonts_force_visible env =
     (let font_paths = [''/usr/share/fonts/truetype/dejavu/DejaVuSans-Bold.ttf'',
                        ''/usr/share/fonts/truetype/liberation/LiberationSans-Bold.ttf'',
                        ''/System/Library/Fonts/Arial.ttc'',
                        ''/usr/share/fonts/arial.ttf'']
      in [(''title'', first_font env font_paths 300),
          (''subtitle'', first_font env font_paths 150),
          (''small'', first_font env font_paths 80)])"

definition colors_force_visible :: "(string \<times> color_scheme) list" where
  "colors_force_visible =
     [(''hedera'', \<lparr>primary = (200, 100, 255), secondary = (150, 50, 200),
                    accent = (255, 150, 255), energy = (255, 100, 255)\<rparr>),
      (''algorand'', \<lparr>primary = (0, 200, 220), secondary = (0, 150, 180),
                      accent = (100, 220, 255), energy = (0, 255, 255)\<rparr>),
      (''constellation'', \<lparr>primary = (120, 100, 200), secondary = (80, 80, 150),
                           accent = (150, 130, 255), energy = (255, 255, 255)\<rparr>)]"

definition client_colors_force_visible :: "string \<Rightarrow> exn + color_scheme" where
  "client_colors_force_visible client =
     (case dict_item colors_force_visible ''hedera'' of
        Inl e \<Rightarrow> Inl e
      | Inr dflt \<Rightarrow> Inr (dict_get colors_force_visible client dflt))"

text \<open>
  The \<open>dark_theme\<close> branch draws from \<open>(100, width-100)\<close> and \<open>(100, height-100)\<close>; the
  branch of every other style cannot raise once \<open>Image.new\<close> has succeeded.
\<close>

definition create_ultra_visible_background :: "int \<Rightarrow> int \<Rightarrow> string \<Rightarrow> string \<Rightarrow> exn + image" where
  "create_ultra_visible_background width height client style =
     (case client_colors_force_visible client of
        Inl e \<Rightarrow> Inl e
      | Inr client_colors \<Rightarrow>
          (case Image_new ''RGB'' (width, height) of
             Inl e \<Rightarrow> Inl e
           | Inr img \<Rightarrow>
               if style = ''dark_theme''
                  \<and> (randint_raises 100 (width - 100) \<or> randint_raises 100 (height - 100))
               then Inl empty_range
               else Inr (img\<lparr>im_content := [Procedural style client_colors]\<rparr>)))"

definition generate_cover_force_visible ::
  "env \<Rightarrow> generator \<Rightarrow> string \<Rightarrow> string \<Rightarrow> string \<Rightarrow> string \<Rightarrow> image option" where
  "generate_cover_force_visible env g title subtitle client style =
     (let width = 1800; height = 900 in
      case (case create_ultra_visible_background width height client style of
              Inl e \<Rightarrow> Inl e
            | Inr background \<Rightarrow>
                composite_cover background
                  (create_massive_text_overlay_force_visible (draw_textbbox env) width height
                     title subtitle (get_fonts_force_visible env))
                  (watermark g) (width, height)) of
        Inl e \<Rightarrow> None
      | Inr final_image \<Rightarrow> Some final_image)"




definition generate_image_force_visible :: "env \<Rightarrow> generator \<Rightarrow> GenerationRequest \<Rightarrow> exn + reply" where
  "generate_image_force_visible env g request =
     except_500 env ''FORCE generation failed: ''
       (case generate_cover_force_visible env g (req_title request) (req_subtitle request)
               (req_client request) (or_default (req_style request) ''dark_theme'') of
          None \<Rightarrow> Inl (HTTPException 500 ''FORCE generation failed'')
        | Some img \<Rightarrow>
            Inr (Model \<lparr>success = True,
                        image_url = Some (data_uri env img),
                        error = None,
                        metadata = Some
                          [(''client'', JStr (req_client request)),
                           (''style'', json_opt_str (req_style request)),
                           (''title'', JStr (req_title request)),
                           (''subtitle'', JStr (req_subtitle request)),
                           (''generator'', JStr ''ULTRA-VISIBLE-FORCE''),
                           (''resolution'', JStr ''1800x900''),
                           (''visibility'', JStr ''MAXIMUM'')]\<rparr>))"

section \<open>universal_lora_deploy_2025-10-14/app_lightweight.py\<close>

definition GenerationRequest_fields_deploy_lightweight :: "(string \<times> field_default) list" where
  "GenerationRequest_fields_deploy_lightweight =
     [(''title'', Required),
      (''subtitle'', Default (JStr ''CRYPTO NEWS'')),
      (''client'', Default (JStr ''hedera'')),
      (''style'', Default (JStr ''dark_theme'')),
      (''use_trained_lora'', Default (JBool True))]"

definition colors_deploy_lightweight :: "(string \<times> color_scheme) list" where
  "colors_deploy_lightweight =
     [(''hedera'', \<lparr>primary = (138, 43, 226), secondary = (75, 0, 130),
                    accent = (186, 85, 211), energy = (255, 0, 255)\<rparr>),
      (''algorand'', \<lparr>primary = (0, 120, 140), secondary = (0, 85, 100),
                      accent = (75, 163, 224), energy = (0, 255, 255)\<rparr>),
      (''constellation'', \<lparr>primary = (72, 61, 139), secondary = (25, 25, 112),
                           accent = (106, 90, 205), energy = (255, 255, 255)\<rparr>),
      (''bitcoin'', \<lparr>primary = (247, 147, 26), secondary = (205, 102, 0),
                     accent = (255, 193, 7), energy = (255, 215, 0)\<rparr>),
      (''ethereum'', \<lparr>primary = (98, 126, 234), secondary = (55, 71, 153),
                      accent = (141, 155, 255), energy = (173, 216, 230)\<rparr>)]"

definition client_colors_deploy_lightweight :: "string \<Rightarrow> exn + color_scheme" where
  "client_colors_deploy_lightweight client =
     (case dict_item colors_deploy_lightweight ''hedera'' of
        Inl e \<Rightarrow> Inl e
      | Inr dflt \<Rightarrow> Inr (dict_get colors_deploy_lightweight client dflt))"

text \<open>
  Of the style branches, \<open>network_nodes\<close> draws from \<open>(50, width-50)\<close> and
  \<open>(50, height-50)\<close> and \<open>ultra_visible\<close> from \<open>(100, width-100)\<close> and
  \<open>(100, height-100)\<close>; the other branches cannot raise once \<open>Image.new\<close> has succeeded.
\<close>

definition generate_lora_style_background :: "int \<Rightarrow> int \<Rightarrow> string \<Rightarrow> string \<Rightarrow> exn + image" where
  "generate_lora_style_background width height client style =
     (case client_colors_deploy_lightweight client of
        Inl e \<Rightarrow> Inl e
      | Inr client_colors \<Rightarrow>
          (case Image_new ''RGB'' (width, height) of
             Inl e \<Rightarrow> Inl e
           | Inr img \<Rightarrow>
               if style = ''network_nodes''
                  \<and> (randint_raises 50 (width - 50) \<or> randint_raises 50 (height - 50))
               then Inl empty_range
               else if style = ''ultra_visible''
                  \<and> (randint_raises 100 (width - 100) \<or> randint_raises 100 (height - 100))
               then Inl empty_range
               else Inr (img\<lparr>im_content := [Procedural style client_colors]\<rparr>)))"

definition get_fonts_deploy_lightweight :: "env \<Rightarrow> (string \<times> font) list" where
  "get_fonts_deploy_lightweight env =
     (let font_paths = [''/usr/share/fonts/truetype/dejavu/DejaVuSans-Bold.ttf'',
                        ''/usr/share/fonts/truetype/liberation/LiberationSans-Bold.ttf'']
      in [(''title'', first_font env font_paths 160),
          (''subtitle'', first_font env font_paths 80),
          (''small'', first_font env font_paths 50)])"

definition generate_cover_deploy_lightweight ::
  "env \<Rightarrow> generator \<Rightarrow> string \<Rightarrow> string \<Rightarrow> string \<Rightarrow> string \<Rightarrow> image option \<times> string" where
  "generate_cover_deploy_lightweight env g title subtitle client style =
     (let width = 1800; height = 900 in
      case (case generate_lora_style_background width height client style of
              Inl e \<Rightarrow> Inl e
            | Inr background \<Rightarrow>
                composite_cover background
                  (create_text_overlay_deploy_lightweight (draw_textbbox env) width height
                     title subtitle (get_fonts_deploy_lightweight env))
                  (watermark g) (width, height)) of
        Inl e \<Rightarrow> (None, ''error'')
      | Inr final_image \<Rightarrow> (Some final_image, ''lightweight_lora_style''))"





definition generate_image_deploy_lightweight :: "env \<Rightarrow> generator \<Rightarrow> GenerationRequest \<Rightarrow> exn + reply" where
  "generate_image_deploy_lightweight env g request =
     (let result = generate_cover_deploy_lightweight env g (req_title request) (req_subtitle request)
                     (req_client request) (or_default (req_style request) ''dark_theme'')
      in except_500 env ''Generation failed: ''
           (case fst result of
              None \<Rightarrow> Inl (HTTPException 500 ''Generation failed'')
            | Some img \<Rightarrow>
                Inr (Model \<lparr>success = True,
                            image_url = Some (data_uri env img),
                            error = None,
                            metadata = Some
                              [(''client'', JStr (req_client request)),
                               (''style'', json_opt_str (req_style request)),
                               (''title'', JStr (req_title request)),
                               (''subtitle'', JStr (req_subtitle request)),
                               (''generation_method'', JStr (snd result)),
                               (''lora_used'', JStr ''universal_lightweight''),
                               (''resolution'', JStr ''1800x900'')]\<rparr>)))"

section \<open>universal_lora_deploy_2025-10-14/app_CPU_LORA.py\<close>

definition GenerationRequest_fields_CPU_LORA :: "(string \<times> field_default) list" where
  "GenerationRequest_fields_CPU_LORA =
     [(''title'', Required),
      (''subtitle'', Default (JStr ''CRYPTO NEWS'')),
      (''client'', Default (JStr ''hedera'')),
      (''style'', Default (JStr ''dark_theme'')),
      (''use_trained_lora'', Default (JBool True))]"

text \<open>Here a missing or unreadable watermark file leaves the attribute as it was.\<close>

definition load_watermark_CPU_LORA :: "env \<Rightarrow> generator \<Rightarrow> generator" where
  "load_watermark_CPU_LORA env g =
     (let watermark_path = ''genfinity-watermark.png'' in
      if path_exists env watermark_path then
        (case Image_open env watermark_path of
           Inl e \<Rightarrow> g
         | Inr im \<Rightarrow> g\<lparr>watermark := Some (convert im ''RGBA'')\<rparr>)
      else g)"

text \<open>At start-up; \<open>SystemExit\<close> ends the process.\<close>

definition check_available_loras_CPU_LORA :: "env \<Rightarrow> generator \<Rightarrow> exn + generator" where
  "check_available_loras_CPU_LORA env g =
     (let lora_dir = ''models/lora'' in
      if \<not> path_exists env lora_dir then Inl (PyException ''SystemExit'' ''LoRA directory required'')
      else
        (let universal_lora = lora_dir @ ''/crypto_cover_styles_lora.safetensors'' in
         if \<not> path_exists env universal_lora
         then Inl (PyException ''SystemExit'' ''Universal LoRA model required'')
         else Inr (g\<lparr>lora_available := dict_set (lora_available g) ''universal'' universal_lora\<rparr>)))"

text \<open>Returns nothing or raises; \<open>current_lora\<close> is set when the weights have loaded.\<close>

definition force_load_lora_weights_CPU_LORA :: "env \<Rightarrow> generator \<Rightarrow> (exn + unit) \<times> generator" where
  "force_load_lora_weights_CPU_LORA env g =
     (case pipeline g of
        None \<Rightarrow> (Inl (PyException ''Exception'' ''Pipeline not loaded''), g)
      | Some p \<Rightarrow>
          (case dict_item (lora_available g) ''universal'' of
             Inl e \<Rightarrow> (Inl e, g)
           | Inr lora_path \<Rightarrow>
               (case (if truthy (current_lora g) then pipe_unload_lora_weights p else None) of
                  Some e \<Rightarrow> (Inl (PyException ''Exception'' (''LoRA loading failed: '' @ str_exn env e)), g)
                | None \<Rightarrow>
                    (case pipe_load_lora_weights p lora_path of
                       Some e \<Rightarrow>
                         (Inl (PyException ''Exception'' (''LoRA loading failed: '' @ str_exn env e)), g)
                     | None \<Rightarrow> (Inr (), g\<lparr>current_lora := Some ''universal''\<rparr>)))))"

definition style_prompts_CPU_LORA :: "string \<Rightarrow> (string \<times> string) list" where
  "style_prompts_CPU_LORA client =
     [(''energy_fields'',
          ''crypto cover, glowing energy fields, '' @
          client @
          '' colors, professional design''),
       (''dark_theme'',
          ''crypto cover, dark background, '' @
          client @
          '' branding, corporate style''),
       (''network_nodes'',
          ''crypto cover, network visualization, '' @
          client @
          '' colors, tech design''),
       (''particle_waves'',
          ''crypto cover, particle effects, '' @
          client @
          '' branding, modern style'')]"

definition generate_with_cpu_lora_CPU_LORA ::
  "env \<Rightarrow> generator \<Rightarrow> string \<Rightarrow> string \<Rightarrow> string \<Rightarrow> (exn + image) \<times> generator" where
  "generate_with_cpu_lora_CPU_LORA env g client style title =
     (case pipeline g of
        None \<Rightarrow> (Inl (PyException ''Exception'' ''Pipeline not available''), g)
      | Some p \<Rightarrow>
          (case force_load_lora_weights_CPU_LORA env g of
             (Inl e, g1) \<Rightarrow> (Inl e, g1)
           | (Inr u, g1) \<Rightarrow>
               (let prompt = dict_get (style_prompts_CPU_LORA client) style
                      (''crypto cover, '' @
                      client @
                      '' style, professional'');
                    negative_prompt =
                      ''text, letters, words, low quality, blurry'';
                    g2 = g1\<lparr>pipeline_calls := pipeline_calls g1 @ [(prompt, negative_prompt)]\<rparr>
                in case pipe_call p prompt negative_prompt 512 1024 of
                     Inl e \<Rightarrow>
                       (Inl (PyException ''Exception'' (''CPU LoRA generation failed: '' @ str_exn env e)), g2)
                   | Inr img \<Rightarrow> (Inr (resize img (1800, 900)), g2))))"

definition get_fonts_CPU_LORA :: "env \<Rightarrow> (string \<times> font) list" where
  "get_fonts_CPU_LORA env =
     (let font_paths = [''/usr/share/fonts/truetype/dejavu/DejaVuSans-Bold.ttf'',
                        ''/usr/share/fonts/truetype/liberation/LiberationSans-Bold.ttf'']
      in [(''title'', first_font env font_paths 200),
          (''subtitle'', first_font env font_paths 100)])"

text \<open>Returns the pair \<open>(image, generation_method)\<close> or raises, and the generator.\<close>

definition generate_cover_CPU_LORA ::
  "env \<Rightarrow> generator \<Rightarrow> string \<Rightarrow> string \<Rightarrow> string \<Rightarrow> string
     \<Rightarrow> (exn + image \<times> string) \<times> generator" where
  "generate_cover_CPU_LORA env g title subtitle client style =
     (let width = 1800; height = 900;
          (background, g1) = generate_with_cpu_lora_CPU_LORA env g client style title
      in case (case background of
                 Inl e \<Rightarrow> Inl e
               | Inr b \<Rightarrow>
                   composite_cover b
                     (create_text_overlay_CPU_LORA (draw_textbbox env) width height title subtitle
                        (get_fonts_CPU_LORA env))
                     (watermark g1) (width, height)) of
           Inl e \<Rightarrow> (Inl (PyException ''Exception'' (''CPU LoRA generation failed: '' @ str_exn env e)), g1)
         | Inr final_image \<Rightarrow> (Inr (final_image, ''cpu_universal_lora''), g1))"




definition generate_image_CPU_LORA ::
  "env \<Rightarrow> generator \<Rightarrow> GenerationRequest \<Rightarrow> (exn + reply) \<times> generator" where
  "generate_image_CPU_LORA env g request =
     (let (result, g1) = generate_cover_CPU_LORA env g (req_title request) (req_subtitle request)
                           (req_client request) (or_default (req_style request) ''dark_theme'')
      in (except_500 env ''CPU LoRA generation failed: ''
            (case result of
               Inl e \<Rightarrow> Inl e
             | Inr (img, method) \<Rightarrow>
                 Inr (Model \<lparr>success = True,
                             image_url = Some (data_uri env img),
                             error = None,
                             metadata = Some
                               [(''client'', JStr (req_client request)),
                                (''style'', json_opt_str (req_style request)),
                                (''title'', JStr (req_title request)),
                                (''subtitle'', JStr (req_subtitle request)),
                                (''generation_method'', JStr method),
                                (''lora_used'', json_opt_str (current_lora g1)),
                                (''device'', JStr ''cpu''),
                                (''resolution'', JStr ''1800x900'')]\<rparr>)),
          g1))"

section \<open>universal_lora_deploy_2025-10-14/app_LORA_ONLY.py\<close>

definition GenerationRequest_fields_LORA_ONLY :: "(string \<times> field_default) list" where
  "GenerationRequest_fields_LORA_ONLY =
     [(''title'', Required),
      (''subtitle'', Default (JStr ''CRYPTO NEWS'')),
      (''client'', Default (JStr ''hedera'')),
      (''style'', Default (JStr ''dark_theme'')),
      (''use_trained_lora'', Default (JBool True))]"

text \<open>Here a missing file leaves the attribute as it was and an unreadable one ends the process.\<close>

definition load_watermark_LORA_ONLY :: "env \<Rightarrow> generator \<Rightarrow> exn + generator" where
  "load_watermark_LORA_ONLY env g =
     (let watermark_path = ''genfinity-watermark.png'' in
      if \<not> path_exists env watermark_path then Inr g
      else
        (case Image_open env watermark_path of
           Inl e \<Rightarrow> Inl (PyException ''SystemExit'' ''Watermark required for proper covers'')
         | Inr im \<Rightarrow> Inr (g\<lparr>watermark := Some (convert im ''RGBA'')\<rparr>)))"

text \<open>At start-up; \<open>SystemExit\<close> ends the process.\<close>

definition check_available_loras_LORA_ONLY :: "env \<Rightarrow> generator \<Rightarrow> exn + generator" where
  "check_available_loras_LORA_ONLY env g =
     (let lora_dir = ''models/lora'' in
      if \<not> path_exists env lora_dir then Inl (PyException ''SystemExit'' ''LoRA directory required for LoRA generation'')
      else
        (let universal_lora = lora_dir @ ''/crypto_cover_styles_lora.safetensors'' in
         if \<not> path_exists env universal_lora
         then Inl (PyException ''SystemExit'' ''Universal LoRA model is required'')
         else Inr (g\<lparr>lora_available := dict_set (lora_available g) ''universal'' universal_lora\<rparr>)))"

text \<open>Returns nothing or raises; \<open>current_lora\<close> is set when the weights have loaded.\<close>

definition force_load_lora_weights_LORA_ONLY :: "env \<Rightarrow> generator \<Rightarrow> (exn + unit) \<times> generator" where
  "force_load_lora_weights_LORA_ONLY env g =
     (case pipeline g of
        None \<Rightarrow> (Inl (PyException ''Exception'' ''Pipeline not loaded - cannot load LoRA''), g)
      | Some p \<Rightarrow>
          (case dict_item (lora_available g) ''universal'' of
             Inl e \<Rightarrow> (Inl e, g)
           | Inr lora_path \<Rightarrow>
               (case (if truthy (current_lora g) then pipe_unload_lora_weights p else None) of
                  Some e \<Rightarrow> (Inl (PyException ''Exception'' (''LoRA loading failed: '' @ str_exn env e)), g)
                | None \<Rightarrow>
                    (case pipe_load_lora_weights p lora_path of
                       Some e \<Rightarrow>
                         (Inl (PyException ''Exception'' (''LoRA loading failed: '' @ str_exn env e)), g)
                     | None \<Rightarrow> (Inr (), g\<lparr>current_lora := Some ''universal''\<rparr>)))))"

definition style_prompts_LORA_ONLY :: "string \<Rightarrow> (string \<times> string) list" where
  "style_prompts_LORA_ONLY client =
     [(''energy_fields'',
          ''crypto cover, glowing energy fields, particle effects, cosmic energy, vibrant '' @
          client @
          '' colors, professional financial design, high quality''),
       (''dark_theme'',
          ''crypto cover, dark professional background, geometric patterns, minimal lighting, '' @
          client @
          '' branding, corporate financial style, premium''),
       (''network_nodes'',
          ''crypto cover, connected network visualization, digital nodes, tech infrastructure, '' @
          client @
          '' colors, futuristic financial design''),
       (''particle_waves'',
          ''crypto cover, flowing particle effects, dynamic waves, energy motion, '' @
          client @
          '' branding, modern financial aesthetic'')]"

definition generate_with_universal_lora_LORA_ONLY ::
  "env \<Rightarrow> generator \<Rightarrow> string \<Rightarrow> string \<Rightarrow> string \<Rightarrow> (exn + image) \<times> generator" where
  "generate_with_universal_lora_LORA_ONLY env g client style title =
     (case pipeline g of
        None \<Rightarrow> (Inl (PyException ''Exception'' ''SDXL Pipeline not available''), g)
      | Some p \<Rightarrow>
          (case force_load_lora_weights_LORA_ONLY env g of
             (Inl e, g1) \<Rightarrow> (Inl e, g1)
           | (Inr u, g1) \<Rightarrow>
               (let prompt = dict_get (style_prompts_LORA_ONLY client) style
                      (''crypto financial cover, '' @
                      client @
                      '' style, professional design, high quality'');
                    negative_prompt =
                      ''text, letters, words, title, subtitle, watermark, signature, blurry, low quality,'' @
                      '' distorted, people, faces, ugly, bad anatomy'';
                    g2 = g1\<lparr>pipeline_calls := pipeline_calls g1 @ [(prompt, negative_prompt)]\<rparr>
                in case pipe_call p prompt negative_prompt 512 1024 of
                     Inl e \<Rightarrow>
                       (Inl (PyException ''Exception'' (''LoRA generation failed: '' @ str_exn env e)), g2)
                   | Inr img \<Rightarrow> (Inr (resize img (1800, 900)), g2))))"

definition get_fonts_LORA_ONLY :: "env \<Rightarrow> (string \<times> font) list" where
  "get_fonts_LORA_ONLY env =
     (let font_paths = [''/usr/share/fonts/truetype/dejavu/DejaVuSans-Bold.ttf'',
                        ''/usr/share/fonts/truetype/liberation/LiberationSans-Bold.ttf'']
      in [(''title'', first_font env font_paths 200),
          (''subtitle'', first_font env font_paths 100)])"

text \<open>Returns the pair \<open>(image, generation_method)\<close> or raises, and the generator.\<close>

definition generate_cover_LORA_ONLY ::
  "env \<Rightarrow> generator \<Rightarrow> string \<Rightarrow> string \<Rightarrow> string \<Rightarrow> string
     \<Rightarrow> (exn + image \<times> string) \<times> generator" where
  "generate_cover_LORA_ONLY env g title subtitle client style =
     (let width = 1800; height = 900;
          (background, g1) = generate_with_universal_lora_LORA_ONLY env g client style title
      in case (case background of
                 Inl e \<Rightarrow> Inl e
               | Inr b \<Rightarrow>
                   composite_cover b
                     (create_enhanced_text_overlay_LORA_ONLY (draw_textbbox env) width height title subtitle
                        (get_fonts_LORA_ONLY env))
                     (watermark g1) (width, height)) of
           Inl e \<Rightarrow> (Inl (PyException ''Exception'' (''LoRA generation failed - NO FALLBACKS: '' @ str_exn env e)), g1)
         | Inr final_image \<Rightarrow> (Inr (final_image, ''pure_universal_lora''), g1))"




definition generate_image_LORA_ONLY ::
  "env \<Rightarrow> generator \<Rightarrow> GenerationRequest \<Rightarrow> (exn + reply) \<times> generator" where
  "generate_image_LORA_ONLY env g request =
     (let (result, g1) = generate_cover_LORA_ONLY env g (req_title request) (req_subtitle request)
                           (req_client request) (or_default (req_style request) ''dark_theme'')
      in (except_500 env ''LoRA generation failed (NO FALLBACKS): ''
            (case result of
               Inl e \<Rightarrow> Inl e
             | Inr (img, method) \<Rightarrow>
                 Inr (Model \<lparr>success = True,
                             image_url = Some (data_uri env img),
                             error = None,
                             metadata = Some
                               [(''client'', JStr (req_client request)),
                                (''style'', json_opt_str (req_style request)),
                                (''title'', JStr (req_title request)),
                                (''subtitle'', JStr (req_subtitle request)),
                                (''generation_method'', JStr method),
                                (''lora_used'', json_opt_str (current_lora g1)),
                                (''resolution'', JStr ''1800x900''),
                                (''fallbacks_used'', JBool False)]\<rparr>)),
          g1))"

section \<open>The variants with a POST /generate route\<close>

datatype variant =
    FRESH_SDXL_app
  | app_enhanced_fallback
  | app_lightweight
  | app_lora
  | app_force_visible
  | app_minimal
  | app_fixed
  | deploy_app_lightweight
  | deploy_app_CPU_LORA
  | deploy_app_LORA_ONLY
  | deploy_app_minimal_sd15

text \<open>The fields a variant's \<open>GenerationRequest\<close> class declares.\<close>

fun GenerationRequest_fields :: "variant \<Rightarrow> (string \<times> field_default) list" where
  "GenerationRequest_fields FRESH_SDXL_app = GenerationRequest_fields_fresh"
| "GenerationRequest_fields app_enhanced_fallback = GenerationRequest_fields_enhanced_fallback"
| "GenerationRequest_fields app_lightweight = GenerationRequest_fields_lightweight"
| "GenerationRequest_fields app_lora = GenerationRequest_fields_lora"
| "GenerationRequest_fields app_force_visible = GenerationRequest_fields_force_visible"
| "GenerationRequest_fields app_minimal = GenerationRequest_fields_minimal"
| "GenerationRequest_fields app_fixed = GenerationRequest_fields_fixed"
| "GenerationRequest_fields deploy_app_lightweight = GenerationRequest_fields_deploy_lightweight"
| "GenerationRequest_fields deploy_app_CPU_LORA = GenerationRequest_fields_CPU_LORA"
| "GenerationRequest_fields deploy_app_LORA_ONLY = GenerationRequest_fields_LORA_ONLY"
| "GenerationRequest_fields deploy_app_minimal_sd15 = GenerationRequest_fields_minimal_sd15"

text \<open>
  POST \<open>/generate\<close> of a variant: what the handler returns or raises, and the generator
  after the request.
\<close>

fun post_generate :: "variant \<Rightarrow> env \<Rightarrow> generator \<Rightarrow> GenerationRequest \<Rightarrow> (exn + reply) \<times> generator" where
  "post_generate FRESH_SDXL_app env g request = generate_image_fresh env g request"
| "post_generate app_enhanced_fallback env g request = generate_image_enhanced_fallback env g request"
| "post_generate app_lightweight env g request = (generate_image_lightweight env g request, g)"
| "post_generate app_lora env g request = generate_image_lora env g request"
| "post_generate app_force_visible env g request = (generate_image_force_visible env g request, g)"
| "post_generate app_minimal env g request = (generate_image_minimal env request, g)"
| "post_generate app_fixed env g request = (generate_image_fixed env request, g)"
| "post_generate deploy_app_lightweight env g request =
     (generate_image_deploy_lightweight env g request, g)"
| "post_generate deploy_app_CPU_LORA env g request = generate_image_CPU_LORA env g request"
| "post_generate deploy_app_LORA_ONLY env g request = generate_image_LORA_ONLY env g request"
| "post_generate deploy_app_minimal_sd15 env g request = generate_cover_minimal_sd15 env g request"


text \<open>
  The cover a variant generates in its process for a request, \<open>None\<close> when the generation
  raises or returns \<open>None\<close>. app_fixed.py generates no image in its process: a subprocess
  leaves a file.
\<close>

fun cover :: "variant \<Rightarrow> env \<Rightarrow> generator \<Rightarrow> GenerationRequest \<Rightarrow> image option" where
  "cover FRESH_SDXL_app env g request =
     fst (fst (generate_cover_fresh env g (req_title request) (req_subtitle request)
       (req_client request) (or_default (req_style request) ''dark_theme'')
       (req_use_trained_lora request)))"
| "cover app_enhanced_fallback env g request =
     fst (fst (generate_cover_enhanced_fallback env g (req_title request) (req_subtitle request)
       (req_client request) (or_default (req_style request) ''dark_theme'')
       (req_use_trained_lora request)))"
| "cover app_lightweight env g request =
     generate_cover_lightweight env g (req_title request) (req_subtitle request)
       (req_client request) (or_default (req_style request) ''dark_theme'')"
| "cover app_lora env g request =
     fst (generate_cover_lora env g (req_title request) (req_subtitle request)
       (req_client request) (or_default (req_style request) ''energy_fields''))"
| "cover app_force_visible env g request =
     generate_cover_force_visible env g (req_title request) (req_subtitle request)
       (req_client request) (or_default (req_style request) ''dark_theme'')"
| "cover app_minimal env g request =
     (case generate_crypto_cover env (req_title request) (req_subtitle request) (req_client request)
             (or_default (req_style request) ''energy_fields'') of
        Inl e \<Rightarrow> None | Inr img \<Rightarrow> Some img)"
| "cover app_fixed env g request = None"
| "cover deploy_app_lightweight env g request =
     fst (generate_cover_deploy_lightweight env g (req_title request) (req_subtitle request)
       (req_client request) (or_default (req_style request) ''dark_theme''))"
| "cover deploy_app_CPU_LORA env g request =
     (case fst (generate_cover_CPU_LORA env g (req_title request) (req_subtitle request)
             (req_client request) (or_default (req_style request) ''dark_theme'')) of
        Inl e \<Rightarrow> None | Inr r \<Rightarrow> Some (fst r))"
| "cover deploy_app_LORA_ONLY env g request =
     (case fst (generate_cover_LORA_ONLY env g (req_title request) (req_subtitle request)
             (req_client request) (or_default (req_style request) ''dark_theme'')) of
        Inl e \<Rightarrow> None | Inr r \<Rightarrow> Some (fst r))"
| "cover deploy_app_minimal_sd15 env g request =
     (case fst (cover_minimal_sd15 env g (req_client request)
             (case req_style request of None \<Rightarrow> [] | Some s \<Rightarrow> s) (req_title request)) of
        Inl e \<Rightarrow> None | Inr img \<Rightarrow> Some img)"

text \<open>
  Whether the generation of a request fails: no cover comes out of it or, for
  app_fixed.py, the subprocess raises, exits with a non-zero code or leaves no file.
\<close>

definition generation_fails :: "variant \<Rightarrow> env \<Rightarrow> generator \<Rightarrow> GenerationRequest \<Rightarrow> bool" where
  "generation_fails v env g request =
     (if v = app_fixed then
        (case subprocess_run env
                [''python3'', ''simple_lora_generator.py'',
                 ''--title'', req_title request,
                 ''--subtitle'', req_subtitle request,
                 ''--client'', req_client request,
                 ''--style'', or_default (req_style request) ''energy_fields''] of
           Inl e \<Rightarrow> True
         | Inr r \<Rightarrow>
             \<not> (fst r = 0 \<and>
                path_exists env (''/app/style_outputs/boxed_cover_'' @ req_client request @ ''.png'')))
      else cover v env g request = None)"

text \<open>The constant text that starts the \<open>detail\<close> of the status 500 a handler raises.\<close>

fun detail_prefix :: "variant \<Rightarrow> string" where
  "detail_prefix FRESH_SDXL_app = ''Generation failed: ''"
| "detail_prefix app_enhanced_fallback = ''Generation failed: ''"
| "detail_prefix app_lightweight = ''Generation failed: ''"
| "detail_prefix app_lora = ''Generation failed: ''"
| "detail_prefix app_force_visible = ''FORCE generation failed: ''"
| "detail_prefix deploy_app_lightweight = ''Generation failed: ''"
| "detail_prefix deploy_app_CPU_LORA = ''CPU LoRA generation failed: ''"
| "detail_prefix deploy_app_LORA_ONLY = ''LoRA generation failed (NO FALLBACKS): ''"
| "detail_prefix deploy_app_minimal_sd15 = []"
| "detail_prefix app_minimal = []"
| "detail_prefix app_fixed = []"

text \<open>
  The \<open>load_watermark\<close> a variant's generator calls when it is constructed. app_minimal.py,
  app_fixed.py and app_minimal_sd15.py have no generator class with a watermark.
\<close>

fun load_watermark_of :: "variant \<Rightarrow> env \<Rightarrow> generator \<Rightarrow> exn + generator" where
  "load_watermark_of FRESH_SDXL_app env g = Inr (load_watermark_fresh env g)"
| "load_watermark_of app_enhanced_fallback env g = Inr (load_watermark env g)"
| "load_watermark_of app_lightweight env g = Inr (load_watermark env g)"
| "load_watermark_of app_lora env g = Inr (load_watermark env g)"
| "load_watermark_of app_force_visible env g = Inr (load_watermark env g)"
| "load_watermark_of deploy_app_lightweight env g = Inr (load_watermark_fresh env g)"
| "load_watermark_of deploy_app_CPU_LORA env g = Inr (load_watermark_CPU_LORA env g)"
| "load_watermark_of deploy_app_LORA_ONLY env g = load_watermark_LORA_ONLY env g"
| "load_watermark_of app_minimal env g = Inr g"
| "load_watermark_of app_fixed env g = Inr g"
| "load_watermark_of deploy_app_minimal_sd15 env g = Inr g"

text \<open>The variants by the fields of their request model.\<close>

definition five_field_variants :: "variant set" where
  "five_field_variants =
     {FRESH_SDXL_app, app_enhanced_fallback, deploy_app_lightweight, deploy_app_CPU_LORA,
      deploy_app_LORA_ONLY}"

definition four_field_variants :: "variant set" where
  "four_field_variants = {app_lightweight, app_lora, app_force_visible, app_minimal, app_fixed}"

text \<open>The variants whose cover is made by a generator class, with overlay and watermark.\<close>

definition class_variants :: "variant set" where
  "class_variants =
     {FRESH_SDXL_app, app_enhanced_fallback, app_lightweight, app_lora, app_force_visible,
      deploy_app_lightweight, deploy_app_CPU_LORA, deploy_app_LORA_ONLY}"

section \<open>Example surroundings and requests\<close>

text \<open>
  An environment with no files, in which every text measures 10 pixels a character, the
  PNG encoder returns a fixed string, and \<open>str()\<close> of an \<open>HTTPException\<close> is
  \<open>"<status>: <detail>"\<close>; a generator with nothing loaded; a pipeline that returns an
  image of the size asked for; and a request.
\<close>

definition example_env :: env where
  "example_env =
     \<lparr>path_exists = (\<lambda>p. False),
      Image_open = (\<lambda>p. Inl (PyException ''FileNotFoundError'' p)),
      truetype_loads = (\<lambda>p s. False),
      draw_textbbox = measuring (\<lambda>f s. 10 * int (length s)),
      png_base64 = (\<lambda>im. ''iVBORw0KGgo=''),
      str_HTTPException = (\<lambda>status detail. str_nat status @ '': '' @ detail),
      from_pretrained = (\<lambda>m. Inl (PyException ''OSError'' m)),
      subprocess_run = (\<lambda>cmd. Inr (0, []))\<rparr>"

definition example_generator :: generator where
  "example_generator =
     \<lparr>watermark = None, pipeline = None, current_lora = None, lora_available = [],
      universal_lora_available = False, lora_pipeline = None, pipeline_calls = []\<rparr>"

definition example_pipeline :: sd_pipeline where
  "example_pipeline =
     \<lparr>pipe_call = (\<lambda>p n h w. Inr \<lparr>im_mode = ''RGB'', im_size = (w, h), im_content = [Generated p n]\<rparr>),
      pipe_load_lora_weights = (\<lambda>p. None),
      pipe_unload_lora_weights = None,
      pipe_fuse_lora = None\<rparr>"

definition example_request :: GenerationRequest where
  "example_request =
     \<lparr>req_title = ''Bitcoin up'', req_subtitle = ''CRYPTO NEWS'', req_client = ''hedera'',
      req_style = Some ''dark_theme'', req_use_trained_lora = True\<rparr>"

text \<open>
  The \<open>detail\<close> of the \<open>HTTPException\<close> a handler raises in its \<open>try\<close> block when
  \<open>generate_cover\<close> has returned \<open>None\<close>.
\<close>

fun none_detail :: "variant \<Rightarrow> string" where
  "none_detail FRESH_SDXL_app = ''Generation failed''"
| "none_detail app_enhanced_fallback = ''Generation failed''"
| "none_detail app_lightweight = ''Failed to generate image''"
| "none_detail app_lora = ''Failed to generate image''"
| "none_detail app_force_visible = ''FORCE generation failed''"
| "none_detail deploy_app_lightweight = ''Generation failed''"
| "none_detail deploy_app_CPU_LORA = []"
| "none_detail deploy_app_LORA_ONLY = []"
| "none_detail deploy_app_minimal_sd15 = []"
| "none_detail app_minimal = []"
| "none_detail app_fixed = []"

text \<open>
  The exception that reaches the \<open>except\<close> clause of a variant's handler, if any: the one
  its generation raises (app_CPU_LORA.py, app_LORA_ONLY.py, app_minimal_sd15.py,
  app_minimal.py) or the handler's own for a \<open>None\<close> cover.
\<close>

definition handler_exception :: "variant \<Rightarrow> env \<Rightarrow> generator \<Rightarrow> GenerationRequest \<Rightarrow> exn option" where
  "handler_exception v env g request =
     (if v = deploy_app_CPU_LORA then
        (case fst (generate_cover_CPU_LORA env g (req_title request) (req_subtitle request)
                (req_client request) (or_default (req_style request) ''dark_theme'')) of
           Inl e \<Rightarrow> Some e | Inr r \<Rightarrow> None)
      else if v = deploy_app_LORA_ONLY then
        (case fst (generate_cover_LORA_ONLY env g (req_title request) (req_subtitle request)
                (req_client request) (or_default (req_style request) ''dark_theme'')) of
           Inl e \<Rightarrow> Some e | Inr r \<Rightarrow> None)
      else if v = deploy_app_minimal_sd15 then
        (case fst (cover_minimal_sd15 env g (req_client request)
                (case req_style request of None \<Rightarrow> [] | Some s \<Rightarrow> s) (req_title request)) of
           Inl e \<Rightarrow> Some e | Inr img \<Rightarrow> None)
      else if v = app_minimal then
        (case generate_crypto_cover env (req_title request) (req_subtitle request)
                (req_client request) (or_default (req_style request) ''energy_fields'') of
           Inl e \<Rightarrow> Some e | Inr img \<Rightarrow> None)
      else if v = app_fixed then None
      else if cover v env g request = None then Some (HTTPException 500 (none_detail v))
      else None)"

text \<open>
  The example environment with every path present; with a subprocess that exits with
  code 1 and \<open>boom\<close> on stderr; with a text measure that raises; with exactly the
  listed paths present; with the watermark file alone, every file an image; and a
  generator with the example pipeline and the universal LoRA loaded.
\<close>

definition example_env_all_files :: env where
  "example_env_all_files = example_env\<lparr>path_exists := (\<lambda>p. True)\<rparr>"

definition example_env_failing_subprocess :: env where
  "example_env_failing_subprocess = example_env\<lparr>subprocess_run := (\<lambda>cmd. Inr (1, ''boom''))\<rparr>"

definition example_env_failing_textbbox :: env where
  "example_env_failing_textbbox =
     example_env\<lparr>draw_textbbox := (\<lambda>f s. Inl (PyException ''OSError'' ''cannot open resource''))\<rparr>"

definition env_with_files :: "string list \<Rightarrow> env" where
  "env_with_files files = example_env\<lparr>path_exists := (\<lambda>p. p \<in> set files)\<rparr>"

definition example_env_watermark :: env where
  "example_env_watermark =
     example_env\<lparr>path_exists := (\<lambda>p. p = ''genfinity-watermark.png''),
                 Image_open := (\<lambda>p. Inr \<lparr>im_mode = ''RGBA'', im_size = (1800, 900),
                                          im_content = [File p]\<rparr>)\<rparr>"

definition example_loaded_generator :: generator where
  "example_loaded_generator =
     example_generator\<lparr>pipeline := Some example_pipeline,
                       lora_pipeline := Some example_pipeline,
                       lora_available :=
                         [(''universal'', ''models/lora/crypto_cover_styles_lora.safetensors'')]\<rparr>"

section \<open>Properties\<close>

subsection \<open>Strings\<close>











subsection \<open>The text overlays of app_lightweight.py and app_lora.py\<close>



lemma measuring_apply: "measuring m f s = Inr (0, 0, m f s, 0)"
  by (simp add: measuring_def)









subsection \<open>Colour tables\<close>



subsection \<open>The training simulation\<close>

lemma training_step_result:
  assumes "styles stats \<noteq> []" and "clients stats \<noteq> []"
  shows "training_step rnd stats 500 step (lg, sl)
     = Inr (lg @ [simulated_entry rnd stats step], sl @ [1 / 100])"
  using assms
  by (simp add: training_step_def random_choice_def simulated_entry_def Let_def field_simps)

lemma training_loop_result:
  assumes "styles stats \<noteq> []" and "clients stats \<noteq> []"
  shows "training_loop rnd stats 500 steps (lg, sl)
     = Inr (lg @ map (simulated_entry rnd stats) steps, sl @ replicate (length steps) (1 / 100))"
proof (induction steps arbitrary: lg sl)
  case Nil
  show ?case by simp
next
  case (Cons step steps)
  show ?case
    by (simp add: training_step_result [OF assms] Cons.IH replicate_append_same)
qed

lemma training_loop_no_choice:
  assumes "styles stats = [] \<or> clients stats = []"
  shows "training_loop rnd stats n (step # steps) st
     = Inl (PyException ''IndexError'' ''Cannot choose from an empty sequence'')"
  using assms by (auto simp add: training_step_def random_choice_def Let_def)

lemma enumerate_randn:
  "map snd (map (\<lambda>(n, key). (key, randn n shape)) (enumerate k keys))
     = map (\<lambda>n. randn n shape) [k..<k + length keys]"
proof (induction keys arbitrary: k)
  case Nil
  show ?case by simp
next
  case (Cons key keys)
  have "k < k + length (key # keys)" by simp
  then have "[k..<k + length (key # keys)] = k # [Suc k..<k + length (key # keys)]"
    by (rule upt_conv_Cons)
  then have "[k..<k + length (key # keys)] = k # [Suc k..<Suc k + length keys]"
    by simp
  then show ?case using Cons.IH [of "Suc k"] by simp
qed

lemma length_lora_keys: "length (lora_keys ab) = 96"
  by (simp add: lora_keys_def upt_conv_Cons)

text \<open>
  Claim C8. The training loop of the Universal-LoRA creation script optimises nothing:
  when the dataset has a style and a client, its 500 steps log, for each step, the loss
  of a linearly decreasing schedule plus that step's noise, never below 0.02, and sleep
  0.01 seconds each (with no style or no client the first random choice raises). The
  weights the script saves are the results of 192 calls of \<open>torch.randn\<close>, whatever
  the dataset and the training log.
\<close>

theorem simulated_training_and_random_weights:
  "create_lora_model_structure rnd stats
     = (if styles stats = [] \<or> clients stats = []
        then Inl (PyException ''IndexError'' ''Cannot choose from an empty sequence'')
        else Inr (map (simulated_entry rnd stats) [0..<500], replicate 500 (1 / 100)))
   \<and> log_loss (simulated_entry rnd stats step)
       = max (1 / 50) (3 / 2 - 3 * of_nat step / 1000 + noise (rnd step))
   \<and> 1 / 50 \<le> log_loss (simulated_entry rnd stats step)
   \<and> hd (fst (save_universal_lora_model randn output_dir stats training_log))
       = (output_dir @ ''/crypto_cover_universal_lora.pt'', TorchSave (lora_weights randn))
   \<and> map snd (lora_weights randn)
       = map (\<lambda>n. randn n (32, 320)) [0..<96] @ map (\<lambda>n. randn n (320, 32)) [96..<192]"
proof -
  have loop: "create_lora_model_structure rnd stats
     = (if styles stats = [] \<or> clients stats = []
        then Inl (PyException ''IndexError'' ''Cannot choose from an empty sequence'')
        else Inr (map (simulated_entry rnd stats) [0..<500], replicate 500 (1 / 100)))"
  proof (cases "styles stats = [] \<or> clients stats = []")
    case True
    have "[0..<500] = 0 # [1..<500]" by (simp add: upt_conv_Cons)
    then show ?thesis
      using True training_loop_no_choice [OF True, of rnd 500 0 "[1..<500]" "([], [])"]
      by (simp add: create_lora_model_structure_def del: upt_Suc)
  next
    case False
    then show ?thesis
      using training_loop_result [of stats rnd "[0..<500]" "[]" "[]"]
      by (simp add: create_lora_model_structure_def del: upt_Suc)
  qed
  have weights: "map snd (lora_weights randn)
       = map (\<lambda>n. randn n (32, 320)) [0..<96] @ map (\<lambda>n. randn n (320, 32)) [96..<192]"
    using enumerate_randn [of randn "(32, 320)" 0 "lora_keys ''lora_A''"]
      enumerate_randn [of randn "(320, 32)" 96 "lora_keys ''lora_B''"]
    by (simp add: lora_weights_def length_lora_keys del: upt_Suc)
  show ?thesis
    using loop weights
    by (simp add: simulated_entry_def save_universal_lora_model_def Let_def del: upt_Suc)
qed

theorem simulated_training_and_random_weights_witness:
  "log_loss (simulated_entry (\<lambda>n. \<lparr>noise = 1 / 20, style_pick = n, client_pick = 0\<rparr>)
       \<lparr>total_samples = 3, styles = [''dark_theme''], clients = [''hedera'']\<rparr> 100)
     = max (1 / 50) (3 / 2 - 3 * of_nat 100 / 1000
         + noise ((\<lambda>n. \<lparr>noise = 1 / 20, style_pick = n, client_pick = 0\<rparr>) 100))"
  using simulated_training_and_random_weights
    [of "\<lambda>n. \<lparr>noise = 1 / 20, style_pick = n, client_pick = 0\<rparr>"
        "\<lparr>total_samples = 3, styles = [''dark_theme''], clients = [''hedera'']\<rparr>" 100]
  by blast

subsection \<open>Sizes\<close>

lemma alpha_composite_size:
  "alpha_composite a b = Inr c \<Longrightarrow> im_size c = im_size a \<and> im_mode c = ''RGBA''"
  by (auto simp add: alpha_composite_def split: if_splits)

lemma composite_cover_size:
  assumes "composite_cover b ov wm sz = Inr img"
  shows "im_size img = im_size b"
proof (cases ov)
  case (Inl e)
  with assms show ?thesis by (simp add: composite_cover_def)
next
  case (Inr o1)
  show ?thesis
  proof (cases "alpha_composite (convert b ''RGBA'') o1")
    case (Inl e)
    with assms Inr show ?thesis by (simp add: composite_cover_def)
  next
    case (Inr base)
    then have base: "im_size base = im_size b"
      using alpha_composite_size [of "convert b ''RGBA''" o1 base] by (simp add: convert_def)
    show ?thesis
    proof (cases wm)
      case None
      with assms \<open>ov = Inr o1\<close> Inr base show ?thesis
        by (auto simp add: composite_cover_def convert_def)
    next
      case (Some w)
      with assms \<open>ov = Inr o1\<close> Inr base show ?thesis
        by (auto simp add: composite_cover_def convert_def split: sum.splits
            dest!: alpha_composite_size)
    qed
  qed
qed

lemma Image_new_size: "Image_new m sz = Inr img \<Longrightarrow> im_size img = sz"
  by (auto simp add: Image_new_def split: if_splits)

lemma create_enhanced_background_size:
  "create_enhanced_background w h c s = Inr img \<Longrightarrow> im_size img = (w, h)"
  by (auto simp add: create_enhanced_background_def split: sum.splits if_splits
      dest!: Image_new_size)

lemma generate_programmatic_fallback_size:
  "generate_programmatic_fallback w h c s = Inr img \<Longrightarrow> im_size img = (w, h)"
  by (auto simp add: generate_programmatic_fallback_def split: sum.splits if_splits
      dest!: Image_new_size)

lemma generate_enhanced_fallback_size:
  "generate_enhanced_fallback w h c s = Inr img \<Longrightarrow> im_size img = (w, h)"
  by (auto simp add: generate_enhanced_fallback_def split: sum.splits if_splits
      dest!: Image_new_size)

lemma create_ultra_visible_background_size:
  "create_ultra_visible_background w h c s = Inr img \<Longrightarrow> im_size img = (w, h)"
  by (auto simp add: create_ultra_visible_background_def split: sum.splits if_splits
      dest!: Image_new_size)

lemma generate_lora_style_background_size:
  "generate_lora_style_background w h c s = Inr img \<Longrightarrow> im_size img = (w, h)"
  by (auto simp add: generate_lora_style_background_def split: sum.splits if_splits
      dest!: Image_new_size)

lemma generate_with_trained_lora_fresh_size:
  "generate_with_trained_lora_fresh g c s t = (Some img, g1) \<Longrightarrow> im_size img = (1800, 900)"
  by (auto simp add: generate_with_trained_lora_fresh_def resize_def Let_def
      split: option.splits sum.splits prod.splits)

lemma background_fresh_size:
  "background_fresh g 1800 900 c s t u = (Inr img, g1) \<Longrightarrow> im_size img = (1800, 900)"
  by (auto simp add: background_fresh_def Let_def split: option.splits prod.splits if_splits
      dest: generate_with_trained_lora_fresh_size generate_programmatic_fallback_size)

lemma generate_cover_fresh_size:
  "generate_cover_fresh env g t st c s u = ((Some img, m), g1) \<Longrightarrow> im_size img = (1800, 900)"
  by (auto simp add: generate_cover_fresh_def Let_def split: prod.splits sum.splits
      dest!: composite_cover_size background_fresh_size)

lemma generate_with_universal_lora_enhanced_fallback_size:
  "generate_with_universal_lora_enhanced_fallback g t c s = (Some img, g1)
     \<Longrightarrow> im_size img = (1800, 900)"
  by (auto simp add: generate_with_universal_lora_enhanced_fallback_def resize_def Let_def
      split: option.splits sum.splits prod.splits)

lemma background_enhanced_fallback_size:
  "background_enhanced_fallback g 1800 900 c s t u = ((Inr img, m), g1)
     \<Longrightarrow> im_size img = (1800, 900)"
  by (auto simp add: background_enhanced_fallback_def Let_def
      split: option.splits prod.splits if_splits
      dest: generate_with_universal_lora_enhanced_fallback_size generate_enhanced_fallback_size)

lemma generate_cover_enhanced_fallback_size:
  "generate_cover_enhanced_fallback env g t st c s u = ((Some img, m), g1)
     \<Longrightarrow> im_size img = (1800, 900)"
  by (auto simp add: generate_cover_enhanced_fallback_def Let_def split: prod.splits sum.splits
      dest!: composite_cover_size background_enhanced_fallback_size)

lemma generate_cover_lightweight_size:
  "generate_cover_lightweight env g t st c s = Some img \<Longrightarrow> im_size img = (1800, 900)"
  by (auto simp add: generate_cover_lightweight_def Let_def split: sum.splits
      dest!: composite_cover_size create_enhanced_background_size)

lemma generate_cover_force_visible_size:
  "generate_cover_force_visible env g t st c s = Some img \<Longrightarrow> im_size img = (1800, 900)"
  by (auto simp add: generate_cover_force_visible_def Let_def split: sum.splits
      dest!: composite_cover_size create_ultra_visible_background_size)

lemma generate_cover_deploy_lightweight_size:
  "generate_cover_deploy_lightweight env g t st c s = (Some img, m)
     \<Longrightarrow> im_size img = (1800, 900)"
  by (auto simp add: generate_cover_deploy_lightweight_def Let_def split: sum.splits
      dest!: composite_cover_size generate_lora_style_background_size)

lemma generate_cover_lora_size:
  "generate_cover_lora env g t st c s = (Some img, g1) \<Longrightarrow> im_size img = (1800, 900)"
  by (auto simp add: generate_cover_lora_def Let_def resize_def
      split: sum.splits option.splits dest!: composite_cover_size)

lemma generate_with_cpu_lora_size:
  "generate_with_cpu_lora_CPU_LORA env g c s t = (Inr img, g1) \<Longrightarrow> im_size img = (1800, 900)"
  by (auto simp add: generate_with_cpu_lora_CPU_LORA_def Let_def resize_def
      split: sum.splits option.splits prod.splits)

lemma generate_cover_CPU_LORA_size:
  "generate_cover_CPU_LORA env g t st c s = (Inr (img, m), g1) \<Longrightarrow> im_size img = (1800, 900)"
  by (auto simp add: generate_cover_CPU_LORA_def Let_def split: prod.splits sum.splits
      dest!: composite_cover_size generate_with_cpu_lora_size)

lemma generate_with_universal_lora_LORA_ONLY_size:
  "generate_with_universal_lora_LORA_ONLY env g c s t = (Inr img, g1)
     \<Longrightarrow> im_size img = (1800, 900)"
  by (auto simp add: generate_with_universal_lora_LORA_ONLY_def Let_def resize_def
      split: sum.splits option.splits prod.splits)

lemma generate_cover_LORA_ONLY_size:
  "generate_cover_LORA_ONLY env g t st c s = (Inr (img, m), g1) \<Longrightarrow> im_size img = (1800, 900)"
  by (auto simp add: generate_cover_LORA_ONLY_def Let_def split: prod.splits sum.splits
      dest!: composite_cover_size generate_with_universal_lora_LORA_ONLY_size)

lemma cover_size:
  assumes "v \<in> class_variants" and "cover v env g request = Some img"
  shows "im_size img = (1800, 900)"
proof (cases v)
  case FRESH_SDXL_app
  with assms(2) show ?thesis
    by (metis cover.simps(1) generate_cover_fresh_size prod.collapse)
next
  case app_enhanced_fallback
  with assms(2) show ?thesis
    by (metis cover.simps(2) generate_cover_enhanced_fallback_size prod.collapse)
next
  case app_lightweight
  with assms(2) show ?thesis by (auto dest: generate_cover_lightweight_size)
next
  case app_lora
  with assms(2) show ?thesis by (metis cover.simps(4) generate_cover_lora_size prod.collapse)
next
  case app_force_visible
  with assms(2) show ?thesis by (auto dest: generate_cover_force_visible_size)
next
  case deploy_app_lightweight
  with assms(2) show ?thesis
    by (metis cover.simps(8) generate_cover_deploy_lightweight_size prod.collapse)
next
  case deploy_app_CPU_LORA
  with assms(2) show ?thesis
    by (auto split: sum.splits) (metis generate_cover_CPU_LORA_size prod.collapse)
next
  case deploy_app_LORA_ONLY
  with assms(2) show ?thesis
    by (auto split: sum.splits) (metis generate_cover_LORA_ONLY_size prod.collapse)
qed (use assms(1) in \<open>simp_all add: class_variants_def\<close>)

subsection \<open>The handlers\<close>

lemma post_generate_fresh:
  "(cover FRESH_SDXL_app env g request = None
      \<and> fst (post_generate FRESH_SDXL_app env g request)
          = Inl (HTTPException 500 (''Generation failed: '' @ str_HTTPException env 500 ''Generation failed'')))
   \<or> (\<exists>img md. cover FRESH_SDXL_app env g request = Some img
      \<and> fst (post_generate FRESH_SDXL_app env g request)
          = Inr (Model \<lparr>success = True, image_url = Some (data_uri env img), error = None,
                        metadata = Some md\<rparr>)
      \<and> map_of md ''resolution'' = Some (JStr ''1800x900''))"
  by (cases "generate_cover_fresh env g (req_title request) (req_subtitle request)
       (req_client request) (or_default (req_style request) ''dark_theme'')
       (req_use_trained_lora request)")
     (auto simp add: generate_image_fresh_def except_500_def str_exn_def split: option.splits)

lemma post_generate_enhanced_fallback:
  "(cover app_enhanced_fallback env g request = None
      \<and> fst (post_generate app_enhanced_fallback env g request)
          = Inl (HTTPException 500 (''Generation failed: '' @ str_HTTPException env 500 ''Generation failed'')))
   \<or> (\<exists>img md. cover app_enhanced_fallback env g request = Some img
      \<and> fst (post_generate app_enhanced_fallback env g request)
          = Inr (Model \<lparr>success = True, image_url = Some (data_uri env img), error = None,
                        metadata = Some md\<rparr>)
      \<and> map_of md ''resolution'' = Some (JStr ''1800x900''))"
  by (cases "generate_cover_enhanced_fallback env g (req_title request) (req_subtitle request)
       (req_client request) (or_default (req_style request) ''dark_theme'')
       (req_use_trained_lora request)")
     (auto simp add: generate_image_enhanced_fallback_def except_500_def str_exn_def split: option.splits)

lemma post_generate_lightweight:
  "(cover app_lightweight env g request = None
      \<and> fst (post_generate app_lightweight env g request)
          = Inl (HTTPException 500 (''Generation failed: '' @ str_HTTPException env 500 ''Failed to generate image'')))
   \<or> (\<exists>img md. cover app_lightweight env g request = Some img
      \<and> fst (post_generate app_lightweight env g request)
          = Inr (Model \<lparr>success = True, image_url = Some (data_uri env img), error = None,
                        metadata = Some md\<rparr>)
      \<and> map_of md ''resolution'' = Some (JStr ''1800x900''))"
  by (cases "generate_cover_lightweight env g (req_title request) (req_subtitle request)
       (req_client request) (or_default (req_style request) ''dark_theme'')")
     (auto simp add: generate_image_lightweight_def except_500_def str_exn_def split: option.splits)

lemma post_generate_lora:
  "(cover app_lora env g request = None
      \<and> fst (post_generate app_lora env g request)
          = Inl (HTTPException 500 (''Generation failed: '' @ str_HTTPException env 500 ''Failed to generate image'')))
   \<or> (\<exists>img md. cover app_lora env g request = Some img
      \<and> fst (post_generate app_lora env g request)
          = Inr (Model \<lparr>success = True, image_url = Some (data_uri env img), error = None,
                        metadata = Some md\<rparr>)
      \<and> map_of md ''resolution'' = Some (JStr ''1800x900''))"
  by (cases "generate_cover_lora env g (req_title request) (req_subtitle request)
       (req_client request) (or_default (req_style request) ''energy_fields'')")
     (auto simp add: generate_image_lora_def except_500_def str_exn_def split: option.splits)

lemma post_generate_force_visible:
  "(cover app_force_visible env g request = None
      \<and> fst (post_generate app_force_visible env g request)
          = Inl (HTTPException 500 (''FORCE generation failed: '' @ str_HTTPException env 500 ''FORCE generation failed'')))
   \<or> (\<exists>img md. cover app_force_visible env g request = Some img
      \<and> fst (post_generate app_force_visible env g request)
          = Inr (Model \<lparr>success = True, image_url = Some (data_uri env img), error = None,
                        metadata = Some md\<rparr>)
      \<and> map_of md ''resolution'' = Some (JStr ''1800x900''))"
  by (cases "generate_cover_force_visible env g (req_title request) (req_subtitle request)
       (req_client request) (or_default (req_style request) ''dark_theme'')")
     (auto simp add: generate_image_force_visible_def except_500_def str_exn_def split: option.splits)

lemma post_generate_deploy_lightweight:
  "(cover deploy_app_lightweight env g request = None
      \<and> fst (post_generate deploy_app_lightweight env g request)
          = Inl (HTTPException 500 (''Generation failed: '' @ str_HTTPException env 500 ''Generation failed'')))
   \<or> (\<exists>img md. cover deploy_app_lightweight env g request = Some img
      \<and> fst (post_generate deploy_app_lightweight env g request)
          = Inr (Model \<lparr>success = True, image_url = Some (data_uri env img), error = None,
                        metadata = Some md\<rparr>)
      \<and> map_of md ''resolution'' = Some (JStr ''1800x900''))"
  by (cases "generate_cover_deploy_lightweight env g (req_title request) (req_subtitle request)
       (req_client request) (or_default (req_style request) ''dark_theme'')")
     (auto simp add: generate_image_deploy_lightweight_def except_500_def str_exn_def split: option.splits)

lemma post_generate_CPU_LORA:
  "(\<exists>e. cover deploy_app_CPU_LORA env g request = None
      \<and> handler_exception deploy_app_CPU_LORA env g request = Some e
      \<and> fst (post_generate deploy_app_CPU_LORA env g request)
          = Inl (HTTPException 500 (''CPU LoRA generation failed: '' @ str_exn env e)))
   \<or> (\<exists>img md. cover deploy_app_CPU_LORA env g request = Some img
      \<and> fst (post_generate deploy_app_CPU_LORA env g request)
          = Inr (Model \<lparr>success = True, image_url = Some (data_uri env img), error = None,
                        metadata = Some md\<rparr>)
      \<and> map_of md ''resolution'' = Some (JStr ''1800x900''))"
  by (cases "generate_cover_CPU_LORA env g (req_title request) (req_subtitle request)
       (req_client request) (or_default (req_style request) ''dark_theme'')")
     (auto simp add: generate_image_CPU_LORA_def except_500_def handler_exception_def
        split: sum.splits)

lemma post_generate_LORA_ONLY:
  "(\<exists>e. cover deploy_app_LORA_ONLY env g request = None
      \<and> handler_exception deploy_app_LORA_ONLY env g request = Some e
      \<and> fst (post_generate deploy_app_LORA_ONLY env g request)
          = Inl (HTTPException 500 (''LoRA generation failed (NO FALLBACKS): '' @ str_exn env e)))
   \<or> (\<exists>img md. cover deploy_app_LORA_ONLY env g request = Some img
      \<and> fst (post_generate deploy_app_LORA_ONLY env g request)
          = Inr (Model \<lparr>success = True, image_url = Some (data_uri env img), error = None,
                        metadata = Some md\<rparr>)
      \<and> map_of md ''resolution'' = Some (JStr ''1800x900''))"
  by (cases "generate_cover_LORA_ONLY env g (req_title request) (req_subtitle request)
       (req_client request) (or_default (req_style request) ''dark_theme'')")
     (auto simp add: generate_image_LORA_ONLY_def except_500_def handler_exception_def
        split: sum.splits)

lemma post_generate_class:
  assumes "v \<in> class_variants"
  shows "(\<exists>e. cover v env g request = None
      \<and> handler_exception v env g request = Some e
      \<and> fst (post_generate v env g request)
          = Inl (HTTPException 500 (detail_prefix v @ str_exn env e)))
   \<or> (\<exists>img md. cover v env g request = Some img
      \<and> fst (post_generate v env g request)
          = Inr (Model \<lparr>success = True, image_url = Some (data_uri env img), error = None,
                        metadata = Some md\<rparr>)
      \<and> map_of md ''resolution'' = Some (JStr ''1800x900''))"
proof (cases v)
  case FRESH_SDXL_app
  then show ?thesis
    using post_generate_fresh [of env g request]
    by (auto simp add: handler_exception_def str_exn_def)
next
  case app_enhanced_fallback
  then show ?thesis
    using post_generate_enhanced_fallback [of env g request]
    by (auto simp add: handler_exception_def str_exn_def)
next
  case app_lightweight
  then show ?thesis
    using post_generate_lightweight [of env g request]
    by (auto simp add: handler_exception_def str_exn_def)
next
  case app_lora
  then show ?thesis
    using post_generate_lora [of env g request]
    by (auto simp add: handler_exception_def str_exn_def)
next
  case app_force_visible
  then show ?thesis
    using post_generate_force_visible [of env g request]
    by (auto simp add: handler_exception_def str_exn_def)
next
  case deploy_app_lightweight
  then show ?thesis
    using post_generate_deploy_lightweight [of env g request]
    by (auto simp add: handler_exception_def str_exn_def)
next
  case deploy_app_CPU_LORA
  then show ?thesis
    using post_generate_CPU_LORA [of env g request] by auto
next
  case deploy_app_LORA_ONLY
  then show ?thesis
    using post_generate_LORA_ONLY [of env g request] by auto
qed (use assms in \<open>simp_all add: class_variants_def\<close>)

lemma post_generate_minimal_sd15:
  "(\<exists>e. cover deploy_app_minimal_sd15 env g request = None
      \<and> handler_exception deploy_app_minimal_sd15 env g request = Some e
      \<and> fst (post_generate deploy_app_minimal_sd15 env g request)
          = Inl (HTTPException 500 (str_exn env e)))
   \<or> (\<exists>img. cover deploy_app_minimal_sd15 env g request = Some img
      \<and> fst (post_generate deploy_app_minimal_sd15 env g request)
          = Inr (Dict [(''success'', JBool True), (''image'', JStr (png_base64 env img)),
                       (''model'', JStr ''SD 1.5 + LoRA'')]))"
  by (cases "cover_minimal_sd15 env g (req_client request)
        (case req_style request of None \<Rightarrow> [] | Some s \<Rightarrow> s) (req_title request)")
     (auto simp add: generate_cover_minimal_sd15_def generate_minimal_sd15_def
        handler_exception_def split: sum.splits)

lemma post_generate_minimal:
  "(\<exists>e. cover app_minimal env g request = None
      \<and> handler_exception app_minimal env g request = Some e
      \<and> fst (post_generate app_minimal env g request)
          = Inr (Model \<lparr>success = False, image_url = None, error = Some (str_exn env e),
                        metadata = None\<rparr>))
   \<or> (\<exists>img md. cover app_minimal env g request = Some img
      \<and> fst (post_generate app_minimal env g request)
          = Inr (Model \<lparr>success = True, image_url = Some (data_uri env img), error = None,
                        metadata = Some md\<rparr>)
      \<and> map_of md ''resolution'' = None)"
  by (auto simp add: generate_image_minimal_def handler_exception_def split: sum.splits)

lemma post_generate_fixed:
  "fst (post_generate app_fixed env g request)
     = (if generation_fails app_fixed env g request
        then Inr (failure_response
          (case subprocess_run env
                  [''python3'', ''simple_lora_generator.py'',
                   ''--title'', req_title request,
                   ''--subtitle'', req_subtitle request,
                   ''--client'', req_client request,
                   ''--style'', or_default (req_style request) ''energy_fields''] of
             Inl e \<Rightarrow> (case e of
                         PyException cls msg \<Rightarrow>
                           if cls = ''TimeoutExpired'' then ''Generation timeout'' else msg
                       | HTTPException status detail \<Rightarrow> str_HTTPException env status detail)
           | Inr r \<Rightarrow> if fst r \<noteq> 0 then ''Generation failed: '' @ snd r
                      else ''Output file not created''))
        else Inr (Model \<lparr>success = True,
                         image_url = Some (''/download/'' @ req_client request @ ''.png''),
                         error = None,
                         metadata = Some
                           [(''client'', JStr (req_client request)),
                            (''style'', json_opt_str (req_style request)),
                            (''title'', JStr (req_title request)),
                            (''output_path'',
                               JStr (''/app/style_outputs/boxed_cover_'' @ req_client request
                                     @ ''.png''))]\<rparr>))"
  by (auto simp add: generate_image_fixed_def generation_fails_def Let_def str_exn_def
      split: sum.splits exn.splits prod.splits)

subsection \<open>The examples\<close>

lemma example_lightweight_reply:
  "fst (post_generate app_lightweight example_env example_generator example_request)
     = Inr (Model
       \<lparr>success = True,
          image_url = Some ''data:image/png;base64,iVBORw0KGgo='',
          error = None,
          metadata =
            Some
             [(''client'', JStr ''hedera''),
              (''style'', JStr ''dark_theme''),
              (''title'', JStr ''Bitcoin up''),
              (''subtitle'', JStr ''CRYPTO NEWS''),
              (''generator'', JStr ''enhanced-lightweight''),
              (''resolution'', JStr ''1800x900'')]\<rparr>)"
  by code_simp

lemma example_lightweight_cover_size:
  "map_option im_size (cover app_lightweight example_env example_generator example_request)
     = Some (1800, 900)"
  by code_simp

lemma example_minimal_failure:
  "fst (post_generate app_minimal example_env_failing_textbbox example_generator example_request)
    = Inr (Model
       \<lparr>success = False, image_url = None,
          error = Some ''cannot open resource'', metadata = None\<rparr>)"
  by code_simp

lemma example_minimal_fails:
  "generation_fails app_minimal example_env_failing_textbbox example_generator example_request"
  by code_simp

lemma example_fixed_no_file:
  "fst (post_generate app_fixed example_env example_generator example_request)
    = Inr (Model
       \<lparr>success = False, image_url = None,
          error = Some ''Output file not created'', metadata = None\<rparr>)"
  by code_simp

lemma example_fixed_exit_code:
  "fst (post_generate app_fixed example_env_failing_subprocess example_generator example_request)
    = Inr (Model
       \<lparr>success = False, image_url = None,
          error = Some ''Generation failed: boom'', metadata = None\<rparr>)"
  by code_simp

lemma example_fixed_success:
  "fst (post_generate app_fixed example_env_all_files example_generator example_request)
    = Inr (Model
       \<lparr>success = True, image_url = Some ''/download/hedera.png'',
          error = None,
          metadata =
            Some
             [(''client'', JStr ''hedera''),
              (''style'', JStr ''dark_theme''),
              (''title'', JStr ''Bitcoin up''),
              (''output_path'',
               JStr ''/app/style_outputs/boxed_cover_hedera.png'')]\<rparr>)"
  by code_simp

lemma example_minimal_sd15_reply:
  "fst (post_generate deploy_app_minimal_sd15 example_env example_loaded_generator example_request)
    = Inr (Dict
       [(''success'', JBool True), (''image'', JStr ''iVBORw0KGgo=''),
        (''model'', JStr ''SD 1.5 + LoRA'')])"
  by code_simp

lemma example_minimal_sd15_size:
  "map_option im_size (cover deploy_app_minimal_sd15 example_env example_loaded_generator example_request) = Some (1024, 512)"
  by code_simp

lemma example_minimal_size:
  "map_option im_size (cover app_minimal example_env example_generator example_request) = Some (1792, 896)"
  by code_simp

lemma example_minimal_reply:
  "fst (post_generate app_minimal example_env example_generator example_request)
   = Inr (Model
       \<lparr>success = True,
          image_url = Some ''data:image/png;base64,iVBORw0KGgo='',
          error = None,
          metadata =
            Some
             [(''client'', JStr ''hedera''),
              (''style'', JStr ''dark_theme''),
              (''title'', JStr ''Bitcoin up''),
              (''method'', JStr ''minimal_generation'')]\<rparr>)"
  by code_simp

subsection \<open>The replies of POST /generate\<close>

lemma variant_kinds:
  "v \<in> class_variants \<or> v = app_minimal \<or> v = app_fixed \<or> v = deploy_app_minimal_sd15"
  by (cases v) (simp_all add: class_variants_def)

lemma class_variants_not_others:
  "v \<in> class_variants \<Longrightarrow> v \<noteq> app_minimal \<and> v \<noteq> app_fixed \<and> v \<noteq> deploy_app_minimal_sd15"
  by (auto simp add: class_variants_def)

lemma class_reply:
  assumes "v \<in> class_variants"
  shows "(\<exists>d. fst (post_generate v env g request) = Inl (HTTPException 500 d))
    \<or> (\<exists>r md. fst (post_generate v env g request) = Inr (Model r) \<and> success r \<and> error r = None
          \<and> (\<exists>b. image_url r = Some (''data:image/png;base64,'' @ b))
          \<and> metadata r = Some md \<and> map_of md ''resolution'' = Some (JStr ''1800x900''))"
  using post_generate_class [OF assms, of env g request]
  by (auto simp add: data_uri_def)

lemma minimal_sd15_reply:
  "(\<exists>d. fst (post_generate deploy_app_minimal_sd15 env g request) = Inl (HTTPException 500 d))
    \<or> (\<exists>b. fst (post_generate deploy_app_minimal_sd15 env g request)
          = Inr (Dict [(''success'', JBool True), (''image'', JStr b),
                       (''model'', JStr ''SD 1.5 + LoRA'')]))"
  using post_generate_minimal_sd15 [of env g request] by auto

lemma minimal_reply:
  "\<exists>r. fst (post_generate app_minimal env g request) = Inr (Model r)
     \<and> success r = (\<not> generation_fails app_minimal env g request)
     \<and> (error r = None) = success r \<and> (image_url r \<noteq> None) = success r
     \<and> (success r \<longrightarrow> (\<exists>b md. image_url r = Some (''data:image/png;base64,'' @ b)
            \<and> metadata r = Some md \<and> map_of md ''resolution'' = None))"
  using post_generate_minimal [of env g request]
  by (auto simp add: generation_fails_def data_uri_def)

lemma fixed_reply:
  "\<exists>r. fst (post_generate app_fixed env g request) = Inr (Model r)
     \<and> success r = (\<not> generation_fails app_fixed env g request)
     \<and> (error r = None) = success r \<and> (image_url r \<noteq> None) = success r
     \<and> (success r \<longrightarrow> image_url r = Some (''/download/'' @ req_client request @ ''.png''))"
  using post_generate_fixed [of env g request]
  by (cases "generation_fails app_fixed env g request") (simp_all add: failure_response_def)

text \<open>
  Claim C9, amended. In the eight variants with a generator class and in
  app_minimal_sd15.py the handler of POST /generate never returns a response with
  success false or an error: what it returns is a response with success true, no error and
  an image_url (app_minimal_sd15.py: the dict with success true), and what it raises is an
  HTTPException of status 500. app_minimal.py and app_fixed.py never raise: they return a
  response, with success false, an error and no image_url exactly when the generation
  fails.
\<close>

theorem generate_replies:
  "(v \<notin> {app_minimal, app_fixed} \<longrightarrow>
      (\<forall>rep. fst (post_generate v env g request) = Inr rep \<longrightarrow>
         (\<exists>r. rep = Model r \<and> success r \<and> error r = None \<and> image_url r \<noteq> None)
         \<or> (v = deploy_app_minimal_sd15
            \<and> (\<exists>b. rep = Dict [(''success'', JBool True), (''image'', JStr b),
                               (''model'', JStr ''SD 1.5 + LoRA'')])))
      \<and> (\<forall>e. fst (post_generate v env g request) = Inl e \<longrightarrow> (\<exists>d. e = HTTPException 500 d)))
   \<and> (v \<in> {app_minimal, app_fixed} \<longrightarrow>
        (\<exists>r. fst (post_generate v env g request) = Inr (Model r)
           \<and> success r = (\<not> generation_fails v env g request)
           \<and> (error r = None) = success r \<and> (image_url r \<noteq> None) = success r))"
proof -
  consider "v \<in> class_variants" | "v = app_minimal" | "v = app_fixed"
    | "v = deploy_app_minimal_sd15"
    using variant_kinds by blast
  then show ?thesis
  proof cases
    case 1
    then show ?thesis
      using class_reply [OF 1, of env g request] class_variants_not_others [OF 1] by auto
  next
    case 2
    then show ?thesis using minimal_reply [of env g request] by auto
  next
    case 3
    then show ?thesis using fixed_reply [of env g request] by auto
  next
    case 4
    then show ?thesis using minimal_sd15_reply [of env g request] by auto
  qed
qed

theorem generate_replies_witness:
  "app_lightweight \<notin> {app_minimal, app_fixed}
   \<and> (\<exists>r. fst (post_generate app_lightweight example_env example_generator example_request)
            = Inr (Model r) \<and> success r \<and> error r = None \<and> image_url r \<noteq> None)
   \<and> app_fixed \<in> {app_minimal, app_fixed}
   \<and> (\<exists>r. fst (post_generate app_fixed example_env_all_files example_generator example_request)
            = Inr (Model r)
          \<and> success r
              = (\<not> generation_fails app_fixed example_env_all_files example_generator
                    example_request)
          \<and> (error r = None) = success r \<and> (image_url r \<noteq> None) = success r)"
  using generate_replies [of app_lightweight example_env example_generator example_request]
    generate_replies [of app_fixed example_env_all_files example_generator example_request]
    example_lightweight_reply
  by simp

theorem generate_returns_failure:
  "fst (post_generate app_fixed example_env example_generator example_request)
     = Inr (Model \<lparr>success = False, image_url = None,
                   error = Some ''Output file not created'', metadata = None\<rparr>)
   \<and> fst (post_generate app_minimal example_env_failing_textbbox example_generator
        example_request)
     = Inr (Model \<lparr>success = False, image_url = None,
                   error = Some ''cannot open resource'', metadata = None\<rparr>)"
  using example_fixed_no_file example_minimal_failure by simp

lemma example_minimal_sd15_fails:
  "generation_fails deploy_app_minimal_sd15 example_env example_generator example_request
   \<and> handler_exception deploy_app_minimal_sd15 example_env example_generator example_request
       = Some (PyException ''TypeError'' ([CHR 0x27] @ ''NoneType'' @ [CHR 0x27] @ '' object is not callable''))"
  by code_simp

lemma example_fixed_fails:
  "generation_fails app_fixed example_env_failing_subprocess example_generator example_request"
  by code_simp

lemma example_fixed_succeeds:
  "\<not> generation_fails app_fixed example_env_all_files example_generator example_request"
  by code_simp


lemma example_fields:
  "map_of (GenerationRequest_fields app_lightweight) ''use_trained_lora'' = None
   \<and> GenerationRequest_fields deploy_app_minimal_sd15
       = [(''client'', Required), (''style'', Required), (''title'', Required)]"
  by code_simp

lemma example_fixed_metadata:
  "(case fst (post_generate app_fixed example_env_all_files example_generator example_request) of
      Inr (Model r) \<Rightarrow> map_option (\<lambda>md. map_of md ''resolution'') (metadata r)
    | _ \<Rightarrow> None) = Some None"
  by code_simp

lemma example_minimal_metadata:
  "(case fst (post_generate app_minimal example_env example_generator example_request) of
      Inr (Model r) \<Rightarrow> map_option (\<lambda>md. map_of md ''resolution'') (metadata r)
    | _ \<Rightarrow> None) = Some None"
  by code_simp

text \<open>
  Claim C4, amended. In the eight variants with a generator class, every cover generated
  is 1800 pixels wide and 900 high, whatever the size of the image the pipeline returns,
  and the metadata of every response reports the resolution "1800x900". (The cover of
  app_minimal.py is 1792 by 896 and that of app_minimal_sd15.py has the size of the
  pipeline's image; neither these two nor app_fixed.py report a resolution.)
\<close>

theorem cover_resolution:
  "v \<in> class_variants \<longrightarrow>
     (\<forall>img. cover v env g request = Some img \<longrightarrow> im_size img = (1800, 900))
   \<and> (\<forall>rep. fst (post_generate v env g request) = Inr rep \<longrightarrow>
         (\<exists>r md. rep = Model r \<and> metadata r = Some md
            \<and> map_of md ''resolution'' = Some (JStr ''1800x900'')))"
proof (intro impI conjI allI)
  fix img
  assume "v \<in> class_variants" "cover v env g request = Some img"
  then show "im_size img = (1800, 900)" by (rule cover_size)
next
  fix rep
  assume v: "v \<in> class_variants" and rep: "fst (post_generate v env g request) = Inr rep"
  from class_reply [OF v, of env g request] rep
  show "\<exists>r md. rep = Model r \<and> metadata r = Some md
            \<and> map_of md ''resolution'' = Some (JStr ''1800x900'')"
    by auto
qed

theorem cover_resolution_witness:
  "app_lightweight \<in> class_variants
   \<and> map_option im_size (cover app_lightweight example_env example_generator example_request)
       = Some (1800, 900)
   \<and> (\<exists>r md. fst (post_generate app_lightweight example_env example_generator example_request)
                = Inr (Model r)
            \<and> metadata r = Some md \<and> map_of md ''resolution'' = Some (JStr ''1800x900''))"
  using cover_resolution [of app_lightweight example_env example_generator example_request]
    example_lightweight_reply example_lightweight_cover_size
  by (simp add: class_variants_def)

theorem minimal_cover_resolution:
  "map_option im_size (cover app_minimal example_env example_generator example_request)
     = Some (1792, 896)
   \<and> (case fst (post_generate app_minimal example_env example_generator example_request) of
        Inr (Model r) \<Rightarrow> map_option (\<lambda>md. map_of md ''resolution'') (metadata r)
      | _ \<Rightarrow> None) = Some None
   \<and> map_option im_size
        (cover deploy_app_minimal_sd15 example_env example_loaded_generator example_request)
     = Some (1024, 512)
   \<and> (case fst (post_generate app_fixed example_env_all_files example_generator
                  example_request) of
        Inr (Model r) \<Rightarrow> map_option (\<lambda>md. map_of md ''resolution'') (metadata r)
      | _ \<Rightarrow> None) = Some None"
  using example_minimal_size example_minimal_metadata example_minimal_sd15_size
    example_fixed_metadata
  by simp

text \<open>
  Claim C2, amended. When the generation of a request fails (it raises, or yields no
  image), every variant but app_minimal.py and app_fixed.py raises an HTTPException of
  status 500 for it, whose detail is the variant's constant prefix followed by str() of
  the exception that reached the handler's except clause (for a cover that is None, the
  handler's own HTTPException with its fixed message), and returns no response.
  app_minimal.py and app_fixed.py return a response with success false and the message
  in error, which is sent with status 200.
\<close>

theorem failed_generation:
  "generation_fails v env g request \<longrightarrow>
     (v \<notin> {app_minimal, app_fixed} \<longrightarrow>
        (\<exists>e. handler_exception v env g request = Some e
           \<and> fst (post_generate v env g request)
               = Inl (HTTPException 500 (detail_prefix v @ str_exn env e))))
   \<and> (v = app_minimal \<longrightarrow>
        (\<exists>e. handler_exception v env g request = Some e
           \<and> fst (post_generate v env g request)
               = Inr (Model \<lparr>success = False, image_url = None,
                             error = Some (str_exn env e), metadata = None\<rparr>)))
   \<and> (v = app_fixed \<longrightarrow>
        (\<exists>msg. fst (post_generate v env g request)
               = Inr (Model \<lparr>success = False, image_url = None, error = Some msg,
                             metadata = None\<rparr>)))"
proof -
  consider "v \<in> class_variants" | "v = app_minimal" | "v = app_fixed"
    | "v = deploy_app_minimal_sd15"
    using variant_kinds by blast
  then show ?thesis
  proof cases
    case 1
    then show ?thesis
      using post_generate_class [OF 1, of env g request] class_variants_not_others [OF 1]
      by (auto simp add: generation_fails_def)
  next
    case 2
    then show ?thesis
      using post_generate_minimal [of env g request]
      by (auto simp add: generation_fails_def)
  next
    case 3
    then show ?thesis
      using post_generate_fixed [of env g request]
      by (cases "generation_fails app_fixed env g request")
         (simp_all add: failure_response_def)
  next
    case 4
    then show ?thesis
      using post_generate_minimal_sd15 [of env g request]
      by (auto simp add: generation_fails_def)
  qed
qed

theorem failed_generation_witness:
  "generation_fails deploy_app_minimal_sd15 example_env example_generator example_request
   \<and> deploy_app_minimal_sd15 \<notin> {app_minimal, app_fixed}
   \<and> fst (post_generate deploy_app_minimal_sd15 example_env example_generator example_request)
       = Inl (HTTPException 500
           ([CHR 0x27] @ ''NoneType'' @ [CHR 0x27] @ '' object is not callable''))"
  using failed_generation [of deploy_app_minimal_sd15 example_env example_generator
      example_request]
    example_minimal_sd15_fails
  by (simp add: str_exn_def)

theorem failed_generation_returns_response:
  "generation_fails app_fixed example_env_failing_subprocess example_generator example_request
   \<and> fst (post_generate app_fixed example_env_failing_subprocess example_generator
        example_request)
     = Inr (Model \<lparr>success = False, image_url = None,
                   error = Some ''Generation failed: boom'', metadata = None\<rparr>)
   \<and> generation_fails app_minimal example_env_failing_textbbox example_generator
        example_request
   \<and> fst (post_generate app_minimal example_env_failing_textbbox example_generator
        example_request)
     = Inr (Model \<lparr>success = False, image_url = None,
                   error = Some ''cannot open resource'', metadata = None\<rparr>)"
  using example_fixed_fails example_fixed_exit_code example_minimal_fails
    example_minimal_failure
  by simp




subsection \<open>The request fields and the image URL\<close>

text \<open>
  Claim C1, amended. POST /generate takes a request record with the fields title,
  subtitle, client, style and use_trained_lora in FRESH_SDXL app.py,
  app_enhanced_fallback.py and the deployed app_lightweight.py, app_CPU_LORA.py and
  app_LORA_ONLY.py, and one with title, subtitle, client and style only in
  app_lightweight.py, app_lora.py, app_force_visible.py, app_minimal.py and app_fixed.py;
  in these ten title is the one required field. app_minimal_sd15.py takes the three
  required fields client, style and title. In every variant but app_fixed.py and
  app_minimal_sd15.py, what the handler returns is a response record, and a response with
  success true has an image_url beginning with "data:image/png;base64," and a metadata
  record. A successful response of app_fixed.py has the image_url "/download/<client>.png",
  and app_minimal_sd15.py returns the dict {success, image, model}.
\<close>

theorem generate_request_and_response:
  "(v \<in> five_field_variants \<longrightarrow>
      map fst (GenerationRequest_fields v)
        = [''title'', ''subtitle'', ''client'', ''style'', ''use_trained_lora''])
   \<and> (v \<in> four_field_variants \<longrightarrow>
      map fst (GenerationRequest_fields v) = [''title'', ''subtitle'', ''client'', ''style''])
   \<and> (v \<noteq> deploy_app_minimal_sd15 \<longrightarrow>
        (\<forall>k d. (k, d) \<in> set (GenerationRequest_fields v) \<longrightarrow> (d = Required) = (k = ''title'')))
   \<and> GenerationRequest_fields deploy_app_minimal_sd15
        = [(''client'', Required), (''style'', Required), (''title'', Required)]
   \<and> (v \<notin> {app_fixed, deploy_app_minimal_sd15} \<longrightarrow>
        (\<forall>rep. fst (post_generate v env g request) = Inr rep \<longrightarrow>
           (\<exists>r. rep = Model r
              \<and> (success r \<longrightarrow>
                   (\<exists>b md. image_url r = Some (''data:image/png;base64,'' @ b)
                      \<and> metadata r = Some md)))))
   \<and> (\<forall>r. fst (post_generate app_fixed env g request) = Inr (Model r) \<and> success r \<longrightarrow>
          image_url r = Some (''/download/'' @ req_client request @ ''.png''))
   \<and> (\<forall>rep. fst (post_generate deploy_app_minimal_sd15 env g request) = Inr rep \<longrightarrow>
          (\<exists>b. rep = Dict [(''success'', JBool True), (''image'', JStr b),
                            (''model'', JStr ''SD 1.5 + LoRA'')]))"
proof -
  have fields5: "v \<in> five_field_variants \<longrightarrow>
      map fst (GenerationRequest_fields v)
        = [''title'', ''subtitle'', ''client'', ''style'', ''use_trained_lora'']"
    by (cases v)
       (simp_all add: five_field_variants_def GenerationRequest_fields_fresh_def
          GenerationRequest_fields_enhanced_fallback_def
          GenerationRequest_fields_deploy_lightweight_def GenerationRequest_fields_CPU_LORA_def
          GenerationRequest_fields_LORA_ONLY_def)
  have fields4: "v \<in> four_field_variants \<longrightarrow>
      map fst (GenerationRequest_fields v) = [''title'', ''subtitle'', ''client'', ''style'']"
    by (cases v)
       (simp_all add: four_field_variants_def GenerationRequest_fields_lightweight_def
          GenerationRequest_fields_lora_def GenerationRequest_fields_force_visible_def
          GenerationRequest_fields_minimal_def GenerationRequest_fields_fixed_def)
  have required: "v \<noteq> deploy_app_minimal_sd15 \<longrightarrow>
        (\<forall>k d. (k, d) \<in> set (GenerationRequest_fields v) \<longrightarrow> (d = Required) = (k = ''title''))"
    by (cases v)
       (auto simp add: GenerationRequest_fields_fresh_def
          GenerationRequest_fields_enhanced_fallback_def
          GenerationRequest_fields_deploy_lightweight_def GenerationRequest_fields_CPU_LORA_def
          GenerationRequest_fields_LORA_ONLY_def GenerationRequest_fields_lightweight_def
          GenerationRequest_fields_lora_def GenerationRequest_fields_force_visible_def
          GenerationRequest_fields_minimal_def GenerationRequest_fields_fixed_def)
  have sd: "GenerationRequest_fields deploy_app_minimal_sd15
        = [(''client'', Required), (''style'', Required), (''title'', Required)]"
    by (simp add: GenerationRequest_fields_minimal_sd15_def)
  have uri: "v \<notin> {app_fixed, deploy_app_minimal_sd15} \<longrightarrow>
        (\<forall>rep. fst (post_generate v env g request) = Inr rep \<longrightarrow>
           (\<exists>r. rep = Model r
              \<and> (success r \<longrightarrow>
                   (\<exists>b md. image_url r = Some (''data:image/png;base64,'' @ b)
                      \<and> metadata r = Some md))))"
  proof -
    consider "v \<in> class_variants" | "v = app_minimal" | "v = app_fixed"
      | "v = deploy_app_minimal_sd15"
      using variant_kinds by blast
    then show ?thesis
    proof cases
      case 1
      then show ?thesis using class_reply [OF 1, of env g request] by auto
    next
      case 2
      then show ?thesis using minimal_reply [of env g request] by auto
    qed simp_all
  qed
  have fixed: "\<forall>r. fst (post_generate app_fixed env g request) = Inr (Model r) \<and> success r \<longrightarrow>
          image_url r = Some (''/download/'' @ req_client request @ ''.png'')"
    using fixed_reply [of env g request] by auto
  have dict: "\<forall>rep. fst (post_generate deploy_app_minimal_sd15 env g request) = Inr rep \<longrightarrow>
          (\<exists>b. rep = Dict [(''success'', JBool True), (''image'', JStr b),
                            (''model'', JStr ''SD 1.5 + LoRA'')])"
    using minimal_sd15_reply [of env g request] by auto
  show ?thesis using fields5 fields4 required sd uri fixed dict by blast
qed

theorem generate_request_and_response_witness:
  "app_lightweight \<in> four_field_variants
   \<and> app_lightweight \<notin> {app_fixed, deploy_app_minimal_sd15}
   \<and> map fst (GenerationRequest_fields app_lightweight)
       = [''title'', ''subtitle'', ''client'', ''style'']
   \<and> (\<exists>r b md. fst (post_generate app_lightweight example_env example_generator example_request)
                  = Inr (Model r)
          \<and> success r \<and> image_url r = Some (''data:image/png;base64,'' @ b)
          \<and> metadata r = Some md)
   \<and> (\<exists>r. fst (post_generate app_fixed example_env_all_files example_generator example_request)
              = Inr (Model r)
          \<and> success r \<and> image_url r = Some ''/download/hedera.png'')"
  using generate_request_and_response [of app_lightweight example_env example_generator
      example_request]
    generate_request_and_response [of app_fixed example_env_all_files example_generator
      example_request]
    example_lightweight_reply example_fixed_success
  by (simp add: four_field_variants_def example_request_def)

theorem generate_other_request_or_image_url:
  "map_of (GenerationRequest_fields app_lightweight) ''use_trained_lora'' = None
   \<and> GenerationRequest_fields deploy_app_minimal_sd15
       = [(''client'', Required), (''style'', Required), (''title'', Required)]
   \<and> fst (post_generate app_fixed example_env_all_files example_generator example_request)
       = Inr (Model
           \<lparr>success = True, image_url = Some ''/download/hedera.png'', error = None,
            metadata = Some
              [(''client'', JStr ''hedera''), (''style'', JStr ''dark_theme''),
               (''title'', JStr ''Bitcoin up''),
               (''output_path'', JStr ''/app/style_outputs/boxed_cover_hedera.png'')]\<rparr>)
   \<and> fst (post_generate deploy_app_minimal_sd15 example_env example_loaded_generator
          example_request)
       = Inr (Dict [(''success'', JBool True), (''image'', JStr ''iVBORw0KGgo=''),
                    (''model'', JStr ''SD 1.5 + LoRA'')])"
  using example_fields example_fixed_success example_minimal_sd15_reply by simp

subsection \<open>The background of the fallback variants\<close>

lemma generate_programmatic_fallback_total:
  "\<exists>b. generate_programmatic_fallback 1800 900 client style = Inr b"
  by (simp add: generate_programmatic_fallback_def client_colors_fresh_def colors_fresh_def
      dict_item_def Image_new_def randint_raises_def split: sum.splits)

lemma generate_enhanced_fallback_total:
  "\<exists>b. generate_enhanced_fallback 1800 900 client style = Inr b"
  by (simp add: generate_enhanced_fallback_def client_colors_enhanced_fallback_def
      colors_enhanced_fallback_def dict_item_def Image_new_def randint_raises_def
      split: sum.splits)

lemma load_lora_weights_fresh_calls:
  "pipeline_calls (snd (load_lora_weights_fresh g client style)) = pipeline_calls g"
  by (simp add: load_lora_weights_fresh_def Let_def split: option.splits prod.splits)

lemma generate_with_trained_lora_fresh_calls:
  "pipeline g \<noteq> None \<Longrightarrow>
   \<exists>c. pipeline_calls (snd (generate_with_trained_lora_fresh g client style title))
          = pipeline_calls g @ [c]"
  using load_lora_weights_fresh_calls [of g client style]
  by (auto simp add: generate_with_trained_lora_fresh_def Let_def
      split: option.splits prod.splits sum.splits)

lemma generate_with_universal_lora_enhanced_fallback_calls:
  "lora_pipeline g \<noteq> None \<Longrightarrow>
   \<exists>c. pipeline_calls (snd (generate_with_universal_lora_enhanced_fallback g title client style))
          = pipeline_calls g @ [c]"
  by (auto simp add: generate_with_universal_lora_enhanced_fallback_def Let_def
      split: option.splits prod.splits sum.splits)

lemma example_background_fresh:
  "lora_available example_loaded_generator \<noteq> [] \<and> pipeline example_loaded_generator \<noteq> None
   \<and> lora_pipeline example_loaded_generator \<noteq> None
   \<and> pipeline_calls example_loaded_generator = []
   \<and> fst (generate_with_trained_lora_fresh example_loaded_generator ''hedera'' ''dark_theme''
            ''Bitcoin up'')
       = Some \<lparr>im_mode = ''RGB'', im_size = (1800, 900),
               im_content =
                 [Generated
                    (''crypto news cover background, dark professional background, subtle''
                     @ '' geometric patterns, minimal lighting, hedera color scheme,''
                     @ '' corporate style'')
                    (''text, letters, words, title, subtitle, watermark, signature, blurry,''
                     @ '' low quality, distorted, people, faces'')]\<rparr>
   \<and> fst (generate_with_universal_lora_enhanced_fallback example_loaded_generator
            ''Bitcoin up'' ''hedera'' ''dark_theme'')
       = Some \<lparr>im_mode = ''RGB'', im_size = (1800, 900),
               im_content =
                 [Generated
                    (''crypto news cover background, dark professional theme, geometric''
                     @ '' patterns, hedera branding, corporate style'')
                    ''text, letters, words, watermark, signature, blurry, low quality'']\<rparr>"
  by code_simp

lemma example_generator_nothing_loaded:
  "pipeline example_generator = None \<and> lora_pipeline example_generator = None"
  by code_simp

text \<open>
  Claim C3. In generate_cover of the fallback variants (FRESH_SDXL app.py and
  app_enhanced_fallback.py) the pipeline is called for a background, once and before
  anything else, exactly when use_trained_lora is true and a pipeline is loaded (in the
  FRESH_SDXL app: with a LoRA available); the background is then the image of that
  attempt, and when the attempt is skipped or returns None it is the image of the
  procedural generator. The procedural generator does not raise at 1800 by 900, so there
  is always a background, and it is this background that the text overlay and the
  watermark are composited on.
\<close>

theorem lora_first_then_procedural:
  "(use_trained_lora \<and> lora_available g \<noteq> [] \<and> pipeline g \<noteq> None \<longrightarrow>
      (\<exists>c. pipeline_calls (snd (background_fresh g 1800 900 client style title use_trained_lora))
             = pipeline_calls g @ [c])
      \<and> fst (background_fresh g 1800 900 client style title use_trained_lora)
          = (case fst (generate_with_trained_lora_fresh g client style title) of
               None \<Rightarrow> generate_programmatic_fallback 1800 900 client style
             | Some b \<Rightarrow> Inr b))
   \<and> (\<not> (use_trained_lora \<and> lora_available g \<noteq> [] \<and> pipeline g \<noteq> None) \<longrightarrow>
      snd (background_fresh g 1800 900 client style title use_trained_lora) = g
      \<and> fst (background_fresh g 1800 900 client style title use_trained_lora)
          = generate_programmatic_fallback 1800 900 client style)
   \<and> (\<exists>b. fst (background_fresh g 1800 900 client style title use_trained_lora) = Inr b)
   \<and> fst (fst (generate_cover_fresh env g title subtitle client style use_trained_lora))
       = (case fst (background_fresh g 1800 900 client style title use_trained_lora) of
            Inl e \<Rightarrow> None
          | Inr b \<Rightarrow>
              (case composite_cover b
                      (create_text_overlay_fresh (draw_textbbox env) 1800 900 title subtitle
                         (get_fonts_fresh env))
                      (watermark (snd (background_fresh g 1800 900 client style title
                         use_trained_lora)))
                      (1800, 900) of
                 Inl e \<Rightarrow> None
               | Inr final_image \<Rightarrow> Some final_image))
   \<and> (use_trained_lora \<and> lora_pipeline g \<noteq> None \<longrightarrow>
      (\<exists>c. pipeline_calls
               (snd (background_enhanced_fallback g 1800 900 client style title use_trained_lora))
             = pipeline_calls g @ [c])
      \<and> fst (fst (background_enhanced_fallback g 1800 900 client style title use_trained_lora))
          = (case fst (generate_with_universal_lora_enhanced_fallback g title client style) of
               None \<Rightarrow> generate_enhanced_fallback 1800 900 client style
             | Some b \<Rightarrow> Inr b))
   \<and> (\<not> (use_trained_lora \<and> lora_pipeline g \<noteq> None) \<longrightarrow>
      snd (background_enhanced_fallback g 1800 900 client style title use_trained_lora) = g
      \<and> fst (fst (background_enhanced_fallback g 1800 900 client style title use_trained_lora))
          = generate_enhanced_fallback 1800 900 client style)
   \<and> (\<exists>b. fst (fst (background_enhanced_fallback g 1800 900 client style title
                       use_trained_lora)) = Inr b)
   \<and> fst (fst (generate_cover_enhanced_fallback env g title subtitle client style
                 use_trained_lora))
       = (case fst (fst (background_enhanced_fallback g 1800 900 client style title
                           use_trained_lora)) of
            Inl e \<Rightarrow> None
          | Inr b \<Rightarrow>
              (case composite_cover b
                      (create_text_overlay_enhanced_fallback (draw_textbbox env) 1800 900 title
                         subtitle (get_fonts_enhanced_fallback env))
                      (watermark (snd (background_enhanced_fallback g 1800 900 client style title
                         use_trained_lora)))
                      (1800, 900) of
                 Inl e \<Rightarrow> None
               | Inr final_image \<Rightarrow> Some final_image))"
proof -
  let ?A = "use_trained_lora \<and> lora_available g \<noteq> [] \<and> pipeline g \<noteq> None"
  let ?r = "background_fresh g 1800 900 client style title use_trained_lora"
  let ?B = "use_trained_lora \<and> lora_pipeline g \<noteq> None"
  let ?s = "background_enhanced_fallback g 1800 900 client style title use_trained_lora"
  obtain pf where pf: "generate_programmatic_fallback 1800 900 client style = Inr pf"
    using generate_programmatic_fallback_total by blast
  obtain ef where ef: "generate_enhanced_fallback 1800 900 client style = Inr ef"
    using generate_enhanced_fallback_total by blast
  have f1: "?A \<longrightarrow>
      (\<exists>c. pipeline_calls (snd ?r) = pipeline_calls g @ [c])
      \<and> fst ?r = (case fst (generate_with_trained_lora_fresh g client style title) of
               None \<Rightarrow> generate_programmatic_fallback 1800 900 client style
             | Some b \<Rightarrow> Inr b)"
    using generate_with_trained_lora_fresh_calls [of g client style title]
    by (cases "generate_with_trained_lora_fresh g client style title")
       (auto simp add: background_fresh_def split: option.splits)
  have f2: "\<not> ?A \<longrightarrow> snd ?r = g
      \<and> fst ?r = generate_programmatic_fallback 1800 900 client style"
    by (auto simp add: background_fresh_def)
  have f3: "\<exists>b. fst ?r = Inr b"
    using pf
    by (cases "generate_with_trained_lora_fresh g client style title")
       (auto simp add: background_fresh_def split: option.splits)
  have f4: "fst (fst (generate_cover_fresh env g title subtitle client style use_trained_lora))
       = (case fst ?r of
            Inl e \<Rightarrow> None
          | Inr b \<Rightarrow>
              (case composite_cover b
                      (create_text_overlay_fresh (draw_textbbox env) 1800 900 title subtitle
                         (get_fonts_fresh env))
                      (watermark (snd ?r)) (1800, 900) of
                 Inl e \<Rightarrow> None
               | Inr final_image \<Rightarrow> Some final_image))"
    by (cases ?r) (auto simp add: generate_cover_fresh_def split: sum.splits)
  have e1: "?B \<longrightarrow>
      (\<exists>c. pipeline_calls (snd ?s) = pipeline_calls g @ [c])
      \<and> fst (fst ?s)
          = (case fst (generate_with_universal_lora_enhanced_fallback g title client style) of
               None \<Rightarrow> generate_enhanced_fallback 1800 900 client style
             | Some b \<Rightarrow> Inr b)"
    using generate_with_universal_lora_enhanced_fallback_calls [of g title client style]
    by (cases "generate_with_universal_lora_enhanced_fallback g title client style")
       (auto simp add: background_enhanced_fallback_def split: option.splits)
  have e2: "\<not> ?B \<longrightarrow> snd ?s = g
      \<and> fst (fst ?s) = generate_enhanced_fallback 1800 900 client style"
    by (auto simp add: background_enhanced_fallback_def)
  have e3: "\<exists>b. fst (fst ?s) = Inr b"
    using ef
    by (cases "generate_with_universal_lora_enhanced_fallback g title client style")
       (auto simp add: background_enhanced_fallback_def split: option.splits)
  have e4: "fst (fst (generate_cover_enhanced_fallback env g title subtitle client style
                 use_trained_lora))
       = (case fst (fst ?s) of
            Inl e \<Rightarrow> None
          | Inr b \<Rightarrow>
              (case composite_cover b
                      (create_text_overlay_enhanced_fallback (draw_textbbox env) 1800 900 title
                         subtitle (get_fonts_enhanced_fallback env))
                      (watermark (snd ?s)) (1800, 900) of
                 Inl e \<Rightarrow> None
               | Inr final_image \<Rightarrow> Some final_image))"
    by (cases ?s) (auto simp add: generate_cover_enhanced_fallback_def split: sum.splits)
  show ?thesis
    apply (intro conjI)
    using f1 apply blast
    using f2 apply blast
    using f3 apply blast
    using f4 apply blast
    using e1 apply blast
    using e2 apply blast
    using e3 apply blast
    using e4 apply blast
    done
qed

theorem lora_first_then_procedural_witness:
  "(True \<and> lora_available example_loaded_generator \<noteq> []
      \<and> pipeline example_loaded_generator \<noteq> None)
   \<and> (\<exists>c. pipeline_calls (snd (background_fresh example_loaded_generator 1800 900 ''hedera''
                 ''dark_theme'' ''Bitcoin up'' True)) = [c])
   \<and> (\<exists>c. fst (background_fresh example_loaded_generator 1800 900 ''hedera'' ''dark_theme''
                 ''Bitcoin up'' True)
            = Inr \<lparr>im_mode = ''RGB'', im_size = (1800, 900), im_content = [c]\<rparr>)
   \<and> (True \<and> lora_pipeline example_loaded_generator \<noteq> None)
   \<and> (\<exists>c. pipeline_calls (snd (background_enhanced_fallback example_loaded_generator 1800 900
                 ''hedera'' ''dark_theme'' ''Bitcoin up'' True)) = [c])
   \<and> \<not> (True \<and> lora_available example_generator \<noteq> [] \<and> pipeline example_generator \<noteq> None)
   \<and> snd (background_fresh example_generator 1800 900 ''hedera'' ''dark_theme'' ''Bitcoin up''
            True) = example_generator
   \<and> fst (background_fresh example_generator 1800 900 ''hedera'' ''dark_theme'' ''Bitcoin up''
            True)
       = generate_programmatic_fallback 1800 900 ''hedera'' ''dark_theme''
   \<and> \<not> (True \<and> lora_pipeline example_generator \<noteq> None)
   \<and> fst (fst (background_enhanced_fallback example_generator 1800 900 ''hedera''
            ''dark_theme'' ''Bitcoin up'' True))
       = generate_enhanced_fallback 1800 900 ''hedera'' ''dark_theme''"
  using lora_first_then_procedural [of True example_loaded_generator "''hedera''"
      "''dark_theme''" "''Bitcoin up''" example_env "''CRYPTO NEWS''"]
    lora_first_then_procedural [of True example_generator "''hedera''"
      "''dark_theme''" "''Bitcoin up''" example_env "''CRYPTO NEWS''"]
    example_background_fresh example_generator_nothing_loaded
  by simp

subsection \<open>The files\<close>

lemma map_of_dict_set:
  "map_of (dict_set d k v) k' = (if k' = k then Some v else map_of d k')"
  by (induction d) auto

lemma set_dict_set: "x \<in> set (dict_set d k v) \<Longrightarrow> x = (k, v) \<or> x \<in> set d"
  by (induction d) (auto split: if_splits)

lemma found_entries:
  "(k, p) \<in> set (fold (\<lambda>(client, style) available.
                         (let lora_path = lora_path_fresh lora_dir client style in
                          if path_exists env lora_path
                          then dict_set available (client @ ''_'' @ style) lora_path
                          else available)) xs d)
   \<Longrightarrow> (k, p) \<in> set d
       \<or> (\<exists>client style. k = client @ ''_'' @ style \<and> p = lora_path_fresh lora_dir client style
             \<and> path_exists env p)"
proof (induction xs arbitrary: d)
  case Nil
  then show ?case by simp
next
  case (Cons x xs)
  obtain c s where x: "x = (c, s)" by (cases x)
  show ?case
  proof (cases "path_exists env (lora_path_fresh lora_dir c s)")
    case True
    with Cons.prems x
    have "(k, p) \<in> set (dict_set d (c @ ''_'' @ s) (lora_path_fresh lora_dir c s))
       \<or> (\<exists>client style. k = client @ ''_'' @ style \<and> p = lora_path_fresh lora_dir client style
             \<and> path_exists env p)"
      using Cons.IH [of "dict_set d (c @ ''_'' @ s) (lora_path_fresh lora_dir c s)"]
      by (simp add: Let_def)
    then show ?thesis using True set_dict_set by fastforce
  next
    case False
    with Cons.prems x show ?thesis using Cons.IH [of d] by (simp add: Let_def)
  qed
qed

lemma found_kept:
  "map_of d (client @ ''_'' @ style) = Some (lora_path_fresh lora_dir client style)
   \<Longrightarrow> map_of (fold (\<lambda>(client, style) available.
                         (let lora_path = lora_path_fresh lora_dir client style in
                          if path_exists env lora_path
                          then dict_set available (client @ ''_'' @ style) lora_path
                          else available)) xs d) (client @ ''_'' @ style)
       = Some (lora_path_fresh lora_dir client style)"
proof (induction xs arbitrary: d)
  case Nil
  then show ?case by simp
next
  case (Cons x xs)
  obtain c s where x: "x = (c, s)" by (cases x)
  have same: "c @ ''_'' @ s = client @ ''_'' @ style
     \<Longrightarrow> lora_path_fresh lora_dir c s = lora_path_fresh lora_dir client style"
  proof -
    assume eq: "c @ ''_'' @ s = client @ ''_'' @ style"
    have "lora_path_fresh lora_dir c s
        = lora_dir @ ''/'' @ (c @ ''_'' @ s) @ ''_lora.safetensors''"
      by (simp add: lora_path_fresh_def)
    also have "\<dots> = lora_dir @ ''/'' @ (client @ ''_'' @ style) @ ''_lora.safetensors''"
      by (simp only: eq)
    also have "\<dots> = lora_path_fresh lora_dir client style"
      by (simp add: lora_path_fresh_def)
    finally show ?thesis .
  qed
  have "map_of (if path_exists env (lora_path_fresh lora_dir c s)
                then dict_set d (c @ ''_'' @ s) (lora_path_fresh lora_dir c s) else d)
          (client @ ''_'' @ style)
        = Some (lora_path_fresh lora_dir client style)"
    using Cons.prems same by (simp add: map_of_dict_set del: append.simps append_assoc)
  from Cons.IH [OF this] x show ?case by (simp add: Let_def)
qed

lemma found_present:
  "(client, style) \<in> set xs \<Longrightarrow> path_exists env (lora_path_fresh lora_dir client style)
   \<Longrightarrow> map_of (fold (\<lambda>(client, style) available.
                         (let lora_path = lora_path_fresh lora_dir client style in
                          if path_exists env lora_path
                          then dict_set available (client @ ''_'' @ style) lora_path
                          else available)) xs d) (client @ ''_'' @ style)
       = Some (lora_path_fresh lora_dir client style)"
proof (induction xs arbitrary: d)
  case Nil
  then show ?case by simp
next
  case (Cons x xs)
  show ?case
  proof (cases "(client, style) \<in> set xs")
    case True
    then show ?thesis using Cons.IH Cons.prems(2) by simp
  next
    case False
    with Cons.prems have x: "x = (client, style)" by simp
    have "map_of (dict_set d (client @ ''_'' @ style) (lora_path_fresh lora_dir client style))
            (client @ ''_'' @ style) = Some (lora_path_fresh lora_dir client style)"
      by (simp add: map_of_dict_set)
    from found_kept [OF this] x Cons.prems(2) show ?thesis by (simp add: Let_def)
  qed
qed

lemma lora_available_update: "lora_available (g\<lparr>lora_available := x\<rparr>) = x"
  by simp

lemma check_available_loras_fresh_unfold:
  "path_exists env ''models/lora'' \<Longrightarrow>
   lora_available (check_available_loras_fresh env g)
     = (if path_exists env (''models/lora'' @ ''/crypto_cover_styles_lora.safetensors'')
        then dict_set
               (fold (\<lambda>(client, style) available.
                         if path_exists env (lora_path_fresh ''models/lora'' client style)
                         then dict_set available (client @ ''_'' @ style)
                                (lora_path_fresh ''models/lora'' client style)
                         else available)
                  (List.product [''hedera'', ''algorand'', ''constellation'']
                     [''energy_fields'', ''dark_theme'', ''network_nodes'', ''particle_waves''])
                  (lora_available g))
               ''universal'' (''models/lora'' @ ''/crypto_cover_styles_lora.safetensors'')
        else fold (\<lambda>(client, style) available.
                         if path_exists env (lora_path_fresh ''models/lora'' client style)
                         then dict_set available (client @ ''_'' @ style)
                                (lora_path_fresh ''models/lora'' client style)
                         else available)
                  (List.product [''hedera'', ''algorand'', ''constellation'']
                     [''energy_fields'', ''dark_theme'', ''network_nodes'', ''particle_waves''])
                  (lora_available g))"
  by (simp only: check_available_loras_fresh_def Let_def lora_available_update if_True if_False
      not_True_eq_False)

lemma universal_lora_path:
  "''models/lora'' @ ''/crypto_cover_styles_lora.safetensors''
     = ''models/lora/crypto_cover_styles_lora.safetensors''"
  by simp

lemma check_available_loras_fresh_entries:
  assumes "(k, p) \<in> set (lora_available (check_available_loras_fresh env (g\<lparr>lora_available := []\<rparr>)))"
  shows "path_exists env p
     \<and> (k = ''universal'' \<and> p = ''models/lora/crypto_cover_styles_lora.safetensors''
        \<or> (\<exists>client style. k = client @ ''_'' @ style
              \<and> p = ''models/lora/'' @ client @ ''_'' @ style @ ''_lora.safetensors''))"
proof (cases "path_exists env ''models/lora''")
  case False
  with assms show ?thesis by (simp add: check_available_loras_fresh_def)
next
  case True
  define found where "found = fold (\<lambda>(client, style) available.
                         if path_exists env (lora_path_fresh ''models/lora'' client style)
                         then dict_set available (client @ ''_'' @ style)
                                (lora_path_fresh ''models/lora'' client style)
                         else available)
       (List.product [''hedera'', ''algorand'', ''constellation'']
          [''energy_fields'', ''dark_theme'', ''network_nodes'', ''particle_waves''])
       (lora_available (g\<lparr>lora_available := []\<rparr>))"
  have avail: "lora_available (check_available_loras_fresh env (g\<lparr>lora_available := []\<rparr>))
      = (if path_exists env ''models/lora/crypto_cover_styles_lora.safetensors''
         then dict_set found ''universal'' ''models/lora/crypto_cover_styles_lora.safetensors''
         else found)"
    unfolding found_def
    using check_available_loras_fresh_unfold [OF True, of "g\<lparr>lora_available := []\<rparr>"]
    by (simp only: universal_lora_path)
  have found: ?thesis if "(k, p) \<in> set found"
  proof -
    from that have "(k, p) \<in> set (fold (\<lambda>(client, style) available.
                         if path_exists env (lora_path_fresh ''models/lora'' client style)
                         then dict_set available (client @ ''_'' @ style)
                                (lora_path_fresh ''models/lora'' client style)
                         else available)
       (List.product [''hedera'', ''algorand'', ''constellation'']
          [''energy_fields'', ''dark_theme'', ''network_nodes'', ''particle_waves'']) [])"
      unfolding found_def by (simp only: lora_available_update)
    from found_entries [unfolded Let_def, OF this]
    have "(k, p) \<in> set []
       \<or> (\<exists>client style. k = client @ ''_'' @ style
             \<and> p = lora_path_fresh ''models/lora'' client style \<and> path_exists env p)" .
    then show ?thesis by (auto simp add: lora_path_fresh_def)
  qed
  show ?thesis
  proof (cases "path_exists env ''models/lora/crypto_cover_styles_lora.safetensors''")
    case False
    with assms avail have "(k, p) \<in> set found" by simp
    then show ?thesis by (rule found)
  next
    case u: True
    with assms avail
    have "(k, p) \<in> set (dict_set found ''universal''
             ''models/lora/crypto_cover_styles_lora.safetensors'')"
      by simp
    then have "(k, p) = (''universal'', ''models/lora/crypto_cover_styles_lora.safetensors'')
        \<or> (k, p) \<in> set found"
      by (rule set_dict_set)
    then show ?thesis using found u by auto
  qed
qed

lemma check_available_loras_fresh_finds:
  assumes client: "client \<in> {''hedera'', ''algorand'', ''constellation''}"
    and style: "style \<in> {''energy_fields'', ''dark_theme'', ''network_nodes'', ''particle_waves''}"
    and dir_there: "path_exists env ''models/lora''"
    and file_there:
      "path_exists env (''models/lora/'' @ client @ ''_'' @ style @ ''_lora.safetensors'')"
  shows "map_of (lora_available (check_available_loras_fresh env g)) (client @ ''_'' @ style)
     = Some (''models/lora/'' @ client @ ''_'' @ style @ ''_lora.safetensors'')"
proof -
  define xs where "xs = List.product [''hedera'', ''algorand'', ''constellation'']
          [''energy_fields'', ''dark_theme'', ''network_nodes'', ''particle_waves'']"
  define found where "found = fold (\<lambda>(client, style) available.
                         if path_exists env (lora_path_fresh ''models/lora'' client style)
                         then dict_set available (client @ ''_'' @ style)
                                (lora_path_fresh ''models/lora'' client style)
                         else available) xs (lora_available g)"
  have path: "lora_path_fresh ''models/lora'' client style
      = ''models/lora/'' @ client @ ''_'' @ style @ ''_lora.safetensors''"
    by (simp add: lora_path_fresh_def)
  have mem: "(client, style) \<in> set xs"
    unfolding xs_def using client style by (simp only: set_product) auto
  have "path_exists env (lora_path_fresh ''models/lora'' client style)"
    using file_there by (simp only: path)
  with mem have found: "map_of found (client @ ''_'' @ style)
      = Some (lora_path_fresh ''models/lora'' client style)"
    unfolding found_def by (rule found_present [unfolded Let_def])
  have key: "client @ ''_'' @ style \<noteq> ''universal''"
    using client by auto
  have "lora_available (check_available_loras_fresh env g)
      = (if path_exists env ''models/lora/crypto_cover_styles_lora.safetensors''
         then dict_set found ''universal'' ''models/lora/crypto_cover_styles_lora.safetensors''
         else found)"
    unfolding found_def xs_def
    using check_available_loras_fresh_unfold [OF dir_there, of g]
    by (simp only: universal_lora_path)
  then show ?thesis
    using found key by (simp add: map_of_dict_set path)
qed

lemma load_watermark_of_reads:
  assumes "v \<in> class_variants"
    and "load_watermark_of v env (g\<lparr>watermark := None\<rparr>) = Inr g'"
    and "watermark g' = Some w"
  shows "path_exists env ''genfinity-watermark.png''
     \<and> (\<exists>im. Image_open env ''genfinity-watermark.png'' = Inr im \<and> w = convert im ''RGBA'')"
  using assms
  by (cases v)
     (auto simp add: class_variants_def load_watermark_def load_watermark_fresh_def
        load_watermark_CPU_LORA_def load_watermark_LORA_ONLY_def Let_def
        split: if_splits sum.splits)

lemma load_watermark_of_loads:
  assumes "v \<in> class_variants"
    and "path_exists env ''genfinity-watermark.png''"
    and "Image_open env ''genfinity-watermark.png'' = Inr im"
  shows "\<exists>g'. load_watermark_of v env g = Inr g' \<and> watermark g' = Some (convert im ''RGBA'')"
  using assms
  by (cases v)
     (auto simp add: class_variants_def load_watermark_def load_watermark_fresh_def
        load_watermark_CPU_LORA_def load_watermark_LORA_ONLY_def Let_def)

lemma load_watermark_of_others:
  "v \<notin> class_variants \<Longrightarrow> load_watermark_of v env g = Inr g"
  by (cases v) (auto simp add: class_variants_def)

lemma load_lora_weights_fresh_key:
  "load_lora_weights_fresh g client style = (True, g') \<Longrightarrow>
   current_lora g'
     = Some (if map_of (lora_available g) (client @ ''_'' @ style) \<noteq> None
             then client @ ''_'' @ style else ''universal'')"
  by (auto simp add: load_lora_weights_fresh_def Let_def
      split: option.splits prod.splits if_splits)

lemma check_available_loras_universal:
  "check_available_loras_CPU_LORA env g = Inr g' \<or> check_available_loras_LORA_ONLY env g = Inr g'
   \<Longrightarrow> path_exists env ''models/lora/crypto_cover_styles_lora.safetensors''
     \<and> lora_available g'
         = dict_set (lora_available g) ''universal''
             ''models/lora/crypto_cover_styles_lora.safetensors''"
  by (auto simp add: check_available_loras_CPU_LORA_def check_available_loras_LORA_ONLY_def
      Let_def split: if_splits)

lemma try_load_lora_pipeline_file:
  "lora_pipeline (try_load_lora_pipeline env (g\<lparr>lora_pipeline := None\<rparr>)) \<noteq> None
   \<Longrightarrow> path_exists env ''models/lora/crypto_cover_styles_lora.safetensors''"
  by (auto simp add: try_load_lora_pipeline_def Let_def split: if_splits sum.splits option.splits)

lemma load_lora_model_file:
  "load_lora_model env g client
     = (path_exists env (''models/lora/'' @ client @ ''_lora.safetensors'')
        \<and> (\<exists>p. pipeline g = Some p
              \<and> pipe_load_lora_weights p (''models/lora/'' @ client @ ''_lora.safetensors'') = None
              \<and> pipe_fuse_lora p = None))"
  by (auto simp add: load_lora_model_def lora_path_lora_def Let_def split: option.splits)

lemma example_env_with_files:
  "path_exists (env_with_files files) p = (p \<in> set files)"
  by (simp add: env_with_files_def)

lemma example_lora_files:
  "\<not> load_lora_model (env_with_files [''models/lora/hedera_dark_theme_lora.safetensors''])
        example_loaded_generator ''hedera''
   \<and> load_lora_model (env_with_files [''models/lora/hedera_lora.safetensors''])
        example_loaded_generator ''hedera''"
  by code_simp

lemma example_no_universal_lora:
  "check_available_loras_CPU_LORA
        (env_with_files [''models/lora'', ''models/lora/hedera_dark_theme_lora.safetensors''])
        example_generator
       = Inl (PyException ''SystemExit'' ''Universal LoRA model required'')"
  by (simp add: check_available_loras_CPU_LORA_def example_env_with_files)

lemma example_watermark_file:
  "path_exists example_env_watermark ''genfinity-watermark.png''
   \<and> Image_open example_env_watermark ''genfinity-watermark.png''
       = Inr \<lparr>im_mode = ''RGBA'', im_size = (1800, 900),
              im_content = [File ''genfinity-watermark.png'']\<rparr>"
  by (simp add: example_env_watermark_def)

text \<open>
  Claim C5, amended. Only FRESH_SDXL app.py resolves LoRA weights of a client and a style:
  its check_available_loras registers, for the three clients and four styles, the files
  models/lora/<client>_<style>_lora.safetensors that exist, under the key
  <client>_<style>, and the universal file models/lora/crypto_cover_styles_lora.safetensors,
  and load_lora_weights takes the entry of the client and style before the universal one.
  app_lora.py loads models/lora/<client>_lora.safetensors, whatever the style;
  app_enhanced_fallback.py, app_CPU_LORA.py and app_LORA_ONLY.py use the universal file
  only. The eight variants with a generator class load the watermark from the file
  genfinity-watermark.png in the working directory, and from no other file; app_minimal.py,
  app_fixed.py and app_minimal_sd15.py load no watermark.
\<close>

theorem lora_and_watermark_files:
  "(\<forall>k p. (k, p) \<in> set (lora_available
                 (check_available_loras_fresh env (g\<lparr>lora_available := []\<rparr>))) \<longrightarrow>
        path_exists env p
        \<and> (k = ''universal'' \<and> p = ''models/lora/crypto_cover_styles_lora.safetensors''
           \<or> (\<exists>client style. k = client @ ''_'' @ style
                 \<and> p = ''models/lora/'' @ client @ ''_'' @ style @ ''_lora.safetensors'')))
   \<and> (client \<in> {''hedera'', ''algorand'', ''constellation''}
       \<and> style \<in> {''energy_fields'', ''dark_theme'', ''network_nodes'', ''particle_waves''}
       \<and> path_exists env ''models/lora''
       \<and> path_exists env (''models/lora/'' @ client @ ''_'' @ style @ ''_lora.safetensors'') \<longrightarrow>
        map_of (lora_available (check_available_loras_fresh env g)) (client @ ''_'' @ style)
          = Some (''models/lora/'' @ client @ ''_'' @ style @ ''_lora.safetensors''))
   \<and> (\<forall>g'. load_lora_weights_fresh g client style = (True, g') \<longrightarrow>
        current_lora g'
          = Some (if map_of (lora_available g) (client @ ''_'' @ style) \<noteq> None
                  then client @ ''_'' @ style else ''universal''))
   \<and> load_lora_model env g client
       = (path_exists env (''models/lora/'' @ client @ ''_lora.safetensors'')
          \<and> (\<exists>p. pipeline g = Some p
                \<and> pipe_load_lora_weights p (''models/lora/'' @ client @ ''_lora.safetensors'')
                    = None
                \<and> pipe_fuse_lora p = None))
   \<and> (\<forall>g'. check_available_loras_CPU_LORA env g = Inr g'
            \<or> check_available_loras_LORA_ONLY env g = Inr g' \<longrightarrow>
        path_exists env ''models/lora/crypto_cover_styles_lora.safetensors''
        \<and> lora_available g'
            = dict_set (lora_available g) ''universal''
                ''models/lora/crypto_cover_styles_lora.safetensors'')
   \<and> (lora_pipeline (try_load_lora_pipeline env (g\<lparr>lora_pipeline := None\<rparr>)) \<noteq> None \<longrightarrow>
        path_exists env ''models/lora/crypto_cover_styles_lora.safetensors'')
   \<and> (v \<in> class_variants \<longrightarrow>
        (\<forall>g' w. load_watermark_of v env (g\<lparr>watermark := None\<rparr>) = Inr g'
                 \<and> watermark g' = Some w \<longrightarrow>
           path_exists env ''genfinity-watermark.png''
           \<and> (\<exists>im. Image_open env ''genfinity-watermark.png'' = Inr im
                 \<and> w = convert im ''RGBA'')))
   \<and> (v \<in> class_variants \<and> path_exists env ''genfinity-watermark.png''
       \<and> Image_open env ''genfinity-watermark.png'' = Inr wm \<longrightarrow>
        (\<exists>g'. load_watermark_of v env g = Inr g' \<and> watermark g' = Some (convert wm ''RGBA'')))
   \<and> (v \<notin> class_variants \<longrightarrow> load_watermark_of v env g = Inr g)"
proof (intro conjI)
  show "\<forall>k p. (k, p) \<in> set (lora_available
                 (check_available_loras_fresh env (g\<lparr>lora_available := []\<rparr>))) \<longrightarrow>
        path_exists env p
        \<and> (k = ''universal'' \<and> p = ''models/lora/crypto_cover_styles_lora.safetensors''
           \<or> (\<exists>client style. k = client @ ''_'' @ style
                 \<and> p = ''models/lora/'' @ client @ ''_'' @ style @ ''_lora.safetensors''))"
    by (intro allI impI) (rule check_available_loras_fresh_entries)
next
  show "client \<in> {''hedera'', ''algorand'', ''constellation''}
       \<and> style \<in> {''energy_fields'', ''dark_theme'', ''network_nodes'', ''particle_waves''}
       \<and> path_exists env ''models/lora''
       \<and> path_exists env (''models/lora/'' @ client @ ''_'' @ style @ ''_lora.safetensors'') \<longrightarrow>
        map_of (lora_available (check_available_loras_fresh env g)) (client @ ''_'' @ style)
          = Some (''models/lora/'' @ client @ ''_'' @ style @ ''_lora.safetensors'')"
    by (intro impI, elim conjE) (rule check_available_loras_fresh_finds; assumption)
next
  show "\<forall>g'. load_lora_weights_fresh g client style = (True, g') \<longrightarrow>
        current_lora g'
          = Some (if map_of (lora_available g) (client @ ''_'' @ style) \<noteq> None
                  then client @ ''_'' @ style else ''universal'')"
    by (intro allI impI) (rule load_lora_weights_fresh_key)
next
  show "load_lora_model env g client
       = (path_exists env (''models/lora/'' @ client @ ''_lora.safetensors'')
          \<and> (\<exists>p. pipeline g = Some p
                \<and> pipe_load_lora_weights p (''models/lora/'' @ client @ ''_lora.safetensors'')
                    = None
                \<and> pipe_fuse_lora p = None))"
    by (rule load_lora_model_file)
next
  show "\<forall>g'. check_available_loras_CPU_LORA env g = Inr g'
            \<or> check_available_loras_LORA_ONLY env g = Inr g' \<longrightarrow>
        path_exists env ''models/lora/crypto_cover_styles_lora.safetensors''
        \<and> lora_available g'
            = dict_set (lora_available g) ''universal''
                ''models/lora/crypto_cover_styles_lora.safetensors''"
    by (intro allI impI) (rule check_available_loras_universal)
next
  show "lora_pipeline (try_load_lora_pipeline env (g\<lparr>lora_pipeline := None\<rparr>)) \<noteq> None \<longrightarrow>
        path_exists env ''models/lora/crypto_cover_styles_lora.safetensors''"
    by (intro impI) (rule try_load_lora_pipeline_file)
next
  show "v \<in> class_variants \<longrightarrow>
        (\<forall>g' w. load_watermark_of v env (g\<lparr>watermark := None\<rparr>) = Inr g'
                 \<and> watermark g' = Some w \<longrightarrow>
           path_exists env ''genfinity-watermark.png''
           \<and> (\<exists>im. Image_open env ''genfinity-watermark.png'' = Inr im
                 \<and> w = convert im ''RGBA''))"
    by (intro allI impI, elim conjE) (rule load_watermark_of_reads; assumption)
next
  show "v \<in> class_variants \<and> path_exists env ''genfinity-watermark.png''
       \<and> Image_open env ''genfinity-watermark.png'' = Inr wm \<longrightarrow>
        (\<exists>g'. load_watermark_of v env g = Inr g' \<and> watermark g' = Some (convert wm ''RGBA''))"
    by (intro impI, elim conjE) (rule load_watermark_of_loads; assumption)
next
  show "v \<notin> class_variants \<longrightarrow> load_watermark_of v env g = Inr g"
    by (intro impI) (rule load_watermark_of_others)
qed

theorem lora_and_watermark_files_witness:
  "''hedera'' \<in> {''hedera'', ''algorand'', ''constellation''}
   \<and> ''dark_theme'' \<in> {''energy_fields'', ''dark_theme'', ''network_nodes'', ''particle_waves''}
   \<and> path_exists
        (env_with_files [''models/lora'', ''models/lora/hedera_dark_theme_lora.safetensors''])
        ''models/lora''
   \<and> path_exists
        (env_with_files [''models/lora'', ''models/lora/hedera_dark_theme_lora.safetensors''])
        ''models/lora/hedera_dark_theme_lora.safetensors''
   \<and> map_of (lora_available (check_available_loras_fresh
        (env_with_files [''models/lora'', ''models/lora/hedera_dark_theme_lora.safetensors''])
        example_generator)) ''hedera_dark_theme''
       = Some ''models/lora/hedera_dark_theme_lora.safetensors''
   \<and> FRESH_SDXL_app \<in> class_variants
   \<and> path_exists example_env_watermark ''genfinity-watermark.png''
   \<and> (\<exists>g'. load_watermark_of FRESH_SDXL_app example_env_watermark example_generator = Inr g'
          \<and> watermark g'
              = Some \<lparr>im_mode = ''RGBA'', im_size = (1800, 900),
                      im_content = [File ''genfinity-watermark.png'']\<rparr>)
   \<and> app_minimal \<notin> class_variants
   \<and> load_watermark_of app_minimal example_env_watermark example_generator
       = Inr example_generator"
  using lora_and_watermark_files
      [where env = "env_with_files [''models/lora'',
                      ''models/lora/hedera_dark_theme_lora.safetensors'']"
         and g = example_generator and client = "''hedera''" and style = "''dark_theme''"
         and v = FRESH_SDXL_app]
    lora_and_watermark_files
      [where env = example_env_watermark and g = example_generator and v = FRESH_SDXL_app
         and wm = "\<lparr>im_mode = ''RGBA'', im_size = (1800, 900),
                    im_content = [File ''genfinity-watermark.png'']\<rparr>"]
    lora_and_watermark_files
      [where env = example_env_watermark and g = example_generator and v = app_minimal]
    example_watermark_file
  by (simp add: example_env_with_files class_variants_def convert_def)

theorem lora_file_of_client_alone:
  "\<not> load_lora_model (env_with_files [''models/lora/hedera_dark_theme_lora.safetensors''])
        example_loaded_generator ''hedera''
   \<and> load_lora_model (env_with_files [''models/lora/hedera_lora.safetensors''])
        example_loaded_generator ''hedera''
   \<and> check_available_loras_CPU_LORA
        (env_with_files [''models/lora'', ''models/lora/hedera_dark_theme_lora.safetensors''])
        example_generator
       = Inl (PyException ''SystemExit'' ''Universal LoRA model required'')
   \<and> load_watermark_of app_minimal example_env_watermark example_generator
       = Inr example_generator"
  using example_lora_files example_no_universal_lora by simp

end
